theory Spec2Isabelle
  imports Complex_Main "HOL-Library.AList" "HOL-Library.Char_ord" "HOL-Library.List_Lexorder"
begin

section \<open>Exceptions, collaborators and the event trace\<close>

text \<open>
  The deployment code of ocs-ci is a sequence of calls to external collaborators (the
  \<open>oc\<close> command line, the resource client, the ceph toolbox, log collection).  The model
  is a shallow embedding with explicit state passing: every function takes the state and
  returns either an exception or a value, together with the new state.  The state holds
  the trace of everything the function did (calls, log lines, sleeps) and the few globals
  the code mutates.  What a collaborator answers is decided by an environment that sees
  the trace so far and the call; theorems quantify over all environments.

  The type \<open>exn\<close> stands for the instances of Python's \<open>Exception\<close> class that the code
  raises or catches by name; \<open>OtherError\<close> is any other subclass of \<open>Exception\<close>.
\<close>

datatype exn =
    CommandFailed string
  | CephHealthException string
  | ResourceWrongStatusException string string
  | TimeoutExpiredError string
  | UnavailableResourceException string
  | UnsupportedFeatureError string
  | ExternalClusterDetailsException string
  | IndexError
  | KeyError string
  | TypeError string
  | AssertionError string
  | UnboundLocalError string
  | OtherError string

text \<open>
  \<open>str(ex)\<close>.  An exception built with one argument prints that argument; \<open>KeyError\<close>
  prints the \<open>repr\<close> of its key (the key between single quotes);
  \<open>ResourceWrongStatusException\<close> is built with two arguments (the resource name and the
  describe output) and prints as the pair of them.
\<close>

definition quoted :: "string \<Rightarrow> string" where
  "quoted s = [CHR 0x27] @ s @ [CHR 0x27]"

fun exn_str :: "exn \<Rightarrow> string" where
  "exn_str (CommandFailed m) = m"
| "exn_str (CephHealthException m) = m"
| "exn_str (ResourceWrongStatusException n d) = ''('' @ quoted n @ '', '' @ quoted d @ '')''"
| "exn_str (TimeoutExpiredError m) = m"
| "exn_str (UnavailableResourceException m) = m"
| "exn_str (UnsupportedFeatureError m) = m"
| "exn_str (ExternalClusterDetailsException m) = m"
| "exn_str IndexError = ''list index out of range''"
| "exn_str (KeyError k) = quoted k"
| "exn_str (TypeError m) = m"
| "exn_str (AssertionError m) = m"
| "exn_str (UnboundLocalError m) = m"
| "exn_str (OtherError m) = m"

datatype loglevel = DEBUG | INFO | WARNING | ERROR

text \<open>A file handed to \<open>oc create -f\<close>: a fixed template path, or the temporary file
  that \<open>tempfile.NamedTemporaryFile\<close> made with the given prefix.\<close>

datatype path = Path string | TempFile string

text \<open>What python returns from a function whose value the claims speak about.\<close>

datatype pyval = PyNone | PyBool bool

subsection \<open>The storage-cluster document\<close>

datatype resreq =
    NoneResources
  | Resources (limits_cpu: int) (limits_memory: string) (requests_cpu: int) (requests_memory: string)

text \<open>The storage request of a device set: \<open>f"{device_size}Gi"\<close>, or a size string as
  \<open>get_pv_size\<close> reported it.\<close>

datatype storage_size = Gi int | Size string

record deviceset_data =
  ds_count :: int
  ds_storage :: storage_size
  ds_storageClassName :: "string option"
  ds_portable :: "bool option"
  ds_resources :: "resreq option"

record cluster_data =
  cd_name :: string
  cd_annotations :: "(string \<times> string) list option"
  cd_manageNodes :: "bool option"
  cd_monDataDirHostPath :: "string option"
  cd_resources :: "(string \<times> resreq) list option"
  cd_hostNetwork :: "bool option"
  cd_storageDeviceSets :: "deviceset_data list"
  cd_encryption_enable :: "bool option"

record subscription_data =
  sub_installPlanApproval :: "string option"
  sub_channel :: "string option"
  sub_source :: "string option"

datatype yaml_data =
    ClusterYaml cluster_data
  | SubscriptionYaml subscription_data
  | SecretYaml string

subsection \<open>Calls to collaborators\<close>

datatype call =
    RunCmd string
  | OcCreate path "nat option"
  | IsClusterRunning string
  | OCPDeployment_init
  | OCPDeployment_deploy_prereq
  | OCPDeployment_deploy string
  | OCPDeployment_destroy string
  | SetSelinuxPermissions
  | SetRegistryToManagedState
  | AddStageCert
  | CollectOcsLogs string "bool option" "bool option" "bool option"
  | OcpGet string string
  | PodWaitForResource string string "nat option" nat
  | ValidateClusterOnPvc
  | ValidatePdbCreation
  | SetupCephToolbox
  | ValidateCephfilesystem string
  | DefaultStorageClass string
  | GetAllPods string "string list"
  | CreateConfigmapClusterMonitoringPod "string option" "string option"
  | ValidatePodsAreRespinnedAndRunningState "string list"
  | ValidatePvcCreatedAndBoundOnMonitoringPods
  | ValidatePvcAreMountedOnMonitoringPods "string list"
  | ChangeRegistryBackendToOcs
  | CephHealthCheck string nat nat
  | UpdateNtpComputeNodes
  | CephClusterExternalHealthCheck nat
  | UninstallOcs
  | DestroyOcs
  | GetSelectorForOcsOperator
  | PackageManifestWaitForResource string "string option" nat
  | PackageManifestGetDefaultChannel
  | PackageManifestGetCurrentCsv "string option"
  | LoadYaml string
  | NamedTemporaryFile string
  | DumpDataToTempYaml yaml_data path
  | WaitForInstallPlanAndApprove string
  | CsvWaitForPhase string string string nat
  | ModifyCsv string string string
  | OpenCustomStorageClass string
  | GetPvSize string
  | GetOcpVersion
  | ExecOcCmd string string
  | SetupLocalStorage string
  | LabelAndTaintNodes
  | CreateStageOperatorSource
  | CreateCatalogSource
  | OpenshiftConsoleRun string string
  | ResourceWaitForResource string string string nat
  | ResourceReload string string
  | ResourceDescribe string string

datatype event = Call call | Log loglevel string | Sleep nat

text \<open>
  The environment: one responder for each type of answer.  A responder sees the trace
  before the call and the call itself.
\<close>

record env =
  answer_unit :: "event list \<Rightarrow> call \<Rightarrow> exn option"
  answer_bool :: "event list \<Rightarrow> call \<Rightarrow> exn + bool"
  answer_str :: "event list \<Rightarrow> call \<Rightarrow> exn + string"
  answer_strs :: "event list \<Rightarrow> call \<Rightarrow> exn + string list"
  answer_items :: "event list \<Rightarrow> call \<Rightarrow> exn + string list option"
  answer_num :: "event list \<Rightarrow> call \<Rightarrow> exn + rat"
  answer_cluster :: "event list \<Rightarrow> call \<Rightarrow> exn + cluster_data"
  answer_sub :: "event list \<Rightarrow> call \<Rightarrow> exn + subscription_data"

text \<open>The state: the trace and the globals that the deployment code assigns.\<close>

record state =
  trace :: "event list"
  is_ocp_deployment_failed :: bool
  CEPHFILESYSTEM_NAME :: string
  DEFAULT_STORAGECLASS :: "string option"

type_synonym 'a prog = "state \<Rightarrow> (exn + 'a) \<times> state"

definition ret :: "'a \<Rightarrow> 'a prog" where
  "ret x s = (Inr x, s)"

definition raise :: "exn \<Rightarrow> 'a prog" where
  "raise e s = (Inl e, s)"

definition bnd :: "'a prog \<Rightarrow> ('a \<Rightarrow> 'b prog) \<Rightarrow> 'b prog" where
  "bnd m f s = (case m s of (Inl e, s') \<Rightarrow> (Inl e, s') | (Inr x, s') \<Rightarrow> f x s')"

definition seq :: "'a prog \<Rightarrow> 'b prog \<Rightarrow> 'b prog" where
  "seq m n = bnd m (\<lambda>_. n)"

text \<open>\<open>try: m except Exception as e: h e\<close>\<close>

definition try_except :: "'a prog \<Rightarrow> (exn \<Rightarrow> 'a prog) \<Rightarrow> 'a prog" where
  "try_except m h s = (case m s of (Inl e, s') \<Rightarrow> h e s' | (Inr x, s') \<Rightarrow> (Inr x, s'))"

definition emit :: "event \<Rightarrow> state \<Rightarrow> state" where
  "emit ev s = s\<lparr>trace := trace s @ [ev]\<rparr>"

definition logger :: "loglevel \<Rightarrow> string \<Rightarrow> unit prog" where
  "logger lvl msg s = (Inr (), emit (Log lvl msg) s)"

definition sleep :: "nat \<Rightarrow> unit prog" where
  "sleep n s = (Inr (), emit (Sleep n) s)"

definition call_unit :: "env \<Rightarrow> call \<Rightarrow> unit prog" where
  "call_unit E c s =
     (case answer_unit E (trace s) c of
        Some e \<Rightarrow> (Inl e, emit (Call c) s)
      | None \<Rightarrow> (Inr (), emit (Call c) s))"

definition call_bool :: "env \<Rightarrow> call \<Rightarrow> bool prog" where
  "call_bool E c s = (answer_bool E (trace s) c, emit (Call c) s)"

definition call_str :: "env \<Rightarrow> call \<Rightarrow> string prog" where
  "call_str E c s = (answer_str E (trace s) c, emit (Call c) s)"

definition call_strs :: "env \<Rightarrow> call \<Rightarrow> string list prog" where
  "call_strs E c s = (answer_strs E (trace s) c, emit (Call c) s)"

definition call_items :: "env \<Rightarrow> call \<Rightarrow> string list option prog" where
  "call_items E c s = (answer_items E (trace s) c, emit (Call c) s)"

definition call_num :: "env \<Rightarrow> call \<Rightarrow> rat prog" where
  "call_num E c s = (answer_num E (trace s) c, emit (Call c) s)"

definition call_cluster :: "env \<Rightarrow> call \<Rightarrow> cluster_data prog" where
  "call_cluster E c s = (answer_cluster E (trace s) c, emit (Call c) s)"

definition call_sub :: "env \<Rightarrow> call \<Rightarrow> subscription_data prog" where
  "call_sub E c s = (answer_sub E (trace s) c, emit (Call c) s)"

text \<open>\<open>assert b\<close>, which raises an \<open>AssertionError\<close> without a message.\<close>

definition assert :: "bool \<Rightarrow> unit prog" where
  "assert b = (if b then ret () else raise (AssertionError ''''))"

section \<open>ocs\_ci/ocs/constants.py\<close>

definition STATUS_RUNNING :: string where
  "STATUS_RUNNING = ''Running''"

definition CEPHFILESYSTEM :: string where
  "CEPHFILESYSTEM = ''CephFileSystem''"

definition CEPHBLOCKPOOL :: string where
  "CEPHBLOCKPOOL = ''CephBlockPool''"

definition POD :: string where
  "POD = ''Pod''"

definition DEFAULT_CLUSTERNAME :: string where
  "DEFAULT_CLUSTERNAME = ''ocs-storagecluster''"

definition DEFAULT_STORAGECLASS_CEPHFS :: string where
  "DEFAULT_STORAGECLASS_CEPHFS = DEFAULT_CLUSTERNAME @ ''-cephfs''"

definition DEFAULT_STORAGECLASS_RBD :: string where
  "DEFAULT_STORAGECLASS_RBD = DEFAULT_CLUSTERNAME @ ''-ceph-rbd''"

definition AWS_PLATFORM :: string where
  "AWS_PLATFORM = ''aws''"

definition VSPHERE_PLATFORM :: string where
  "VSPHERE_PLATFORM = ''vsphere''"

definition OPERATOR_SOURCE_NAME :: string where
  "OPERATOR_SOURCE_NAME = ''ocs-operatorsource''"

definition CHROME_BROWSER :: string where
  "CHROME_BROWSER = ''chrome''"

section \<open>tests/helpers.py\<close>

text \<open>The resource object: the fields of \<open>OCS\<close> that \<open>wait_for_resource_state\<close> reads.\<close>

record resource =
  name :: string
  kind :: string

text \<open>
  \<open>wait_for_resource_state(resource, state, timeout=60)\<close>.  The function has no
  \<open>return\<close> with a value: python returns \<open>None\<close> on both normal exits.
\<close>

definition wait_for_resource_state :: "env \<Rightarrow> resource \<Rightarrow> string \<Rightarrow> nat \<Rightarrow> pyval prog" where
  "wait_for_resource_state E resource st timeout =
     (if name resource = DEFAULT_STORAGECLASS_CEPHFS \<or> name resource = DEFAULT_STORAGECLASS_RBD
      then seq (logger INFO ''Attempt to default default Secret or StorageClass'') (ret PyNone)
      else
        seq (try_except
               (call_unit E (ResourceWaitForResource (kind resource) st (name resource) timeout))
               (\<lambda>e. case e of
                  TimeoutExpiredError m \<Rightarrow>
                    seq (logger ERROR (kind resource @ '' '' @ name resource @ '' failed to reach '' @ st))
                   (seq (call_unit E (ResourceReload (kind resource) (name resource)))
                   (bnd (call_str E (ResourceDescribe (kind resource) (name resource)))
                        (\<lambda>d. raise (ResourceWrongStatusException (name resource) d))))
                | _ \<Rightarrow> raise e))
       (seq (logger INFO (kind resource @ '' '' @ name resource @ '' reached state '' @ st))
            (ret PyNone)))"


section \<open>Python built-ins used by the deployment code\<close>

text \<open>\<open>s.startswith(p)\<close> and \<open>sub in s\<close> on strings.\<close>

fun starts_with :: "string \<Rightarrow> string \<Rightarrow> bool" where
  "starts_with s [] = True"
| "starts_with [] (p # ps) = False"
| "starts_with (c # cs) (p # ps) = (c = p \<and> starts_with cs ps)"

fun py_in :: "string \<Rightarrow> string \<Rightarrow> bool" where
  "py_in sub [] = (sub = [])"
| "py_in sub (c # cs) = (starts_with (c # cs) sub \<or> py_in sub cs)"

text \<open>\<open>s.lower()\<close> on ASCII.\<close>

definition lower_char :: "char \<Rightarrow> char" where
  "lower_char c =
     (let n = (of_char c :: nat) in if 65 \<le> n \<and> n \<le> 90 then char_of (n + 32) else c)"

definition lower :: "string \<Rightarrow> string" where
  "lower s = map lower_char s"

text \<open>Truthiness of an optional string (\<open>None\<close> and \<open>""\<close> are false).\<close>

fun truthy :: "string option \<Rightarrow> bool" where
  "truthy None = False"
| "truthy (Some s) = (s \<noteq> [])"

section \<open>ocs\_ci/utility/retry.py\<close>

text \<open>
  Modelled from the spec: the decorator \<open>retry\<close>, whose module is not among the sources.
  The wrapped callable is invoked again, up to \<open>tries\<close> times in all, when it raises one
  of the given exception types, sleeping \<open>delay * backoff^(attempt-1)\<close> between attempts;
  the last exception is raised again when all attempts fail; \<open>tries \<le> 1\<close> is one attempt
  without sleep; an exception of another type propagates at once.  \<open>backoff\<close> defaults to 1.
\<close>

fun retry_loop :: "(exn \<Rightarrow> bool) \<Rightarrow> nat \<Rightarrow> nat \<Rightarrow> nat \<Rightarrow> 'a prog \<Rightarrow> 'a prog" where
  "retry_loop types 0 delay backoff f s = f s"
| "retry_loop types (Suc n) delay backoff f s =
     try_except f
       (\<lambda>e. if types e then seq (sleep delay) (retry_loop types n (delay * backoff) backoff f)
             else raise e) s"

definition retry :: "(exn \<Rightarrow> bool) \<Rightarrow> nat \<Rightarrow> nat \<Rightarrow> 'a prog \<Rightarrow> 'a prog" where
  "retry types tries delay f = retry_loop types (tries - 1) delay 1 f"

section \<open>Floating point\<close>

text \<open>
  The code turns version strings into numbers with \<open>float(...)\<close> and compares them with
  the literals \<open>4.5\<close> and \<open>4.6\<close>.  A double is modelled by the rational number it
  denotes.  \<open>4.5\<close> is a double; the literal \<open>4.6\<close> is the double nearest to 4.6, which is
  \<open>5179139571476070 / 2^50\<close>, a little below 4.6.  A version string whose decimal value
  is below 4.6 but rounds to that double (such as \<open>4.59999999999999999\<close>) is therefore
  not below \<open>4.6\<close> for the code.
\<close>

definition double_4_6 :: rat where
  "double_4_6 = 5179139571476070 / 1125899906842624"

section \<open>Run configuration\<close>

text \<open>
  \<open>config.ENV_DATA\<close>, \<open>config.DEPLOYMENT\<close>, \<open>config.REPORTING\<close> and
  \<open>config.EXTERNAL_MODE\<close>: the keys the modelled functions read.  A key read with
  \<open>.get\<close> and tested for truth is a \<open>bool\<close>; a key whose absence or value matters is an
  option.  \<open>ocs_version\<close> is the double that \<open>float(config.ENV_DATA["ocs_version"])\<close>
  returns (for the string \<open>4.6\<close> it is \<open>double_4_6\<close>); the answer to \<open>GetOcpVersion\<close> is the
  double \<open>float(get_ocp_version())\<close>.
\<close>

record env_data =
  platform :: string
  cluster_path :: string
  cluster_namespace :: string
  skip_ocp_deployment :: bool
  skip_ocs_deployment :: bool
  storage_cluster_name :: string
  number_of_storage_nodes :: nat
  device_size :: "int option"
  ocs_version :: rat
  encryption_at_rest :: bool
  monitoring_enabled :: bool
  persistent_monitoring :: bool
  telemeter_server_url :: "string option"

record deployment =
  subscription_plan_approval :: "string option"
  ocs_csv_channel :: "string option"
  stage :: bool
  live_deployment :: bool
  live_content_source :: "string option"
  ui_deployment :: bool
  local_storage :: bool
  csv_change_from :: "string option"
  csv_change_to :: "string option"
  allow_lower_instance_requirements :: bool
  host_network :: bool
  infra_nodes :: bool
  external_mode :: bool
  deployment_browser :: "string option"

text \<open>The rest of the configuration and the class attributes of \<open>Deployment\<close> that a
  platform subclass sets.\<close>

record config =
  ENV_DATA :: env_data
  DEPLOYMENT :: deployment
  gather_on_deploy_failure :: bool
  collect_logs_on_success_run :: bool
  external_cluster_details :: string
  DEFAULT_STORAGECLASS_LSO :: string
  CUSTOM_STORAGE_CLASS_PATH :: "string option"
  class_name :: string

text \<open>
  Constants of \<open>ocs_ci.ocs.constants\<close> and \<open>ocs_ci.ocs.defaults\<close> that the deployment
  module uses and that are not defined in the sources at hand: they are parameters.
\<close>

record constants =
  IBM_POWER_PLATFORM :: string
  BAREMETAL_PLATFORM :: string
  RH_NTP_CLOCK :: string
  IBM_STORAGE_CLUSTER_YAML :: string
  EXTERNAL_CLUSTER_SECRET_YAML :: string
  EXTERNAL_STORAGE_CLUSTER_YAML :: string
  NODE_SELECTOR_ANNOTATION :: string
  OCS_OPERATOR_NAME :: string
  LIVE_CONTENT_SOURCE :: string
  ROOK_CLUSTER_NAMESPACE :: string
  OCS_MONITORING_NAMESPACE :: string
  DEVICE_SIZE :: int

text \<open>Template paths, relative to the top directory of the repository.\<close>

definition TEMPLATE_DEPLOYMENT_DIR :: string where
  "TEMPLATE_DEPLOYMENT_DIR = ''ocs_ci/templates/ocs-deployment''"

definition OLM_YAML :: string where
  "OLM_YAML = TEMPLATE_DEPLOYMENT_DIR @ ''/deploy-with-olm.yaml''"

definition SUBSCRIPTION_YAML :: string where
  "SUBSCRIPTION_YAML = TEMPLATE_DEPLOYMENT_DIR @ ''/subscription.yaml''"

definition STORAGE_CLUSTER_YAML :: string where
  "STORAGE_CLUSTER_YAML = TEMPLATE_DEPLOYMENT_DIR @ ''/storage-cluster.yaml''"


section \<open>ocs\_ci/deployment/deployment.py\<close>

text \<open>
  Collaborators are recorded with the arguments the code passes.  In
  \<open>CollectOcsLogs dir ocp ocs status_failure\<close> an argument that the call leaves to its
  default is \<open>None\<close>.  \<open>run_cmd(f"oc create -f {file}", timeout=t)\<close> is recorded as
  \<open>OcCreate file t\<close>, so that a temporary file is known by the prefix it was made with.
  Four functions of the module are kept opaque, one call each, since no property below
  depends on what they do inside: \<open>label_and_taint_nodes\<close>,
  \<open>create_stage_operator_source\<close>, \<open>create_catalog_source\<close> and
  \<open>setup_local_storage\<close>.  \<open>destroy_ocs\<close> is a method of a platform subclass.
\<close>

definition sq :: string where
  "sq = [CHR 0x27]"

definition dq :: string where
  "dq = [CHR 0x22]"

definition namespace :: "config \<Rightarrow> string" where
  "namespace C = cluster_namespace (ENV_DATA C)"

definition run_cmd :: "env \<Rightarrow> string \<Rightarrow> string prog" where
  "run_cmd E cmd = call_str E (RunCmd cmd)"

definition oc_create :: "env \<Rightarrow> path \<Rightarrow> nat option \<Rightarrow> unit prog" where
  "oc_create E file timeout = call_unit E (OcCreate file timeout)"

definition collect_ocs_logs :: "env \<Rightarrow> string \<Rightarrow> bool option \<Rightarrow> bool option \<Rightarrow> bool option \<Rightarrow> unit prog" where
  "collect_ocs_logs E dir_name ocp ocs status_failure =
     call_unit E (CollectOcsLogs dir_name ocp ocs status_failure)"

text \<open>\<open>config.RUN["is_ocp_deployment_failed"] = True\<close>\<close>

definition set_is_ocp_deployment_failed :: "unit prog" where
  "set_is_ocp_deployment_failed s = (Inr (), s\<lparr>is_ocp_deployment_failed := True\<rparr>)"

text \<open>\<open>self.DEFAULT_STORAGECLASS = name\<close>\<close>

definition set_DEFAULT_STORAGECLASS :: "string \<Rightarrow> unit prog" where
  "set_DEFAULT_STORAGECLASS n s = (Inr (), s\<lparr>DEFAULT_STORAGECLASS := Some n\<rparr>)"

text \<open>Reading \<open>self.DEFAULT_STORAGECLASS\<close>\<close>

definition get_DEFAULT_STORAGECLASS :: "string option prog" where
  "get_DEFAULT_STORAGECLASS s = (Inr (DEFAULT_STORAGECLASS s), s)"

text \<open>\<open>defaults.CEPHFILESYSTEM_NAME = cfs_name\<close>\<close>

definition set_CEPHFILESYSTEM_NAME :: "string \<Rightarrow> unit prog" where
  "set_CEPHFILESYSTEM_NAME n s = (Inr (), s\<lparr>CEPHFILESYSTEM_NAME := n\<rparr>)"

subsection \<open>deploy\_ocp, post\_ocp\_deploy\<close>

definition deploy_ocp :: "env \<Rightarrow> string \<Rightarrow> unit prog" where
  "deploy_ocp E log_cli_level =
     seq (call_unit E OCPDeployment_init)
    (seq (call_unit E OCPDeployment_deploy_prereq)
    (seq (call_unit E (OCPDeployment_deploy log_cli_level))
    (bnd (run_cmd E (''oc get clusterversion version -o jsonpath='' @ sq @ ''{.spec.clusterID}'' @ sq))
         (\<lambda>cluster_id. logger INFO (''clusterID (UUID): '' @ cluster_id)))))"

definition post_ocp_deploy :: "env \<Rightarrow> unit prog" where
  "post_ocp_deploy E =
     seq (call_unit E SetSelinuxPermissions)
    (seq (call_unit E SetRegistryToManagedState)
         (call_unit E AddStageCert))"

subsection \<open>create\_ocs\_operator\_source, subscribe\_ocs\<close>

definition create_ocs_operator_source :: "env \<Rightarrow> config \<Rightarrow> unit prog" where
  "create_ocs_operator_source E C =
     (if stage (DEPLOYMENT C) then call_unit E CreateStageOperatorSource
      else call_unit E CreateCatalogSource)"

definition subscribe_ocs :: "env \<Rightarrow> config \<Rightarrow> constants \<Rightarrow> unit prog" where
  "subscribe_ocs E C K =
     bnd (call_str E GetSelectorForOcsOperator) (\<lambda>operator_selector.
     seq (call_unit E (PackageManifestWaitForResource operator_selector None 300))
    (bnd (call_str E PackageManifestGetDefaultChannel) (\<lambda>default_channel.
     bnd (call_sub E (LoadYaml SUBSCRIPTION_YAML)) (\<lambda>y0.
     let plan_approval = subscription_plan_approval (DEPLOYMENT C);
         y1 = (if truthy plan_approval
               then y0\<lparr>sub_installPlanApproval := plan_approval\<rparr> else y0);
         custom_channel = ocs_csv_channel (DEPLOYMENT C)
     in
     bnd (if truthy custom_channel
          then seq (logger INFO (''Custom channel will be used: '' @ the custom_channel))
                   (ret (y1\<lparr>sub_channel := custom_channel\<rparr>))
          else seq (logger INFO (''Default channel will be used: '' @ default_channel))
                   (ret (y1\<lparr>sub_channel := Some default_channel\<rparr>))) (\<lambda>y2.
     let y3 = (if stage (DEPLOYMENT C) then y2\<lparr>sub_source := Some OPERATOR_SOURCE_NAME\<rparr> else y2);
         y4 = (if live_deployment (DEPLOYMENT C)
               then y3\<lparr>sub_source := Some (case live_content_source (DEPLOYMENT C) of
                                                Some src \<Rightarrow> src | None \<Rightarrow> LIVE_CONTENT_SOURCE K)\<rparr>
               else y3)
     in
     seq (call_unit E (NamedTemporaryFile ''subscription_manifest''))
    (seq (call_unit E (DumpDataToTempYaml (SubscriptionYaml y4) (TempFile ''subscription_manifest'')))
    (seq (oc_create E (TempFile ''subscription_manifest'') None)
         (if plan_approval = Some ''Manual''
          then call_unit E (WaitForInstallPlanAndApprove (namespace C))
          else ret ()))))))))"

text \<open>Lines 389-400 of \<open>deploy_ocs_via_operator\<close> (the same lines are in
  \<open>deploy_with_external_mode\<close>, 620-631): wait for the package manifest and for the
  CSV to reach \<open>Succeeded\<close>; the value is the name of the CSV.\<close>

definition wait_for_csv :: "env \<Rightarrow> config \<Rightarrow> constants \<Rightarrow> string prog" where
  "wait_for_csv E C K =
     bnd (call_str E GetSelectorForOcsOperator) (\<lambda>operator_selector.
     seq (call_unit E (PackageManifestWaitForResource operator_selector
                         (subscription_plan_approval (DEPLOYMENT C)) 300))
    (bnd (call_str E (PackageManifestGetCurrentCsv (ocs_csv_channel (DEPLOYMENT C)))) (\<lambda>csv_name.
     seq (call_unit E (CsvWaitForPhase csv_name (namespace C) ''Succeeded'' 720))
         (ret csv_name))))"

subsection \<open>deployment\_with\_ui\<close>

definition deployment_with_ui :: "env \<Rightarrow> config \<Rightarrow> unit prog" where
  "deployment_with_ui E C =
     seq (logger INFO ''Deployment of OCS will be done by openshift-console'')
         (call_unit E (OpenshiftConsoleRun
            (case deployment_browser (DEPLOYMENT C) of Some b \<Rightarrow> b | None \<Rightarrow> CHROME_BROWSER)
            (if live_deployment (DEPLOYMENT C) then ''1'' else ''0'')))"


subsection \<open>deploy\_ocs\_via\_operator: the StorageCluster document (lines 420-577)\<close>

text \<open>\<open>pv_size_list = helpers.get_pv_size(storageclass=...); pv_size_list.sort();
  pv_size_list[0]\<close>\<close>

definition first_pv_size :: "env \<Rightarrow> string \<Rightarrow> string prog" where
  "first_pv_size E storageclass =
     bnd (call_strs E (GetPvSize storageclass)) (\<lambda>pv_size_list.
       case sort pv_size_list of [] \<Rightarrow> raise IndexError | sz # _ \<Rightarrow> ret sz)"

definition get_device_size :: "config \<Rightarrow> constants \<Rightarrow> int" where
  "get_device_size C K =
     (case device_size (ENV_DATA C) of Some n \<Rightarrow> n | None \<Rightarrow> DEVICE_SIZE K)"

text \<open>The body of the loop over the storage nodes of the IBM Power platform (lines
  433-467), for index \<open>i\<close>.\<close>

definition ibm_deviceset ::
  "env \<Rightarrow> config \<Rightarrow> constants \<Rightarrow> cluster_data \<Rightarrow> nat \<Rightarrow> (cluster_data \<times> deviceset_data) prog" where
  "ibm_deviceset E C K cluster_data i =
     (if i < length (cd_storageDeviceSets cluster_data) then
        (let deviceset_data = cd_storageDeviceSets cluster_data ! i in
         bnd (if lower (platform (ENV_DATA C)) = ''powervs''
              then bnd (first_pv_size E (DEFAULT_STORAGECLASS_LSO C))
                       (\<lambda>sz. ret (deviceset_data\<lparr>ds_storage := Size sz\<rparr>))
              else ret (deviceset_data\<lparr>ds_storage := Gi (get_device_size C K)\<rparr>)) (\<lambda>d1.
         let d2 = (if DEFAULT_STORAGECLASS_LSO C \<noteq> []
                   then d1\<lparr>ds_storageClassName := Some (DEFAULT_STORAGECLASS_LSO C)\<rparr> else d1)
         in
         if local_storage (DEPLOYMENT C)
         then ret (cluster_data\<lparr>cd_manageNodes := Some False,
                                 cd_monDataDirHostPath := Some ''/var/lib/rook''\<rparr>,
                   d2\<lparr>ds_portable := Some False,
                      ds_storageClassName := Some (DEFAULT_STORAGECLASS_LSO C)\<rparr>)
         else ret (cluster_data, d2)))
      else raise IndexError)"

fun ibm_devicesets ::
  "env \<Rightarrow> config \<Rightarrow> constants \<Rightarrow> nat list \<Rightarrow> cluster_data \<Rightarrow> deviceset_data list
     \<Rightarrow> (cluster_data \<times> deviceset_data list) prog" where
  "ibm_devicesets E C K [] cluster_data deviceset s = ret (cluster_data, deviceset) s"
| "ibm_devicesets E C K (i # rest) cluster_data deviceset s =
     bnd (ibm_deviceset E C K cluster_data i)
         (\<lambda>(cd', d). ibm_devicesets E C K rest cd' (deviceset @ [d])) s"

text \<open>The tweaks for local storage on the other platforms (lines 496-513).\<close>

definition lso_tweaks ::
  "config \<Rightarrow> rat \<Rightarrow> rat \<Rightarrow> cluster_data \<times> deviceset_data \<Rightarrow> cluster_data \<times> deviceset_data" where
  "lso_tweaks C ocs_ver ocp_ver cd =
     (case cd of (cluster_data, deviceset_data) \<Rightarrow>
       if local_storage (DEPLOYMENT C) then
         (let c1 = cluster_data\<lparr>cd_manageNodes := Some False,
                                cd_monDataDirHostPath := Some ''/var/lib/rook''\<rparr>;
              d1 = deviceset_data\<lparr>ds_portable := Some False,
                                  ds_storageClassName := Some (DEFAULT_STORAGECLASS_LSO C)\<rparr>;
              d2 = (if lower (platform (ENV_DATA C)) = AWS_PLATFORM then d1\<lparr>ds_count := 2\<rparr> else d1);
              d3 = (if ocs_ver \<ge> 4.5
                    then d2\<lparr>ds_resources := Some (Resources 2 ''5Gi'' 1 ''5Gi'')\<rparr> else d2);
              c2 = (if ocp_ver \<ge> double_4_6 \<and> ocs_ver \<ge> double_4_6
                    then c1\<lparr>cd_annotations :=
                              Some [(''cluster.ocs.openshift.io/local-devices'', ''true'')]\<rparr>
                    else c1)
          in (c2, d3))
       else (cluster_data, deviceset_data))"

text \<open>The resource requests and limits (lines 518-558).\<close>

definition resource_tweaks ::
  "config \<Rightarrow> rat \<Rightarrow> cluster_data \<times> deviceset_data \<Rightarrow> cluster_data \<times> deviceset_data" where
  "resource_tweaks C ocs_ver cd =
     (case cd of (cluster_data, deviceset_data) \<Rightarrow>
       if allow_lower_instance_requirements (DEPLOYMENT C) then
         (let d1 = deviceset_data\<lparr>ds_resources := Some NoneResources\<rparr>;
              resources = [''mon'', ''mds'', ''rgw'', ''mgr'', ''noobaa-core'', ''noobaa-db'']
                          @ (if ocs_ver \<ge> 4.5 then [''noobaa-endpoint''] else []);
              r1 = map (\<lambda>resource. (resource, NoneResources)) resources;
              r2 = (if ocs_ver \<ge> 4.5
                    then AList.update ''noobaa-endpoint'' (Resources 1 ''500Mi'' 1 ''500Mi'') r1
                    else r1)
          in (cluster_data\<lparr>cd_resources := Some r2\<rparr>, d1))
       else if local_storage (DEPLOYMENT C) \<and> lower (platform (ENV_DATA C)) = ''aws'' then
         (let r0 = [(''mds'', Resources 3 ''8Gi'' 1 ''8Gi'')];
              r1 = (if ocs_ver < 4.5
                    then r0 @ [(''noobaa-core'', Resources 2 ''8Gi'' 1 ''8Gi''),
                               (''noobaa-db'', Resources 2 ''8Gi'' 1 ''8Gi'')]
                    else r0)
          in (cluster_data\<lparr>cd_resources := Some r1\<rparr>, deviceset_data))
       else (cluster_data, deviceset_data))"

text \<open>The branch of the other platforms (lines 469-558); the value carries the local
  variable \<open>ocs_version\<close> (here \<open>ocs_ver\<close>), which only this branch assigns.\<close>

definition default_deviceset ::
  "env \<Rightarrow> config \<Rightarrow> constants \<Rightarrow> cluster_data
     \<Rightarrow> (cluster_data \<times> deviceset_data list \<times> rat option) prog" where
  "default_deviceset E C K cluster_data =
     (case cd_storageDeviceSets cluster_data of
        [] \<Rightarrow> raise IndexError
      | deviceset_data # _ \<Rightarrow>
         bnd (if lower (platform (ENV_DATA C)) = BAREMETAL_PLATFORM K
              then bnd (first_pv_size E (DEFAULT_STORAGECLASS_LSO C))
                       (\<lambda>sz. ret (deviceset_data\<lparr>ds_storage := Size sz\<rparr>))
              else ret (deviceset_data\<lparr>ds_storage := Gi (get_device_size C K)\<rparr>)) (\<lambda>d1.
         bnd get_DEFAULT_STORAGECLASS (\<lambda>default_sc.
         let d2 = (if truthy default_sc
                   then d1\<lparr>ds_storageClassName := default_sc\<rparr> else d1);
             ocs_ver = ocs_version (ENV_DATA C)
         in bnd (call_num E GetOcpVersion) (\<lambda>ocp_ver.
              case resource_tweaks C ocs_ver
                     (lso_tweaks C ocs_ver ocp_ver (cluster_data, d2)) of
                (cd', d') \<Rightarrow> ret (cd', [d'], Some ocs_ver)))))"

text \<open>Lines 420-577: load the template and fill it in.\<close>

definition storage_cluster_data :: "env \<Rightarrow> config \<Rightarrow> constants \<Rightarrow> cluster_data prog" where
  "storage_cluster_data E C K =
     bnd (if platform (ENV_DATA C) = IBM_POWER_PLATFORM K
          then call_cluster E (LoadYaml (IBM_STORAGE_CLUSTER_YAML K))
          else call_cluster E (LoadYaml STORAGE_CLUSTER_YAML)) (\<lambda>cd0.
     let cd1 = cd0\<lparr>cd_name := storage_cluster_name (ENV_DATA C)\<rparr> in
     bnd (if platform (ENV_DATA C) = IBM_POWER_PLATFORM K
          then bnd (ibm_devicesets E C K [0 ..< number_of_storage_nodes (ENV_DATA C)] cd1 [])
                   (\<lambda>(cd', deviceset). ret (cd', deviceset, None))
          else default_deviceset E C K cd1) (\<lambda>(cd2, deviceset, ocs_ver).
     let cd3 = (if host_network (DEPLOYMENT C) then cd2\<lparr>cd_hostNetwork := Some True\<rparr> else cd2);
         cd4 = cd3\<lparr>cd_storageDeviceSets := deviceset\<rparr>
     in
     if encryption_at_rest (ENV_DATA C) then
       (case ocs_ver of
          None \<Rightarrow> raise (UnboundLocalError
                           (''local variable '' @ quoted ''ocs_version''
                              @ '' referenced before assignment''))
        | Some v \<Rightarrow>
           if v < double_4_6
           then seq (logger ERROR ''Encryption at REST can be enabled only on OCS >= 4.6!'')
                    (raise (UnsupportedFeatureError
                              ''Encryption at REST can be enabled only on OCS >= 4.6!''))
           else seq (logger INFO ''Enabling encryption at REST!'')
                    (ret (cd4\<lparr>cd_encryption_enable := Some True\<rparr>)))
     else ret cd4))"

text \<open>Lines 420-589: build the document, write it to a temporary file and create the
  StorageCluster.\<close>

definition create_storage_cluster :: "env \<Rightarrow> config \<Rightarrow> constants \<Rightarrow> unit prog" where
  "create_storage_cluster E C K =
     bnd (storage_cluster_data E C K) (\<lambda>cluster_data.
     seq (call_unit E (NamedTemporaryFile ''cluster_storage''))
    (seq (call_unit E (DumpDataToTempYaml (ClusterYaml cluster_data) (TempFile ''cluster_storage'')))
    (seq (oc_create E (TempFile ''cluster_storage'') (Some 2400))
         (if infra_nodes (DEPLOYMENT C)
          then call_unit E (ExecOcCmd ''node''
                 (''annotate namespace '' @ ROOK_CLUSTER_NAMESPACE K @ '' ''
                    @ NODE_SELECTOR_ANNOTATION K))
          else ret ()))))"

subsection \<open>deploy\_ocs\_via\_operator\<close>

definition deploy_ocs_via_operator :: "env \<Rightarrow> config \<Rightarrow> constants \<Rightarrow> unit prog" where
  "deploy_ocs_via_operator E C K =
     seq (if local_storage (DEPLOYMENT C)
          then call_unit E (SetupLocalStorage (DEFAULT_STORAGECLASS_LSO C)) else ret ())
     (if ui_deployment (DEPLOYMENT C) then
        seq (if \<not> live_deployment (DEPLOYMENT C) then create_ocs_operator_source E C else ret ())
            (deployment_with_ui E C)
      else
        seq (logger INFO ''Deployment of OCS via OCS operator'')
       (seq (call_unit E LabelAndTaintNodes)
       (seq (logger INFO ''Creating namespace and operator group.'')
       (seq (oc_create E (Path OLM_YAML) None)
       (seq (if \<not> live_deployment (DEPLOYMENT C) then create_ocs_operator_source E C else ret ())
       (seq (subscribe_ocs E C K)
       (bnd (wait_for_csv E C K) (\<lambda>csv_name.
        seq (case (csv_change_from (DEPLOYMENT C), csv_change_to (DEPLOYMENT C)) of
               (Some replace_from, Some replace_to) \<Rightarrow>
                 call_unit E (ModifyCsv csv_name replace_from replace_to)
             | _ \<Rightarrow> ret ())
       (seq (case CUSTOM_STORAGE_CLASS_PATH C of
               Some custom_path \<Rightarrow>
                 bnd (call_str E (OpenCustomStorageClass custom_path)) (\<lambda>custom_sc_name.
                 seq (set_DEFAULT_STORAGECLASS custom_sc_name)
                     (oc_create E (Path custom_path) None))
             | None \<Rightarrow> ret ())
            (create_storage_cluster E C K))))))))))"

subsection \<open>deploy\_with\_external\_mode, external\_post\_deploy\_validation\<close>

definition external_post_deploy_validation :: "env \<Rightarrow> unit prog" where
  "external_post_deploy_validation E = call_unit E (CephClusterExternalHealthCheck 300)"

definition deploy_with_external_mode :: "env \<Rightarrow> config \<Rightarrow> constants \<Rightarrow> unit prog" where
  "deploy_with_external_mode E C K =
     seq (logger INFO ''Deploying OCS with external mode RHCS'')
    (seq (logger INFO ''Creating namespace and operator group'')
    (seq (oc_create E (Path OLM_YAML) None)
    (seq (if \<not> live_deployment (DEPLOYMENT C) then create_ocs_operator_source E C else ret ())
    (seq (subscribe_ocs E C K)
    (seq (wait_for_csv E C K)
    (seq (call_unit E (LoadYaml (EXTERNAL_CLUSTER_SECRET_YAML K)))
    (if external_cluster_details C = []
     then raise (ExternalClusterDetailsException ''No external cluster data found'')
     else
       seq (call_unit E (NamedTemporaryFile ''external_cluster_secret''))
      (seq (call_unit E (DumpDataToTempYaml (SecretYaml (external_cluster_details C))
                           (TempFile ''external_cluster_secret'')))
      (seq (logger INFO ''Creating external cluster secret'')
      (seq (oc_create E (TempFile ''external_cluster_secret'') None)
      (bnd (call_cluster E (LoadYaml (EXTERNAL_STORAGE_CLUSTER_YAML K))) (\<lambda>cd0.
       let cluster_data = cd0\<lparr>cd_name := storage_cluster_name (ENV_DATA C)\<rparr> in
       seq (call_unit E (NamedTemporaryFile ''external_cluster_storage''))
      (seq (call_unit E (DumpDataToTempYaml (ClusterYaml cluster_data)
                           (TempFile ''external_cluster_storage'')))
      (seq (oc_create E (TempFile ''external_cluster_storage'') (Some 2400))
      (seq (external_post_deploy_validation E)
           (call_unit E SetupCephToolbox))))))))))))))))"

subsection \<open>patch\_default\_sc\_to\_non\_default\<close>

definition patch_default_sc_to_non_default :: "env \<Rightarrow> config \<Rightarrow> unit prog" where
  "patch_default_sc_to_non_default E C =
     bnd get_DEFAULT_STORAGECLASS (\<lambda>default_sc.
       if \<not> truthy default_sc
       then logger INFO (''Default StorageClass is not set for this class: '' @ class_name C)
       else
         (let sc = the default_sc;
              patch = '' '' @ sq @ ''{'' @ dq @ ''metadata'' @ dq @ '': {'' @ dq @ ''annotations'' @ dq
                      @ '':{'' @ dq @ ''storageclass.kubernetes.io/is-default-class'' @ dq @ '':''
                      @ dq @ ''false'' @ dq @ ''}}}'' @ sq @ '' ''
          in seq (logger INFO (''Patch '' @ sc @ '' storageclass as non-default''))
                 (seq (run_cmd E (''oc patch storageclass '' @ sc @ '' -p '' @ patch @ '' --request-timeout=120s''))
                      (ret ()))))"


subsection \<open>deploy\_ocs\<close>

text \<open>Lines 673-679: is there a CephCluster already?  The value tells whether the
  function returns at line 677.\<close>

definition ceph_cluster_exists :: "env \<Rightarrow> config \<Rightarrow> bool prog" where
  "ceph_cluster_exists E C =
     try_except
       (bnd (call_items E (OcpGet ''CephCluster'' (namespace C))) (\<lambda>items.
          case items of
            None \<Rightarrow> raise (TypeError (quoted ''NoneType'' @ '' object is not subscriptable''))
          | Some [] \<Rightarrow> raise IndexError
          | Some (first # _) \<Rightarrow> seq (logger WARNING ''OCS cluster already exists'') (ret True)))
       (\<lambda>e. case e of
          IndexError \<Rightarrow> seq (logger INFO ''Running OCS basic installation'') (ret False)
        | CommandFailed m \<Rightarrow> seq (logger INFO ''Running OCS basic installation'') (ret False)
        | _ \<Rightarrow> raise e)"

text \<open>\<open>assert pod.wait_for_resource(condition=..., selector=..., resource_count=...,
  timeout=...)\<close>\<close>

definition assert_pod_wait_for_resource ::
  "env \<Rightarrow> string \<Rightarrow> string \<Rightarrow> nat option \<Rightarrow> nat \<Rightarrow> unit prog" where
  "assert_pod_wait_for_resource E condition selector resource_count timeout =
     bnd (call_bool E (PodWaitForResource condition selector resource_count timeout)) assert"

text \<open>Lines 686-729: the ceph pods, the volumes, the disruption budgets, the toolbox and
  the file system.\<close>

definition deploy_ocs_validate :: "env \<Rightarrow> config \<Rightarrow> unit prog" where
  "deploy_ocs_validate E C =
     seq (assert_pod_wait_for_resource E ''Running'' ''app=rook-ceph-mon'' (Some 3) 600)
    (seq (assert_pod_wait_for_resource E ''Running'' ''app=rook-ceph-mgr'' None 600)
    (seq (assert_pod_wait_for_resource E ''Running'' ''app=rook-ceph-osd'' (Some 3) 600)
    (seq (call_unit E ValidateClusterOnPvc)
    (seq (call_unit E ValidatePdbCreation)
    (seq (call_unit E SetupCephToolbox)
    (seq (assert_pod_wait_for_resource E STATUS_RUNNING ''app=rook-ceph-tools'' (Some 1) 600)
    (bnd (call_items E (OcpGet CEPHFILESYSTEM (namespace C))) (\<lambda>cfs_data.
       case cfs_data of
         None \<Rightarrow> raise (KeyError ''items'')
       | Some [] \<Rightarrow> raise IndexError
       | Some (cfs_name # _) \<Rightarrow>
          bnd (call_bool E (ValidateCephfilesystem cfs_name)) (\<lambda>valid.
            if valid
            then seq (logger INFO ''MDS deployment is successful!'')
                     (set_CEPHFILESYSTEM_NAME cfs_name)
            else logger ERROR ''MDS deployment Failed! Please check logs!'')))))))))"

text \<open>The exception types handed to \<open>retry\<close> at lines 758 and 766.\<close>

fun CommandFailed_or_ResourceWrongStatusException :: "exn \<Rightarrow> bool" where
  "CommandFailed_or_ResourceWrongStatusException (CommandFailed m) = True"
| "CommandFailed_or_ResourceWrongStatusException (ResourceWrongStatusException n d) = True"
| "CommandFailed_or_ResourceWrongStatusException e = False"

fun CommandFailed_or_AssertionError :: "exn \<Rightarrow> bool" where
  "CommandFailed_or_AssertionError (CommandFailed m) = True"
| "CommandFailed_or_AssertionError (AssertionError m) = True"
| "CommandFailed_or_AssertionError e = False"

text \<open>Lines 731-776: the monitoring backend.\<close>

definition deploy_ocs_monitoring :: "env \<Rightarrow> config \<Rightarrow> constants \<Rightarrow> unit prog" where
  "deploy_ocs_monitoring E C K =
     (if monitoring_enabled (ENV_DATA C) \<and> persistent_monitoring (ENV_DATA C) then
        bnd (call_str E (DefaultStorageClass CEPHBLOCKPOOL)) (\<lambda>sc_name.
        bnd (call_strs E (GetAllPods (OCS_MONITORING_NAMESPACE K) [''prometheus'', ''alertmanager''])) (\<lambda>pods_list.
        seq (call_unit E (CreateConfigmapClusterMonitoringPod (Some sc_name)
                            (telemeter_server_url (ENV_DATA C))))
       (seq (logger INFO ''Waiting 45 seconds...'')
       (seq (sleep 45)
       (seq (retry CommandFailed_or_ResourceWrongStatusException 3 15
               (call_unit E (ValidatePodsAreRespinnedAndRunningState pods_list)))
       (seq (call_unit E ValidatePvcCreatedAndBoundOnMonitoringPods)
            (retry CommandFailed_or_AssertionError 3 15
               (call_unit E (ValidatePvcAreMountedOnMonitoringPods pods_list)))))))))
      else if monitoring_enabled (ENV_DATA C) \<and> truthy (telemeter_server_url (ENV_DATA C)) then
        call_unit E (CreateConfigmapClusterMonitoringPod None (telemeter_server_url (ENV_DATA C)))
      else ret ())"

text \<open>Lines 783-795: the final health check of the ceph cluster.\<close>

definition deploy_ocs_health_check :: "env \<Rightarrow> config \<Rightarrow> constants \<Rightarrow> unit prog" where
  "deploy_ocs_health_check E C K =
     seq (logger INFO ''Done creating rook resources, waiting for HEALTH_OK'')
         (try_except
            (seq (call_bool E (CephHealthCheck (namespace C) 30 10)) (ret ()))
            (\<lambda>ex. case ex of
               CephHealthException m \<Rightarrow>
                 (let err = exn_str ex in
                  seq (logger WARNING (''Ceph health check failed with '' @ err))
                      (if py_in ''clock skew detected'' err then
                         seq (logger INFO (''Changing NTP on compute nodes to '' @ RH_NTP_CLOCK K))
                        (seq (if platform (ENV_DATA C) = VSPHERE_PLATFORM
                              then call_unit E UpdateNtpComputeNodes else ret ())
                             (bnd (call_bool E (CephHealthCheck (namespace C) 60 10)) assert))
                       else ret ()))
             | _ \<Rightarrow> raise ex))"

text \<open>Lines 681-798: the installation, when no CephCluster was found.\<close>

definition deploy_ocs_install :: "env \<Rightarrow> config \<Rightarrow> constants \<Rightarrow> unit prog" where
  "deploy_ocs_install E C K =
     (if external_mode (DEPLOYMENT C) then
        seq (logger INFO ''Deploying OCS on external mode RHCS'')
            (deploy_with_external_mode E C K)
      else
        seq (deploy_ocs_via_operator E C K)
       (seq (deploy_ocs_validate E C)
       (seq (deploy_ocs_monitoring E C K)
       (seq (call_unit E ChangeRegistryBackendToOcs)
       (seq (deploy_ocs_health_check E C K)
            (patch_default_sc_to_non_default E C))))))"

definition deploy_ocs :: "env \<Rightarrow> config \<Rightarrow> constants \<Rightarrow> unit prog" where
  "deploy_ocs E C K =
     bnd (ceph_cluster_exists E C) (\<lambda>found.
       if found then ret () else deploy_ocs_install E C K)"

subsection \<open>deploy\_cluster, destroy\_cluster\<close>

text \<open>Lines 121-133: the OCP phase of \<open>deploy_cluster\<close>.\<close>

definition deploy_cluster_ocp :: "env \<Rightarrow> config \<Rightarrow> string \<Rightarrow> unit prog" where
  "deploy_cluster_ocp E C log_cli_level =
     (if \<not> skip_ocp_deployment (ENV_DATA C) then
        bnd (call_bool E (IsClusterRunning (cluster_path (ENV_DATA C)))) (\<lambda>running.
          if running
          then logger WARNING ''OCP cluster is already running, skipping installation''
          else try_except
                 (seq (deploy_ocp E log_cli_level) (post_ocp_deploy E))
                 (\<lambda>e. seq set_is_ocp_deployment_failed
                      (seq (logger ERROR (exn_str e))
                      (seq (if gather_on_deploy_failure C
                            then collect_ocs_logs E ''deployment'' None (Some False) None
                            else ret ())
                           (raise e)))))
      else ret ())"

text \<open>Lines 135-149: the OCS phase of \<open>deploy_cluster\<close>.\<close>

definition deploy_cluster_ocs :: "env \<Rightarrow> config \<Rightarrow> constants \<Rightarrow> unit prog" where
  "deploy_cluster_ocs E C K =
     (if \<not> skip_ocs_deployment (ENV_DATA C) then
        try_except
          (seq (deploy_ocs E C K)
               (if collect_logs_on_success_run C
                then collect_ocs_logs E ''deployment'' (Some False) None (Some False)
                else ret ()))
          (\<lambda>e. seq (logger ERROR (exn_str e))
               (seq (if gather_on_deploy_failure C
                     then seq (collect_ocs_logs E ''deployment'' None (Some False) None)
                              (collect_ocs_logs E ''deployment'' (Some False) None None)
                     else ret ())
                    (raise e)))
      else logger WARNING ''OCS deployment will be skipped'')"

definition deploy_cluster :: "env \<Rightarrow> config \<Rightarrow> constants \<Rightarrow> string \<Rightarrow> unit prog" where
  "deploy_cluster E C K log_cli_level =
     seq (deploy_cluster_ocp E C log_cli_level) (deploy_cluster_ocs E C K)"

definition destroy_cluster :: "env \<Rightarrow> config \<Rightarrow> constants \<Rightarrow> string \<Rightarrow> unit prog" where
  "destroy_cluster E C K log_level =
     (if platform (ENV_DATA C) = IBM_POWER_PLATFORM K then
        seq (if \<not> skip_ocs_deployment (ENV_DATA C) then call_unit E DestroyOcs else ret ())
            (if \<not> skip_ocp_deployment (ENV_DATA C)
             then logger INFO ''Destroy of OCP not implemented yet.'' else ret ())
      else
        seq (call_unit E OCPDeployment_init)
       (seq (try_except
               (seq (call_unit E UninstallOcs) (logger INFO ''OCS uninstalled succesfully''))
               (\<lambda>ex. seq (logger ERROR (''Failed to uninstall OCS. Exception is: '' @ exn_str ex))
                          (logger INFO ''resuming teardown'')))
            (call_unit E (OCPDeployment_destroy log_level))))"


section \<open>Reading a trace\<close>

text \<open>The events a run added to the trace.\<close>

definition new_events :: "state \<Rightarrow> state \<Rightarrow> event list" where
  "new_events s s' = drop (length (trace s)) (trace s')"

text \<open>The two events of the operator installation whose order matters: the approval of
  the install plan and the polling of the CSV phase.\<close>

fun is_approval_or_csv_wait :: "event \<Rightarrow> bool" where
  "is_approval_or_csv_wait (Call (WaitForInstallPlanAndApprove ns)) = True"
| "is_approval_or_csv_wait (Call (CsvWaitForPhase n ns ph t)) = True"
| "is_approval_or_csv_wait e = False"

definition install_plan_events :: "event list \<Rightarrow> event list" where
  "install_plan_events evs = filter is_approval_or_csv_wait evs"

text \<open>Every run of \<open>m\<close> only appends to the trace, and only events that satisfy \<open>P\<close>.\<close>

definition only :: "(event \<Rightarrow> bool) \<Rightarrow> 'a prog \<Rightarrow> bool" where
  "only P m \<longleftrightarrow> (\<forall>s. \<exists>new. trace (snd (m s)) = trace s @ new \<and> list_all P new)"

text \<open>\<open>m\<close> raises in every run.\<close>

definition fails :: "'a prog \<Rightarrow> bool" where
  "fails m \<longleftrightarrow> (\<forall>s. \<exists>e. fst (m s) = Inl e)"

text \<open>Every value that \<open>m\<close> returns satisfies \<open>Q\<close>.\<close>

definition returns :: "('a \<Rightarrow> bool) \<Rightarrow> 'a prog \<Rightarrow> bool" where
  "returns Q m \<longleftrightarrow> (\<forall>s x. fst (m s) = Inr x \<longrightarrow> Q x)"

text \<open>Every run of \<open>m\<close> only appends to the trace, and the result and the appended
  events are related by \<open>R\<close>.\<close>

definition emits :: "'a prog \<Rightarrow> ((exn + 'a) \<Rightarrow> event list \<Rightarrow> bool) \<Rightarrow> bool" where
  "emits m R \<longleftrightarrow> (\<forall>s. \<exists>new. trace (snd (m s)) = trace s @ new \<and> R (fst (m s)) new)"

text \<open>The calls that the two properties of the operator installation turn on: the
  approval of the install plan, the polling of the CSV, and the writing and creation of
  the StorageCluster document.  A predicate on events is \<open>plain\<close> when it holds of every
  other event.\<close>

fun special :: "call \<Rightarrow> bool" where
  "special (WaitForInstallPlanAndApprove ns) = True"
| "special (CsvWaitForPhase n ns ph t) = True"
| "special (OcCreate (TempFile p) t) = (p = ''cluster_storage'')"
| "special (DumpDataToTempYaml (ClusterYaml cd) p) = True"
| "special c = False"

definition plain :: "(event \<Rightarrow> bool) \<Rightarrow> bool" where
  "plain P \<longleftrightarrow> (\<forall>lvl msg. P (Log lvl msg)) \<and> (\<forall>n. P (Sleep n)) \<and> (\<forall>c. \<not> special c \<longrightarrow> P (Call c))"

definition quiet :: "event \<Rightarrow> bool" where
  "quiet ev \<longleftrightarrow> \<not> is_approval_or_csv_wait ev"

text \<open>What \<open>subscribe_ocs\<close> appends to the trace: events other than the approval and the
  CSV polling, and at the end nothing more (it raised before the subscription was
  created), or the creation of the subscription alone, or the creation followed at once
  by the approval of the install plan; the latter only in \<open>Manual\<close> mode, and in that
  mode a normal return always has it.\<close>

definition approval_call :: "config \<Rightarrow> event" where
  "approval_call C = Call (WaitForInstallPlanAndApprove (namespace C))"

definition subscription_create :: event where
  "subscription_create = Call (OcCreate (TempFile ''subscription_manifest'') None)"

definition csv_wait :: "config \<Rightarrow> string \<Rightarrow> event" where
  "csv_wait C csv_name = Call (CsvWaitForPhase csv_name (namespace C) ''Succeeded'' 720)"

definition manual_approval :: "config \<Rightarrow> bool" where
  "manual_approval C \<longleftrightarrow> subscription_plan_approval (DEPLOYMENT C) = Some ''Manual''"

definition subscribed :: "config \<Rightarrow> exn + unit \<Rightarrow> event list \<Rightarrow> bool" where
  "subscribed C r new \<longleftrightarrow>
     (\<exists>before tail. new = before @ tail \<and> list_all quiet before \<and>
        ((tail = [] \<and> isl r)
         \<or> (tail = [subscription_create] \<and> (r = Inr () \<longrightarrow> \<not> manual_approval C))
         \<or> (manual_approval C \<and> tail = [subscription_create, approval_call C])))"

section \<open>Concrete runs\<close>

definition state0 :: state where
  "state0 = \<lparr>trace = [], is_ocp_deployment_failed = False,
             CEPHFILESYSTEM_NAME = ''ocs-storagecluster-cephfilesystem'',
             DEFAULT_STORAGECLASS = Some ''gp2''\<rparr>"

definition env_data0 :: env_data where
  "env_data0 = \<lparr>platform = ''aws'', cluster_path = ''/tmp/cluster'',
                cluster_namespace = ''openshift-storage'',
                skip_ocp_deployment = True, skip_ocs_deployment = False,
                storage_cluster_name = ''ocs-storagecluster'', number_of_storage_nodes = 3,
                device_size = None, ocs_version = double_4_6, encryption_at_rest = False,
                monitoring_enabled = True, persistent_monitoring = True,
                telemeter_server_url = None\<rparr>"

definition deployment0 :: deployment where
  "deployment0 = \<lparr>subscription_plan_approval = None, ocs_csv_channel = None, stage = False,
                  live_deployment = False, live_content_source = None, ui_deployment = False,
                  local_storage = False, csv_change_from = None, csv_change_to = None,
                  allow_lower_instance_requirements = False, host_network = False,
                  infra_nodes = False, external_mode = False, deployment_browser = None\<rparr>"

definition config0 :: config where
  "config0 = \<lparr>ENV_DATA = env_data0, DEPLOYMENT = deployment0,
              gather_on_deploy_failure = False, collect_logs_on_success_run = False,
              external_cluster_details = [], DEFAULT_STORAGECLASS_LSO = ''localblock'',
              CUSTOM_STORAGE_CLASS_PATH = None, class_name = ''AWSIPI''\<rparr>"

definition constants0 :: constants where
  "constants0 = \<lparr>IBM_POWER_PLATFORM = ''powervs'', BAREMETAL_PLATFORM = ''baremetal'',
                 RH_NTP_CLOCK = ''clock1.rdu2.redhat.com'',
                 IBM_STORAGE_CLUSTER_YAML = TEMPLATE_DEPLOYMENT_DIR @ ''/ibm-storage-cluster.yaml'',
                 EXTERNAL_CLUSTER_SECRET_YAML = TEMPLATE_DEPLOYMENT_DIR @ ''/external-cluster-secret.yaml'',
                 EXTERNAL_STORAGE_CLUSTER_YAML = TEMPLATE_DEPLOYMENT_DIR @ ''/external-storage-cluster.yaml'',
                 NODE_SELECTOR_ANNOTATION = ''openshift.io/node-selector='',
                 OCS_OPERATOR_NAME = ''ocs-operator'', LIVE_CONTENT_SOURCE = ''redhat-operators'',
                 ROOK_CLUSTER_NAMESPACE = ''openshift-storage'',
                 OCS_MONITORING_NAMESPACE = ''openshift-monitoring'', DEVICE_SIZE = 512\<rparr>"

definition template0 :: cluster_data where
  "template0 = \<lparr>cd_name = ''test-storagecluster'', cd_annotations = None, cd_manageNodes = None,
                cd_monDataDirHostPath = None, cd_resources = None, cd_hostNetwork = None,
                cd_storageDeviceSets =
                  [\<lparr>ds_count = 1, ds_storage = Gi 0, ds_storageClassName = None,
                    ds_portable = Some True, ds_resources = None\<rparr>],
                cd_encryption_enable = None\<rparr>"

text \<open>An environment in which every collaborator returns normally and no CephCluster
  exists yet.\<close>

definition env_ok :: env where
  "env_ok = \<lparr>answer_unit = (\<lambda>h c. None),
             answer_bool = (\<lambda>h c. Inr True),
             answer_str = (\<lambda>h c. Inr ''ocs-operator.v4.6.0''),
             answer_strs = (\<lambda>h c. Inr [''prometheus-k8s-0'', ''alertmanager-main-0'']),
             answer_items = (\<lambda>h c. if c = OcpGet ''CephCluster'' ''openshift-storage''
                                    then Inr (Some [])
                                    else Inr (Some [''ocs-storagecluster-cephfilesystem''])),
             answer_num = (\<lambda>h c. Inr double_4_6),
             answer_cluster = (\<lambda>h c. Inr template0),
             answer_sub = (\<lambda>h c. Inr \<lparr>sub_installPlanApproval = None, sub_channel = None,
                                       sub_source = None\<rparr>)\<rparr>"

text \<open>The first health check (30 tries) raises \<open>CephHealthException\<close> with the given
  message; everything else is as in \<open>env_ok\<close>.\<close>

definition env_health :: "string \<Rightarrow> env" where
  "env_health msg =
     env_ok\<lparr>answer_bool := (\<lambda>h c. if c = CephHealthCheck ''openshift-storage'' 30 10
                                   then Inl (CephHealthException msg) else Inr True)\<rparr>"

text \<open>A CephCluster exists.\<close>

definition env_exists :: env where
  "env_exists = env_ok\<lparr>answer_items := (\<lambda>h c. Inr (Some [''ocs-storagecluster-cephcluster'']))\<rparr>"

text \<open>The probe for the CephCluster raises the given exception.\<close>

definition env_probe :: "exn \<Rightarrow> env" where
  "env_probe e = env_ok\<lparr>answer_items := (\<lambda>h c. Inl e)\<rparr>"

text \<open>The validation of the PVCs of the monitoring pods fails with \<open>AssertionError\<close> the
  first time it is called and passes from the second call on.\<close>

definition env_pvc_late :: env where
  "env_pvc_late =
     env_ok\<lparr>answer_unit := (\<lambda>h c. if c = ValidatePvcCreatedAndBoundOnMonitoringPods
                                      \<and> Call ValidatePvcCreatedAndBoundOnMonitoringPods \<notin> set h
                                   then Some (AssertionError ''No PVC created in openshift-monitoring namespace'')
                                   else None)\<rparr>"

text \<open>The storage uninstall raises.\<close>

definition env_uninstall_fails :: env where
  "env_uninstall_fails =
     env_ok\<lparr>answer_unit := (\<lambda>h c. if c = UninstallOcs then Some (CommandFailed ''timeout'')
                                   else None)\<rparr>"

text \<open>No OCP cluster is running and the installer fails.\<close>

definition env_ocp_fails :: env where
  "env_ocp_fails =
     env_ok\<lparr>answer_bool := (\<lambda>h c. Inr False),
            answer_unit := (\<lambda>h c. if c = OCPDeployment_deploy ''DEBUG''
                                   then Some (CommandFailed ''install failed'') else None)\<rparr>"

definition config_gather :: config where
  "config_gather = config0\<lparr>gather_on_deploy_failure := True\<rparr>"

definition config_ocp :: config where
  "config_ocp = config0\<lparr>ENV_DATA := env_data0\<lparr>skip_ocp_deployment := False\<rparr>,
                        gather_on_deploy_failure := True\<rparr>"

definition config_power :: config where
  "config_power = config0\<lparr>ENV_DATA := env_data0\<lparr>platform := ''powervs'',
                                                    skip_ocp_deployment := False\<rparr>\<rparr>"

definition config_vsphere :: config where
  "config_vsphere = config0\<lparr>ENV_DATA := env_data0\<lparr>platform := ''vsphere''\<rparr>,
                            class_name := ''VSPHEREUPI''\<rparr>"

definition config_manual :: config where
  "config_manual = config0\<lparr>DEPLOYMENT := deployment0\<lparr>subscription_plan_approval := Some ''Manual''\<rparr>\<rparr>"

definition config_encrypt :: config where
  "config_encrypt = config0\<lparr>ENV_DATA := env_data0\<lparr>encryption_at_rest := True, ocs_version := 4.5\<rparr>\<rparr>"

text \<open>IBM Power with both deployments skipped.\<close>

definition config_power_skipped :: config where
  "config_power_skipped =
     config0\<lparr>ENV_DATA := env_data0\<lparr>platform := ''powervs'', skip_ocp_deployment := True,
                                       skip_ocs_deployment := True\<rparr>\<rparr>"

text \<open>The query for the CephCluster answers a document without \<open>items\<close>.\<close>

definition env_no_items :: env where
  "env_no_items = env_ok\<lparr>answer_items := (\<lambda>h c. Inr None)\<rparr>"

text \<open>Bare metal with encryption at rest requested on OCS 4.5, and an environment in
  which one local volume of 100Gi is found.\<close>

definition env_local_volumes :: env where
  "env_local_volumes = env_ok\<lparr>answer_strs := (\<lambda>h c. Inr [''100Gi''])\<rparr>"

definition config_encrypt_baremetal :: config where
  "config_encrypt_baremetal =
     config0\<lparr>ENV_DATA := env_data0\<lparr>platform := ''baremetal'', encryption_at_rest := True,
                                       ocs_version := 4.5\<rparr>\<rparr>"

definition resource_cephfs :: resource where
  "resource_cephfs = \<lparr>name = DEFAULT_STORAGECLASS_CEPHFS, kind = ''StorageClass''\<rparr>"

definition resource_rbd :: resource where
  "resource_rbd = \<lparr>name = DEFAULT_STORAGECLASS_RBD, kind = ''StorageClass''\<rparr>"

definition resource_pvc :: resource where
  "resource_pvc = \<lparr>name = ''pvc-test'', kind = ''PersistentVolumeClaim''\<rparr>"

section \<open>Laws of the combinators\<close>

lemma bnd_ret [simp]: "bnd (ret x) f = f x"
  by (rule ext) (simp add: bnd_def ret_def)

lemma bnd_raise [simp]: "bnd (raise e) f = raise e"
  by (rule ext) (simp add: bnd_def raise_def)

lemma seq_ret [simp]: "seq (ret x) n = n"
  by (simp add: seq_def)

lemma seq_raise [simp]: "seq (raise e) n = raise e"
  by (simp add: seq_def)

lemma try_except_ret [simp]: "try_except (ret x) h = ret x"
  by (rule ext) (simp add: try_except_def ret_def)

lemma try_except_raise [simp]: "try_except (raise e) h = h e"
  by (rule ext) (simp add: try_except_def raise_def)

lemma seq_logger [simp]: "seq (logger lvl msg) n s = n (emit (Log lvl msg) s)"
  by (simp add: seq_def bnd_def logger_def)

lemma seq_sleep [simp]: "seq (sleep d) n s = n (emit (Sleep d) s)"
  by (simp add: seq_def bnd_def sleep_def)

lemma trace_emit [simp]: "trace (emit ev s) = trace s @ [ev]"
  by (simp add: emit_def)

lemma emit_trace_update: "emit ev s = s\<lparr>trace := trace s @ [ev]\<rparr>"
  by (simp add: emit_def)

lemma new_events_append [simp]: "trace s' = trace s @ evs \<Longrightarrow> new_events s s' = evs"
  by (simp add: new_events_def)

lemma lower_aws: "lower ''aws'' = ''aws''"
  by code_simp

section \<open>wait\_for\_resource\_state\<close>

text \<open>
  Claim C8 says that for the two default storage-class names the function returns true.
  It returns \<open>None\<close>: the \<open>return\<close> at line 105 has no value.
\<close>

theorem wait_for_resource_state_returns_true_counterexample:
  "fst (wait_for_resource_state env_ok resource_cephfs ''Bound'' 60 state0) \<noteq> Inr (PyBool True)"
  by (simp add: wait_for_resource_state_def resource_cephfs_def ret_def)

text \<open>
  Claim C8, amended: for a resource whose name is \<open>DEFAULT_STORAGECLASS_CEPHFS\<close> or
  \<open>DEFAULT_STORAGECLASS_RBD\<close>, \<open>wait_for_resource_state\<close> returns at once with the value
  \<open>None\<close>, having written one log line and called no collaborator (no poll).  For every
  other resource the first thing it does is the poll \<open>resource.ocp.wait_for_resource\<close>
  with the given state, name and timeout, and it returns \<open>None\<close> when the poll returns.
\<close>

theorem wait_for_resource_state_default_names:
  "(name r = DEFAULT_STORAGECLASS_CEPHFS \<or> name r = DEFAULT_STORAGECLASS_RBD \<longrightarrow>
      wait_for_resource_state E r st timeout s =
        (Inr PyNone, emit (Log INFO ''Attempt to default default Secret or StorageClass'') s))
   \<and> (name r \<noteq> DEFAULT_STORAGECLASS_CEPHFS \<and> name r \<noteq> DEFAULT_STORAGECLASS_RBD \<longrightarrow>
        take (Suc (length (trace s))) (trace (snd (wait_for_resource_state E r st timeout s)))
          = trace s @ [Call (ResourceWaitForResource (kind r) st (name r) timeout)]
        \<and> (answer_unit E (trace s) (ResourceWaitForResource (kind r) st (name r) timeout) = None
             \<longrightarrow> fst (wait_for_resource_state E r st timeout s) = Inr PyNone))"
  by (auto simp: wait_for_resource_state_def ret_def raise_def seq_def bnd_def try_except_def
        call_unit_def call_str_def logger_def
      split: option.splits exn.splits sum.splits)

theorem wait_for_resource_state_default_names_witness:
  "wait_for_resource_state env_ok resource_rbd ''Bound'' 60 state0 =
     (Inr PyNone, emit (Log INFO ''Attempt to default default Secret or StorageClass'') state0)
   \<and> take (Suc (length (trace state0)))
        (trace (snd (wait_for_resource_state env_ok resource_pvc ''Bound'' 60 state0)))
      = trace state0 @ [Call (ResourceWaitForResource ''PersistentVolumeClaim'' ''Bound'' ''pvc-test'' 60)]
   \<and> fst (wait_for_resource_state env_ok resource_pvc ''Bound'' 60 state0) = Inr PyNone"
  using wait_for_resource_state_default_names [where r = resource_rbd and E = env_ok
          and st = "''Bound''" and timeout = 60 and s = state0]
        wait_for_resource_state_default_names [where r = resource_pvc and E = env_ok
          and st = "''Bound''" and timeout = 60 and s = state0]
  by (simp add: resource_rbd_def resource_pvc_def env_ok_def DEFAULT_STORAGECLASS_CEPHFS_def
        DEFAULT_STORAGECLASS_RBD_def DEFAULT_CLUSTERNAME_def)

section \<open>deploy\_ocs: the probe\<close>

lemma ceph_cluster_exists_found:
  "answer_items E (trace s) (OcpGet ''CephCluster'' (namespace C)) = Inr (Some (first # others)) \<Longrightarrow>
   ceph_cluster_exists E C s =
     (Inr True, emit (Log WARNING ''OCS cluster already exists'')
                  (emit (Call (OcpGet ''CephCluster'' (namespace C))) s))"
  by (simp add: ceph_cluster_exists_def try_except_def bnd_def call_items_def ret_def)

lemma ceph_cluster_exists_absent:
  "answer_items E (trace s) (OcpGet ''CephCluster'' (namespace C)) = a \<Longrightarrow>
   a = Inr (Some []) \<or> a = Inl IndexError \<or> a = Inl (CommandFailed m) \<Longrightarrow>
   ceph_cluster_exists E C s =
     (Inr False, emit (Log INFO ''Running OCS basic installation'')
                   (emit (Call (OcpGet ''CephCluster'' (namespace C))) s))"
  by (auto simp: ceph_cluster_exists_def try_except_def bnd_def call_items_def ret_def raise_def)

lemma ceph_cluster_exists_raises:
  "answer_items E (trace s) (OcpGet ''CephCluster'' (namespace C)) = Inl e \<Longrightarrow>
   e \<noteq> IndexError \<Longrightarrow> \<forall>m. e \<noteq> CommandFailed m \<Longrightarrow>
   ceph_cluster_exists E C s = (Inl e, emit (Call (OcpGet ''CephCluster'' (namespace C))) s)"
  by (cases e) (auto simp: ceph_cluster_exists_def try_except_def bnd_def call_items_def raise_def)

text \<open>
  Claim C6: if the probe finds a CephCluster (the collection of items is not empty),
  \<open>deploy_ocs\<close> logs the warning and returns without error; the probe and the log line
  are all it did, so no installation step was performed.
\<close>

theorem deploy_ocs_existing_cluster:
  assumes "answer_items E (trace s) (OcpGet ''CephCluster'' (namespace C)) = Inr (Some (first # others))"
  shows "deploy_ocs E C K s =
           (Inr (), s\<lparr>trace := trace s @ [Call (OcpGet ''CephCluster'' (namespace C)),
                                          Log WARNING ''OCS cluster already exists'']\<rparr>)"
  using ceph_cluster_exists_found [OF assms]
  by (simp add: deploy_ocs_def bnd_def ret_def emit_def)

theorem deploy_ocs_existing_cluster_witness:
  "deploy_ocs env_exists config0 constants0 state0 =
     (Inr (), state0\<lparr>trace := [Call (OcpGet ''CephCluster'' ''openshift-storage''),
                              Log WARNING ''OCS cluster already exists'']\<rparr>)"
  using deploy_ocs_existing_cluster [where E = env_exists and C = config0 and K = constants0
          and s = state0 and first = "''ocs-storagecluster-cephcluster''" and others = "[]"]
  by (simp add: env_exists_def env_ok_def namespace_def config0_def env_data0_def state0_def)

section \<open>destroy\_cluster\<close>

lemma destroy_cluster_power:
  assumes "platform (ENV_DATA C) = IBM_POWER_PLATFORM K"
  shows "new_events s (snd (destroy_cluster E C K log_level s)) =
           (if skip_ocs_deployment (ENV_DATA C) then [] else [Call DestroyOcs])
           @ (if \<not> skip_ocp_deployment (ENV_DATA C)
                 \<and> (skip_ocs_deployment (ENV_DATA C) \<or> answer_unit E (trace s) DestroyOcs = None)
              then [Log INFO ''Destroy of OCP not implemented yet.''] else [])"
    and "fst (destroy_cluster E C K log_level s) =
           (if skip_ocs_deployment (ENV_DATA C) then Inr ()
            else case answer_unit E (trace s) DestroyOcs of None \<Rightarrow> Inr () | Some e \<Rightarrow> Inl e)"
  using assms
  by (auto simp: destroy_cluster_def seq_def bnd_def call_unit_def logger_def ret_def new_events_def
      split: option.splits)

lemma destroy_cluster_other:
  assumes "platform (ENV_DATA C) \<noteq> IBM_POWER_PLATFORM K"
      and "answer_unit E (trace s) OCPDeployment_init = None"
  shows "new_events s (snd (destroy_cluster E C K log_level s)) =
           [Call OCPDeployment_init, Call UninstallOcs]
           @ (case answer_unit E (trace s @ [Call OCPDeployment_init]) UninstallOcs of
                None \<Rightarrow> [Log INFO ''OCS uninstalled succesfully'']
              | Some ex \<Rightarrow> [Log ERROR (''Failed to uninstall OCS. Exception is: '' @ exn_str ex),
                             Log INFO ''resuming teardown''])
           @ [Call (OCPDeployment_destroy log_level)]"
  using assms
  by (auto simp: destroy_cluster_def seq_def bnd_def try_except_def call_unit_def logger_def ret_def
        new_events_def
      split: option.splits)

text \<open>
  Claim C7 says that on IBM Power the missing teardown of the cluster is always signalled.
  The log line is behind \<open>if not config.ENV_DATA["skip_ocp_deployment"]\<close> (line 812): on
  IBM Power with both deployments skipped \<open>destroy_cluster\<close> returns without a call and
  without a log line.
\<close>

theorem destroy_cluster_silent_counterexample:
  "destroy_cluster env_ok config_power_skipped constants0 ''DEBUG'' state0 = (Inr (), state0)"
  by (simp add: destroy_cluster_def config_power_skipped_def config0_def env_data0_def
        constants0_def ret_def)

text \<open>
  Claim C7, amended.  On the IBM Power platform \<open>destroy_cluster\<close> calls no collaborator
  but \<open>destroy_ocs\<close>, and that one only when the OCS deployment is not skipped; it says in
  the log that the destroy of OCP is not implemented only when the OCP deployment is not
  skipped (and \<open>destroy_ocs\<close> did not raise).  On every other platform, once the OCP
  deployment object is made, the storage uninstall is called; whether it returns or raises
  any exception, the outcome is logged and the platform's \<open>destroy\<close> is called next, last
  of all.
\<close>

theorem destroy_cluster_platforms:
  "(platform (ENV_DATA C) = IBM_POWER_PLATFORM K \<longrightarrow>
      new_events s (snd (destroy_cluster E C K log_level s)) =
        (if skip_ocs_deployment (ENV_DATA C) then [] else [Call DestroyOcs])
        @ (if \<not> skip_ocp_deployment (ENV_DATA C)
              \<and> (skip_ocs_deployment (ENV_DATA C) \<or> answer_unit E (trace s) DestroyOcs = None)
           then [Log INFO ''Destroy of OCP not implemented yet.''] else []))
   \<and> (platform (ENV_DATA C) \<noteq> IBM_POWER_PLATFORM K
        \<and> answer_unit E (trace s) OCPDeployment_init = None \<longrightarrow>
      new_events s (snd (destroy_cluster E C K log_level s)) =
        [Call OCPDeployment_init, Call UninstallOcs]
        @ (case answer_unit E (trace s @ [Call OCPDeployment_init]) UninstallOcs of
             None \<Rightarrow> [Log INFO ''OCS uninstalled succesfully'']
           | Some ex \<Rightarrow> [Log ERROR (''Failed to uninstall OCS. Exception is: '' @ exn_str ex),
                          Log INFO ''resuming teardown''])
        @ [Call (OCPDeployment_destroy log_level)])"
  using destroy_cluster_power(1) destroy_cluster_other by blast

theorem destroy_cluster_platforms_witness:
  "new_events state0 (snd (destroy_cluster env_ok config_power constants0 ''DEBUG'' state0)) =
     [Call DestroyOcs, Log INFO ''Destroy of OCP not implemented yet.'']
   \<and> new_events state0 (snd (destroy_cluster env_uninstall_fails config0 constants0 ''DEBUG'' state0)) =
     [Call OCPDeployment_init, Call UninstallOcs,
      Log ERROR ''Failed to uninstall OCS. Exception is: timeout'',
      Log INFO ''resuming teardown'', Call (OCPDeployment_destroy ''DEBUG'')]"
  using destroy_cluster_platforms [where E = env_ok and C = config_power and K = constants0
          and s = state0 and log_level = "''DEBUG''"]
        destroy_cluster_platforms [where E = env_uninstall_fails and C = config0 and K = constants0
          and s = state0 and log_level = "''DEBUG''"]
  by (simp add: env_ok_def env_uninstall_fails_def config_power_def config0_def env_data0_def
        constants0_def)

section \<open>deploy\_cluster\<close>

lemma deploy_cluster_ocs_failure:
  assumes "\<not> skip_ocs_deployment (ENV_DATA C)" and "deploy_ocs E C K s = (Inl e, s1)"
  shows "deploy_cluster_ocs E C K s =
     (let s2 = emit (Log ERROR (exn_str e)) s1;
          c1 = CollectOcsLogs ''deployment'' None (Some False) None;
          c2 = CollectOcsLogs ''deployment'' (Some False) None None
      in if \<not> gather_on_deploy_failure C then (Inl e, s2)
         else case answer_unit E (trace s2) c1 of
                Some e1 \<Rightarrow> (Inl e1, emit (Call c1) s2)
              | None \<Rightarrow>
                 (case answer_unit E (trace s2 @ [Call c1]) c2 of
                    Some e2 \<Rightarrow> (Inl e2, emit (Call c2) (emit (Call c1) s2))
                  | None \<Rightarrow> (Inl e, emit (Call c2) (emit (Call c1) s2))))"
  using assms
  by (auto simp: deploy_cluster_ocs_def Let_def seq_def bnd_def try_except_def call_unit_def
        collect_ocs_logs_def logger_def ret_def raise_def
      split: option.splits)

lemma deploy_cluster_ocp_failure:
  assumes "\<not> skip_ocp_deployment (ENV_DATA C)"
      and "answer_bool E (trace s) (IsClusterRunning (cluster_path (ENV_DATA C))) = Inr False"
      and "seq (deploy_ocp E log_cli_level) (post_ocp_deploy E)
             (emit (Call (IsClusterRunning (cluster_path (ENV_DATA C)))) s) = (Inl e, s1)"
  shows "deploy_cluster_ocp E C log_cli_level s =
     (let s2 = emit (Log ERROR (exn_str e)) (s1\<lparr>is_ocp_deployment_failed := True\<rparr>);
          c = CollectOcsLogs ''deployment'' None (Some False) None
      in if \<not> gather_on_deploy_failure C then (Inl e, s2)
         else case answer_unit E (trace s2) c of
                Some e1 \<Rightarrow> (Inl e1, emit (Call c) s2)
              | None \<Rightarrow> (Inl e, emit (Call c) s2))"
  using assms
  by (auto simp: deploy_cluster_ocp_def Let_def seq_def bnd_def try_except_def call_unit_def
        call_bool_def collect_ocs_logs_def logger_def ret_def raise_def
        set_is_ocp_deployment_failed_def
      split: option.splits)

text \<open>
  Claim C4 says that whenever a phase raises, the collection of diagnostics is invoked.
  With \<open>gather_on_deploy_failure\<close> off, a failure of the OCS phase is logged and raised
  again, and no collection is invoked.
\<close>

theorem deploy_cluster_collects_counterexample:
  "deploy_cluster (env_probe (OtherError ''connection refused'')) config0 constants0 ''DEBUG'' state0 =
     (Inl (OtherError ''connection refused''),
      state0\<lparr>trace := [Call (OcpGet ''CephCluster'' ''openshift-storage''),
                        Log ERROR ''connection refused'']\<rparr>)"
  by (simp add: deploy_cluster_def deploy_cluster_ocp_def deploy_cluster_ocs_def deploy_ocs_def
        ceph_cluster_exists_def env_probe_def env_ok_def config0_def env_data0_def state0_def
        namespace_def seq_def bnd_def try_except_def call_items_def raise_def ret_def logger_def
        emit_def)

text \<open>
  Claim C4, amended.  When the OCP phase (\<open>deploy_ocp\<close>, \<open>post_ocp_deploy\<close>) or the OCS
  phase (\<open>deploy_ocs\<close>) raises \<open>e\<close>, \<open>deploy_cluster\<close> logs the error and, only when
  \<open>gather_on_deploy_failure\<close> is set, invokes \<open>collect_ocs_logs\<close> next (once for the OCP
  phase, twice for the OCS phase) before anything surfaces.  Without the flag, or when the
  collection calls return normally, \<open>e\<close> itself is raised again, unchanged.  (What
  happens when a collection call raises is not part of this statement.)
\<close>

theorem deploy_cluster_failure:
  "(\<not> skip_ocp_deployment (ENV_DATA C)
      \<and> answer_bool E (trace s) (IsClusterRunning (cluster_path (ENV_DATA C))) = Inr False
      \<and> seq (deploy_ocp E log_cli_level) (post_ocp_deploy E)
            (emit (Call (IsClusterRunning (cluster_path (ENV_DATA C)))) s) = (Inl e, s_err) \<longrightarrow>
      (let s_log = emit (Log ERROR (exn_str e)) (s_err\<lparr>is_ocp_deployment_failed := True\<rparr>);
           c = CollectOcsLogs ''deployment'' None (Some False) None
       in (\<not> gather_on_deploy_failure C \<longrightarrow>
             deploy_cluster E C K log_cli_level s = (Inl e, s_log))
        \<and> (gather_on_deploy_failure C \<longrightarrow>
             snd (deploy_cluster E C K log_cli_level s) = emit (Call c) s_log)
        \<and> (gather_on_deploy_failure C \<and> answer_unit E (trace s_log) c = None \<longrightarrow>
             deploy_cluster E C K log_cli_level s = (Inl e, emit (Call c) s_log))))
   \<and> (deploy_cluster_ocp E C log_cli_level s = (Inr (), s_ocp)
        \<and> \<not> skip_ocs_deployment (ENV_DATA C)
        \<and> deploy_ocs E C K s_ocp = (Inl e, s_err) \<longrightarrow>
      (let s_log = emit (Log ERROR (exn_str e)) s_err;
           c_ocp = CollectOcsLogs ''deployment'' None (Some False) None;
           c_ocs = CollectOcsLogs ''deployment'' (Some False) None None
       in (\<not> gather_on_deploy_failure C \<longrightarrow>
             deploy_cluster E C K log_cli_level s = (Inl e, s_log))
        \<and> (gather_on_deploy_failure C \<longrightarrow>
             take (Suc (length (trace s_log))) (trace (snd (deploy_cluster E C K log_cli_level s)))
               = trace s_log @ [Call c_ocp])
        \<and> (gather_on_deploy_failure C \<and> answer_unit E (trace s_log) c_ocp = None
              \<and> answer_unit E (trace s_log @ [Call c_ocp]) c_ocs = None \<longrightarrow>
             deploy_cluster E C K log_cli_level s = (Inl e, emit (Call c_ocs) (emit (Call c_ocp) s_log)))))"
proof (intro conjI impI)
  assume h: "\<not> skip_ocp_deployment (ENV_DATA C)
      \<and> answer_bool E (trace s) (IsClusterRunning (cluster_path (ENV_DATA C))) = Inr False
      \<and> seq (deploy_ocp E log_cli_level) (post_ocp_deploy E)
            (emit (Call (IsClusterRunning (cluster_path (ENV_DATA C)))) s) = (Inl e, s_err)"
  have "deploy_cluster E C K log_cli_level s = deploy_cluster_ocp E C log_cli_level s"
    using deploy_cluster_ocp_failure [of C E s log_cli_level e s_err] h
    by (simp add: deploy_cluster_def seq_def bnd_def Let_def split: option.splits)
  then show "let s_log = emit (Log ERROR (exn_str e)) (s_err\<lparr>is_ocp_deployment_failed := True\<rparr>);
           c = CollectOcsLogs ''deployment'' None (Some False) None
       in (\<not> gather_on_deploy_failure C \<longrightarrow>
             deploy_cluster E C K log_cli_level s = (Inl e, s_log))
        \<and> (gather_on_deploy_failure C \<longrightarrow>
             snd (deploy_cluster E C K log_cli_level s) = emit (Call c) s_log)
        \<and> (gather_on_deploy_failure C \<and> answer_unit E (trace s_log) c = None \<longrightarrow>
             deploy_cluster E C K log_cli_level s = (Inl e, emit (Call c) s_log))"
    using deploy_cluster_ocp_failure [of C E s log_cli_level e s_err] h
    by (simp add: Let_def split: option.splits)
next
  assume h: "deploy_cluster_ocp E C log_cli_level s = (Inr (), s_ocp)
        \<and> \<not> skip_ocs_deployment (ENV_DATA C)
        \<and> deploy_ocs E C K s_ocp = (Inl e, s_err)"
  have "deploy_cluster E C K log_cli_level s = deploy_cluster_ocs E C K s_ocp"
    using h by (simp add: deploy_cluster_def seq_def bnd_def)
  then show "let s_log = emit (Log ERROR (exn_str e)) s_err;
           c_ocp = CollectOcsLogs ''deployment'' None (Some False) None;
           c_ocs = CollectOcsLogs ''deployment'' (Some False) None None
       in (\<not> gather_on_deploy_failure C \<longrightarrow>
             deploy_cluster E C K log_cli_level s = (Inl e, s_log))
        \<and> (gather_on_deploy_failure C \<longrightarrow>
             take (Suc (length (trace s_log))) (trace (snd (deploy_cluster E C K log_cli_level s)))
               = trace s_log @ [Call c_ocp])
        \<and> (gather_on_deploy_failure C \<and> answer_unit E (trace s_log) c_ocp = None
              \<and> answer_unit E (trace s_log @ [Call c_ocp]) c_ocs = None \<longrightarrow>
             deploy_cluster E C K log_cli_level s = (Inl e, emit (Call c_ocs) (emit (Call c_ocp) s_log)))"
    using deploy_cluster_ocs_failure [of C E K s_ocp e s_err] h
    by (simp add: Let_def split: option.splits)
qed

theorem deploy_cluster_failure_witness:
  "deploy_cluster env_ocp_fails config_ocp constants0 ''DEBUG'' state0 =
     (Inl (CommandFailed ''install failed''),
      state0\<lparr>trace := [Call (IsClusterRunning ''/tmp/cluster''), Call OCPDeployment_init,
                        Call OCPDeployment_deploy_prereq, Call (OCPDeployment_deploy ''DEBUG''),
                        Log ERROR ''install failed'',
                        Call (CollectOcsLogs ''deployment'' None (Some False) None)],
              is_ocp_deployment_failed := True\<rparr>)
   \<and> deploy_cluster (env_probe (OtherError ''connection refused'')) config_gather constants0 ''DEBUG'' state0 =
     (Inl (OtherError ''connection refused''),
      state0\<lparr>trace := [Call (OcpGet ''CephCluster'' ''openshift-storage''),
                        Log ERROR ''connection refused'',
                        Call (CollectOcsLogs ''deployment'' None (Some False) None),
                        Call (CollectOcsLogs ''deployment'' (Some False) None None)]\<rparr>)"
  using deploy_cluster_failure [where E = env_ocp_fails and C = config_ocp and K = constants0
          and log_cli_level = "''DEBUG''" and s = state0 and e = "CommandFailed ''install failed''"
          and s_err = "state0\<lparr>trace := [Call (IsClusterRunning ''/tmp/cluster''), Call OCPDeployment_init,
                        Call OCPDeployment_deploy_prereq, Call (OCPDeployment_deploy ''DEBUG'')]\<rparr>"
          and s_ocp = state0]
        deploy_cluster_failure [where E = "env_probe (OtherError ''connection refused'')"
          and C = config_gather and K = constants0
          and log_cli_level = "''DEBUG''" and s = state0 and e = "OtherError ''connection refused''"
          and s_ocp = state0
          and s_err = "state0\<lparr>trace := [Call (OcpGet ''CephCluster'' ''openshift-storage'')]\<rparr>"]
  by (simp add: env_ocp_fails_def env_probe_def env_ok_def config_ocp_def config_gather_def
        config0_def env_data0_def state0_def namespace_def
        deploy_cluster_ocp_def deploy_ocs_def ceph_cluster_exists_def deploy_ocp_def
        post_ocp_deploy_def Let_def
        seq_def bnd_def try_except_def call_items_def call_unit_def call_bool_def raise_def ret_def
        emit_def)

section \<open>Calls with a known answer\<close>

lemma bnd_call_str:
  "answer_str E (trace s) c = Inr v \<Longrightarrow> bnd (call_str E c) f s = f v (emit (Call c) s)"
  by (simp add: bnd_def call_str_def)

lemma bnd_call_strs:
  "answer_strs E (trace s) c = Inr v \<Longrightarrow> bnd (call_strs E c) f s = f v (emit (Call c) s)"
  by (simp add: bnd_def call_strs_def)

lemma bnd_call_bool:
  "answer_bool E (trace s) c = Inr v \<Longrightarrow> bnd (call_bool E c) f s = f v (emit (Call c) s)"
  by (simp add: bnd_def call_bool_def)

lemma seq_call_unit:
  "answer_unit E (trace s) c = None \<Longrightarrow> seq (call_unit E c) n s = n (emit (Call c) s)"
  by (simp add: seq_def bnd_def call_unit_def)

section \<open>retry\<close>

lemma retry_loop_0: "retry_loop types 0 delay backoff f = f"
  by (rule ext) simp

lemma retry_loop_Suc:
  "retry_loop types (Suc n) delay backoff f =
     try_except f (\<lambda>e. if types e
                        then seq (sleep delay) (retry_loop types n (delay * backoff) backoff f)
                        else raise e)"
  by (rule ext) simp

lemma retry_3:
  "retry types 3 delay f =
     try_except f (\<lambda>e. if types e
       then seq (sleep delay)
              (try_except f (\<lambda>e. if types e then seq (sleep delay) f else raise e))
       else raise e)"
  by (simp add: retry_def numeral_2_eq_2 retry_loop_0 retry_loop_Suc cong: if_cong)

section \<open>deploy\_ocs: monitoring\<close>

text \<open>
  Claim C9 says that each of the three validations is retried.  When the validation of
  the PVCs fails once with \<open>AssertionError\<close> and would pass at the next call, the
  monitoring step of \<open>deploy_ocs\<close> raises \<open>AssertionError\<close> after that single call: no
  sleep of 15 seconds and no second call follow.
\<close>

theorem deploy_ocs_monitoring_retries_counterexample:
  "deploy_ocs_monitoring env_pvc_late config0 constants0 state0 =
     (Inl (AssertionError ''No PVC created in openshift-monitoring namespace''),
      state0\<lparr>trace :=
        [Call (DefaultStorageClass ''CephBlockPool''),
         Call (GetAllPods ''openshift-monitoring'' [''prometheus'', ''alertmanager'']),
         Call (CreateConfigmapClusterMonitoringPod (Some ''ocs-operator.v4.6.0'') None),
         Log INFO ''Waiting 45 seconds...'', Sleep 45,
         Call (ValidatePodsAreRespinnedAndRunningState [''prometheus-k8s-0'', ''alertmanager-main-0'']),
         Call ValidatePvcCreatedAndBoundOnMonitoringPods]\<rparr>)"
  by (simp add: deploy_ocs_monitoring_def retry_3 env_pvc_late_def env_ok_def config0_def
        env_data0_def constants0_def state0_def CEPHBLOCKPOOL_def
        seq_def bnd_def try_except_def call_str_def call_strs_def call_unit_def sleep_def
        logger_def emit_def ret_def raise_def)

text \<open>
  Claim C9, amended.  With \<open>monitoring_enabled\<close> and \<open>persistent-monitoring\<close> set, and once
  the default storage class and the monitoring pods are read and the config map is
  created, \<open>deploy_ocs\<close> logs, sleeps 45 seconds, and then runs: the validation that the
  pods were respun, tried up to 3 times with a sleep of 15 seconds after a
  \<open>CommandFailed\<close> or \<open>ResourceWrongStatusException\<close>; the validation that the PVCs are
  created and bound, called once, so that any exception it raises ends the step; the
  validation that the PVCs are mounted, tried up to 3 times with a sleep of 15 seconds
  after a \<open>CommandFailed\<close> or \<open>AssertionError\<close>.
\<close>

theorem deploy_ocs_monitoring_persistent:
  assumes "monitoring_enabled (ENV_DATA C)" and "persistent_monitoring (ENV_DATA C)"
      and "answer_str E (trace s) (DefaultStorageClass CEPHBLOCKPOOL) = Inr sc_name"
      and "answer_strs E (trace s @ [Call (DefaultStorageClass CEPHBLOCKPOOL)])
             (GetAllPods (OCS_MONITORING_NAMESPACE K) [''prometheus'', ''alertmanager''])
           = Inr pods_list"
      and "answer_unit E
             (trace s @ [Call (DefaultStorageClass CEPHBLOCKPOOL),
                         Call (GetAllPods (OCS_MONITORING_NAMESPACE K) [''prometheus'', ''alertmanager''])])
             (CreateConfigmapClusterMonitoringPod (Some sc_name) (telemeter_server_url (ENV_DATA C)))
           = None"
      and "s_wait = s\<lparr>trace := trace s @
             [Call (DefaultStorageClass CEPHBLOCKPOOL),
              Call (GetAllPods (OCS_MONITORING_NAMESPACE K) [''prometheus'', ''alertmanager'']),
              Call (CreateConfigmapClusterMonitoringPod (Some sc_name) (telemeter_server_url (ENV_DATA C))),
              Log INFO ''Waiting 45 seconds...'', Sleep 45]\<rparr>"
      and "respun = call_unit E (ValidatePodsAreRespinnedAndRunningState pods_list)"
      and "bound = call_unit E ValidatePvcCreatedAndBoundOnMonitoringPods"
      and "mounted = call_unit E (ValidatePvcAreMountedOnMonitoringPods pods_list)"
  shows "deploy_ocs_monitoring E C K s =
           seq (try_except respun (\<lambda>e. if CommandFailed_or_ResourceWrongStatusException e
                  then seq (sleep 15)
                         (try_except respun (\<lambda>e. if CommandFailed_or_ResourceWrongStatusException e
                            then seq (sleep 15) respun else raise e))
                  else raise e))
          (seq bound
              (try_except mounted (\<lambda>e. if CommandFailed_or_AssertionError e
                  then seq (sleep 15)
                         (try_except mounted (\<lambda>e. if CommandFailed_or_AssertionError e
                            then seq (sleep 15) mounted else raise e))
                  else raise e))) s_wait
       \<and> (answer_unit E (trace s_wait) (ValidatePodsAreRespinnedAndRunningState pods_list) = None
            \<and> answer_unit E (trace s_wait @ [Call (ValidatePodsAreRespinnedAndRunningState pods_list)])
                 ValidatePvcCreatedAndBoundOnMonitoringPods = Some e
          \<longrightarrow> deploy_ocs_monitoring E C K s =
                (Inl e, s_wait\<lparr>trace := trace s_wait @
                   [Call (ValidatePodsAreRespinnedAndRunningState pods_list),
                    Call ValidatePvcCreatedAndBoundOnMonitoringPods]\<rparr>))"
proof -
  have pre: "deploy_ocs_monitoring E C K s =
           seq (retry CommandFailed_or_ResourceWrongStatusException 3 15 respun)
          (seq bound (retry CommandFailed_or_AssertionError 3 15 mounted)) s_wait"
    unfolding deploy_ocs_monitoring_def using assms
    by (simp add: bnd_call_str bnd_call_strs seq_call_unit emit_def)
  have one: "answer_unit E (trace s_wait) (ValidatePodsAreRespinnedAndRunningState pods_list) = None
            \<and> answer_unit E (trace s_wait @ [Call (ValidatePodsAreRespinnedAndRunningState pods_list)])
                 ValidatePvcCreatedAndBoundOnMonitoringPods = Some e
          \<longrightarrow> deploy_ocs_monitoring E C K s =
                (Inl e, s_wait\<lparr>trace := trace s_wait @
                   [Call (ValidatePodsAreRespinnedAndRunningState pods_list),
                    Call ValidatePvcCreatedAndBoundOnMonitoringPods]\<rparr>)"
    unfolding pre assms(7,8)
    by (simp add: retry_3 seq_def bnd_def try_except_def call_unit_def emit_def)
  show ?thesis using pre one by (simp add: retry_3)
qed

theorem deploy_ocs_monitoring_persistent_witness:
  "deploy_ocs_monitoring env_pvc_late config0 constants0 state0 =
     (Inl (AssertionError ''No PVC created in openshift-monitoring namespace''),
      state0\<lparr>trace :=
        [Call (DefaultStorageClass ''CephBlockPool''),
         Call (GetAllPods ''openshift-monitoring'' [''prometheus'', ''alertmanager'']),
         Call (CreateConfigmapClusterMonitoringPod (Some ''ocs-operator.v4.6.0'') None),
         Log INFO ''Waiting 45 seconds...'', Sleep 45,
         Call (ValidatePodsAreRespinnedAndRunningState [''prometheus-k8s-0'', ''alertmanager-main-0'']),
         Call ValidatePvcCreatedAndBoundOnMonitoringPods]\<rparr>)"
proof -
  have on: "monitoring_enabled (ENV_DATA config0)" "persistent_monitoring (ENV_DATA config0)"
    by (simp_all add: config0_def env_data0_def)
  have a: "answer_str env_pvc_late (trace state0) (DefaultStorageClass CEPHBLOCKPOOL)
             = Inr ''ocs-operator.v4.6.0''"
    by (simp add: env_pvc_late_def env_ok_def)
  have b: "answer_strs env_pvc_late (trace state0 @ [Call (DefaultStorageClass CEPHBLOCKPOOL)])
             (GetAllPods (OCS_MONITORING_NAMESPACE constants0) [''prometheus'', ''alertmanager''])
           = Inr [''prometheus-k8s-0'', ''alertmanager-main-0'']"
    by (simp add: env_pvc_late_def env_ok_def)
  have c: "answer_unit env_pvc_late
             (trace state0 @ [Call (DefaultStorageClass CEPHBLOCKPOOL),
                Call (GetAllPods (OCS_MONITORING_NAMESPACE constants0) [''prometheus'', ''alertmanager''])])
             (CreateConfigmapClusterMonitoringPod (Some ''ocs-operator.v4.6.0'')
                (telemeter_server_url (ENV_DATA config0)))
           = None"
    by (simp add: env_pvc_late_def env_ok_def)
  from deploy_ocs_monitoring_persistent [where e = "AssertionError ''No PVC created in openshift-monitoring namespace''", OF on a b c refl refl refl refl,
         THEN conjunct2]
  show ?thesis
    by (simp add: env_pvc_late_def env_ok_def config0_def env_data0_def constants0_def state0_def
          CEPHBLOCKPOOL_def)
qed

lemmas prog_defs = ret_def raise_def bnd_def seq_def try_except_def emit_def logger_def sleep_def
  call_unit_def call_bool_def call_str_def call_strs_def call_items_def call_num_def
  call_cluster_def call_sub_def assert_def

section \<open>deploy\_ocs: the final health check\<close>

lemma deploy_ocs_health_check_passes:
  assumes "answer_bool E (trace s @ [Log INFO ''Done creating rook resources, waiting for HEALTH_OK''])
             (CephHealthCheck (namespace C) 30 10) = Inr b"
  shows "deploy_ocs_health_check E C K s =
           (Inr (), s\<lparr>trace := trace s @
              [Log INFO ''Done creating rook resources, waiting for HEALTH_OK'',
               Call (CephHealthCheck (namespace C) 30 10)]\<rparr>)"
  using assms
  by (simp add: deploy_ocs_health_check_def prog_defs)

lemma deploy_ocs_health_check_other_exception:
  assumes "answer_bool E (trace s @ [Log INFO ''Done creating rook resources, waiting for HEALTH_OK''])
             (CephHealthCheck (namespace C) 30 10) = Inl e"
      and "\<forall>m. e \<noteq> CephHealthException m"
  shows "deploy_ocs_health_check E C K s =
           (Inl e, s\<lparr>trace := trace s @
              [Log INFO ''Done creating rook resources, waiting for HEALTH_OK'',
               Call (CephHealthCheck (namespace C) 30 10)]\<rparr>)"
  using assms
  by (cases e)
     (simp_all add: deploy_ocs_health_check_def prog_defs)

lemma deploy_ocs_health_check_swallows:
  assumes "answer_bool E (trace s @ [Log INFO ''Done creating rook resources, waiting for HEALTH_OK''])
             (CephHealthCheck (namespace C) 30 10) = Inl (CephHealthException m)"
      and "\<not> py_in ''clock skew detected'' m"
  shows "deploy_ocs_health_check E C K s =
           (Inr (), s\<lparr>trace := trace s @
              [Log INFO ''Done creating rook resources, waiting for HEALTH_OK'',
               Call (CephHealthCheck (namespace C) 30 10),
               Log WARNING (''Ceph health check failed with '' @ m)]\<rparr>)"
  using assms
  by (simp add: deploy_ocs_health_check_def prog_defs Let_def)

text \<open>The result of \<open>assert ceph_health_check(..., tries=60, delay=10)\<close>.\<close>

lemma recheck_result:
  "bnd (call_bool E c) assert s =
     (case answer_bool E (trace s) c of
        Inl e \<Rightarrow> Inl e | Inr b \<Rightarrow> if b then Inr () else Inl (AssertionError ''''),
      emit (Call c) s)"
  by (simp add: prog_defs split: sum.splits)

text \<open>
  Claim C2, amended.  When the first health check (30 tries, 10 seconds) raises
  \<open>CephHealthException\<close> and the message contains \<open>clock skew detected\<close>, the step logs
  the failure and the change of NTP, and then: on the vSphere platform it calls
  \<open>update_ntp_compute_nodes\<close> exactly once (an exception of that call ends the step);
  on every other platform it calls no remediation at all.  Then it checks the health once
  more with 60 tries and 10 seconds, and that call is the last thing the step does: the
  step succeeds when the re-check returns true, raises \<open>AssertionError\<close> when it returns
  false, and raises what the re-check raises.
\<close>

theorem deploy_ocs_health_check_clock_skew:
  assumes "answer_bool E (trace s @ [Log INFO ''Done creating rook resources, waiting for HEALTH_OK''])
             (CephHealthCheck (namespace C) 30 10) = Inl (CephHealthException m)"
      and "py_in ''clock skew detected'' m"
      and "s_skew = s\<lparr>trace := trace s @
              [Log INFO ''Done creating rook resources, waiting for HEALTH_OK'',
               Call (CephHealthCheck (namespace C) 30 10),
               Log WARNING (''Ceph health check failed with '' @ m),
               Log INFO (''Changing NTP on compute nodes to '' @ RH_NTP_CLOCK K)]\<rparr>"
  shows "(platform (ENV_DATA C) = VSPHERE_PLATFORM \<longrightarrow>
            (case answer_unit E (trace s_skew) UpdateNtpComputeNodes of
               Some e \<Rightarrow>
                 deploy_ocs_health_check E C K s =
                   (Inl e, s_skew\<lparr>trace := trace s_skew @ [Call UpdateNtpComputeNodes]\<rparr>)
             | None \<Rightarrow>
                 deploy_ocs_health_check E C K s =
                   (case answer_bool E (trace s_skew @ [Call UpdateNtpComputeNodes])
                           (CephHealthCheck (namespace C) 60 10) of
                      Inl e \<Rightarrow> Inl e
                    | Inr ok \<Rightarrow> if ok then Inr () else Inl (AssertionError ''''),
                    s_skew\<lparr>trace := trace s_skew @
                      [Call UpdateNtpComputeNodes, Call (CephHealthCheck (namespace C) 60 10)]\<rparr>)))
       \<and> (platform (ENV_DATA C) \<noteq> VSPHERE_PLATFORM \<longrightarrow>
            deploy_ocs_health_check E C K s =
              (case answer_bool E (trace s_skew) (CephHealthCheck (namespace C) 60 10) of
                 Inl e \<Rightarrow> Inl e
               | Inr ok \<Rightarrow> if ok then Inr () else Inl (AssertionError ''''),
               s_skew\<lparr>trace := trace s_skew @ [Call (CephHealthCheck (namespace C) 60 10)]\<rparr>))"
  using assms
  by (auto simp: deploy_ocs_health_check_def prog_defs Let_def split: option.splits sum.splits)

theorem deploy_ocs_health_check_clock_skew_witness:
  "deploy_ocs_health_check (env_health ''HEALTH_WARN clock skew detected on mon.b'')
       config_vsphere constants0 state0 =
     (Inr (), state0\<lparr>trace :=
        [Log INFO ''Done creating rook resources, waiting for HEALTH_OK'',
         Call (CephHealthCheck ''openshift-storage'' 30 10),
         Log WARNING ''Ceph health check failed with HEALTH_WARN clock skew detected on mon.b'',
         Log INFO ''Changing NTP on compute nodes to clock1.rdu2.redhat.com'',
         Call UpdateNtpComputeNodes,
         Call (CephHealthCheck ''openshift-storage'' 60 10)]\<rparr>)
   \<and> deploy_ocs_health_check (env_health ''HEALTH_WARN clock skew detected on mon.b'')
       config0 constants0 state0 =
     (Inr (), state0\<lparr>trace :=
        [Log INFO ''Done creating rook resources, waiting for HEALTH_OK'',
         Call (CephHealthCheck ''openshift-storage'' 30 10),
         Log WARNING ''Ceph health check failed with HEALTH_WARN clock skew detected on mon.b'',
         Log INFO ''Changing NTP on compute nodes to clock1.rdu2.redhat.com'',
         Call (CephHealthCheck ''openshift-storage'' 60 10)]\<rparr>)"
proof -
  let ?E = "env_health ''HEALTH_WARN clock skew detected on mon.b''"
  have skew: "py_in ''clock skew detected'' ''HEALTH_WARN clock skew detected on mon.b''"
    by simp
  have a: "answer_bool ?E (trace state0 @ [Log INFO ''Done creating rook resources, waiting for HEALTH_OK''])
             (CephHealthCheck (namespace config_vsphere) 30 10)
           = Inl (CephHealthException ''HEALTH_WARN clock skew detected on mon.b'')"
    by (simp add: env_health_def env_ok_def namespace_def config_vsphere_def config0_def env_data0_def)
  have b: "answer_bool ?E (trace state0 @ [Log INFO ''Done creating rook resources, waiting for HEALTH_OK''])
             (CephHealthCheck (namespace config0) 30 10)
           = Inl (CephHealthException ''HEALTH_WARN clock skew detected on mon.b'')"
    by (simp add: env_health_def env_ok_def namespace_def config0_def env_data0_def)
  from deploy_ocs_health_check_clock_skew [OF a skew refl, where K = constants0]
       deploy_ocs_health_check_clock_skew [OF b skew refl, where K = constants0]
  show ?thesis
    by (simp add: env_health_def env_ok_def namespace_def config_vsphere_def config0_def
          env_data0_def constants0_def state0_def VSPHERE_PLATFORM_def)
qed

section \<open>The concrete runs, field by field\<close>

lemma config0_fields:
  "ENV_DATA config0 = env_data0" "DEPLOYMENT config0 = deployment0"
  "gather_on_deploy_failure config0 = False" "collect_logs_on_success_run config0 = False"
  "external_cluster_details config0 = []" "DEFAULT_STORAGECLASS_LSO config0 = ''localblock''"
  "CUSTOM_STORAGE_CLASS_PATH config0 = None" "class_name config0 = ''AWSIPI''"
  by (simp_all add: config0_def)

lemma env_data0_fields:
  "platform env_data0 = ''aws''" "cluster_path env_data0 = ''/tmp/cluster''"
  "cluster_namespace env_data0 = ''openshift-storage''"
  "skip_ocp_deployment env_data0 = True" "skip_ocs_deployment env_data0 = False"
  "storage_cluster_name env_data0 = ''ocs-storagecluster''" "number_of_storage_nodes env_data0 = 3"
  "device_size env_data0 = None" "ocs_version env_data0 = double_4_6" "encryption_at_rest env_data0 = False"
  "monitoring_enabled env_data0 = True" "persistent_monitoring env_data0 = True"
  "telemeter_server_url env_data0 = None"
  by (simp_all add: env_data0_def)

lemma deployment0_fields:
  "subscription_plan_approval deployment0 = None" "ocs_csv_channel deployment0 = None"
  "stage deployment0 = False" "live_deployment deployment0 = False"
  "live_content_source deployment0 = None" "ui_deployment deployment0 = False"
  "local_storage deployment0 = False" "csv_change_from deployment0 = None"
  "csv_change_to deployment0 = None" "allow_lower_instance_requirements deployment0 = False"
  "host_network deployment0 = False" "infra_nodes deployment0 = False"
  "external_mode deployment0 = False" "deployment_browser deployment0 = None"
  by (simp_all add: deployment0_def)

lemma constants0_fields:
  "IBM_POWER_PLATFORM constants0 = ''powervs''" "BAREMETAL_PLATFORM constants0 = ''baremetal''"
  "RH_NTP_CLOCK constants0 = ''clock1.rdu2.redhat.com''"
  "OCS_OPERATOR_NAME constants0 = ''ocs-operator''" "LIVE_CONTENT_SOURCE constants0 = ''redhat-operators''"
  "ROOK_CLUSTER_NAMESPACE constants0 = ''openshift-storage''"
  "OCS_MONITORING_NAMESPACE constants0 = ''openshift-monitoring''" "DEVICE_SIZE constants0 = 512"
  "NODE_SELECTOR_ANNOTATION constants0 = ''openshift.io/node-selector=''"
  by (simp_all add: constants0_def)

lemma state0_fields:
  "trace state0 = []" "DEFAULT_STORAGECLASS state0 = Some ''gp2''"
  by (simp_all add: state0_def)

lemmas run0 = config0_fields env_data0_fields deployment0_fields constants0_fields namespace_def
  lower_aws

section \<open>A whole run of deploy\_ocs\<close>

text \<open>
  On the AWS configuration, with collaborators that answer as in \<open>env_ok\<close> wherever the
  validation of the PVCs and the first health check are not concerned, \<open>deploy_ocs\<close>
  installs the operator, creates the storage cluster and validates the pods; what is left
  is the monitoring step, the registry, the health check and the patch of the storage
  class.
\<close>

lemma deploy_ocs_until_monitoring:
  assumes [simp]: "\<And>h c. c \<noteq> ValidatePvcCreatedAndBoundOnMonitoringPods \<Longrightarrow> answer_unit E h c = None"
      and [simp]: "\<And>h c. c \<noteq> CephHealthCheck ''openshift-storage'' 30 10 \<Longrightarrow> answer_bool E h c = Inr True"
      and [simp]: "\<And>h c. answer_str E h c = Inr ''ocs-operator.v4.6.0''"
      and [simp]: "\<And>h. answer_items E h (OcpGet ''CephCluster'' ''openshift-storage'') = Inr (Some [])"
      and [simp]: "\<And>h. answer_items E h (OcpGet ''CephFileSystem'' ''openshift-storage'')
                       = Inr (Some [''ocs-storagecluster-cephfilesystem''])"
      and [simp]: "\<And>h c. answer_num E h c = Inr double_4_6"
      and [simp]: "\<And>h c. answer_cluster E h c = Inr template0"
      and [simp]: "\<And>h c. answer_sub E h c = Inr \<lparr>sub_installPlanApproval = None, sub_channel = None,
                                       sub_source = None\<rparr>"
  shows "deploy_ocs E config0 constants0 state0 =
     seq (deploy_ocs_monitoring E config0 constants0)
    (seq (call_unit E ChangeRegistryBackendToOcs)
    (seq (deploy_ocs_health_check E config0 constants0)
         (patch_default_sc_to_non_default E config0)))
      (state0\<lparr>trace :=
     [Call (OcpGet ''CephCluster'' ''openshift-storage''),
      Log INFO ''Running OCS basic installation'',
      Log INFO ''Deployment of OCS via OCS operator'',
      Call LabelAndTaintNodes,
      Log INFO ''Creating namespace and operator group.'',
      Call (OcCreate (Path ''ocs_ci/templates/ocs-deployment/deploy-with-olm.yaml'') None),
      Call CreateCatalogSource, Call GetSelectorForOcsOperator,
      Call (PackageManifestWaitForResource ''ocs-operator.v4.6.0'' None 300),
      Call PackageManifestGetDefaultChannel,
      Call (LoadYaml ''ocs_ci/templates/ocs-deployment/subscription.yaml''),
      Log INFO ''Default channel will be used: ocs-operator.v4.6.0'',
      Call (NamedTemporaryFile ''subscription_manifest''),
      Call (DumpDataToTempYaml
         (SubscriptionYaml \<lparr>sub_installPlanApproval = None,
              sub_channel = Some ''ocs-operator.v4.6.0'', sub_source = None\<rparr>)
         (TempFile ''subscription_manifest'')),
      Call (OcCreate (TempFile ''subscription_manifest'') None),
      Call GetSelectorForOcsOperator,
      Call (PackageManifestWaitForResource ''ocs-operator.v4.6.0'' None 300),
      Call (PackageManifestGetCurrentCsv None),
      Call (CsvWaitForPhase ''ocs-operator.v4.6.0'' ''openshift-storage'' ''Succeeded'' 720),
      Call (LoadYaml ''ocs_ci/templates/ocs-deployment/storage-cluster.yaml''),
      Call GetOcpVersion, Call (NamedTemporaryFile ''cluster_storage''),
      Call (DumpDataToTempYaml
         (ClusterYaml
           \<lparr>cd_name = ''ocs-storagecluster'', cd_annotations = None,
              cd_manageNodes = None, cd_monDataDirHostPath = None,
              cd_resources = None, cd_hostNetwork = None,
              cd_storageDeviceSets =
                [\<lparr>ds_count = 1, ds_storage = Gi 512,
                    ds_storageClassName = Some ''gp2'',
                    ds_portable = Some True, ds_resources = None\<rparr>],
              cd_encryption_enable = None\<rparr>)
         (TempFile ''cluster_storage'')),
      Call (OcCreate (TempFile ''cluster_storage'') (Some 2400)),
      Call (PodWaitForResource ''Running'' ''app=rook-ceph-mon'' (Some 3) 600),
      Call (PodWaitForResource ''Running'' ''app=rook-ceph-mgr'' None 600),
      Call (PodWaitForResource ''Running'' ''app=rook-ceph-osd'' (Some 3) 600),
      Call ValidateClusterOnPvc, Call ValidatePdbCreation,
      Call SetupCephToolbox,
      Call (PodWaitForResource ''Running'' ''app=rook-ceph-tools'' (Some 1) 600),
      Call (OcpGet ''CephFileSystem'' ''openshift-storage''),
      Call (ValidateCephfilesystem ''ocs-storagecluster-cephfilesystem''),
      Log INFO ''MDS deployment is successful!'']\<rparr>)"
  by (simp add: deploy_ocs_def ceph_cluster_exists_def deploy_ocs_install_def
        deploy_ocs_via_operator_def subscribe_ocs_def wait_for_csv_def
        create_ocs_operator_source_def create_storage_cluster_def storage_cluster_data_def
        default_deviceset_def
        lso_tweaks_def resource_tweaks_def get_device_size_def deploy_ocs_validate_def
        assert_pod_wait_for_resource_def oc_create_def set_DEFAULT_STORAGECLASS_def
        get_DEFAULT_STORAGECLASS_def
        set_CEPHFILESYSTEM_NAME_def prog_defs run0 state0_def template0_def Let_def
        STATUS_RUNNING_def CEPHFILESYSTEM_def OLM_YAML_def SUBSCRIPTION_YAML_def
        STORAGE_CLUSTER_YAML_def TEMPLATE_DEPLOYMENT_DIR_def)


lemma env_ok_answers:
  "answer_unit env_ok h c = None" "answer_bool env_ok h c = Inr True"
  "answer_str env_ok h c = Inr ''ocs-operator.v4.6.0''"
  "answer_strs env_ok h c = Inr [''prometheus-k8s-0'', ''alertmanager-main-0'']"
  "answer_items env_ok h (OcpGet ''CephCluster'' ''openshift-storage'') = Inr (Some [])"
  "answer_items env_ok h (OcpGet ''CephFileSystem'' ''openshift-storage'')
     = Inr (Some [''ocs-storagecluster-cephfilesystem''])"
  "answer_num env_ok h c = Inr double_4_6" "answer_cluster env_ok h c = Inr template0"
  "answer_sub env_ok h c = Inr \<lparr>sub_installPlanApproval = None, sub_channel = None,
                                 sub_source = None\<rparr>"
  by (simp_all add: env_ok_def CEPHFILESYSTEM_def)

lemma env_health_answers:
  "answer_unit (env_health msg) h c = None"
  "answer_bool (env_health msg) h c =
     (if c = CephHealthCheck ''openshift-storage'' 30 10
      then Inl (CephHealthException msg) else Inr True)"
  "answer_str (env_health msg) h c = Inr ''ocs-operator.v4.6.0''"
  "answer_strs (env_health msg) h c = Inr [''prometheus-k8s-0'', ''alertmanager-main-0'']"
  "answer_items (env_health msg) h (OcpGet ''CephCluster'' ''openshift-storage'') = Inr (Some [])"
  "answer_items (env_health msg) h (OcpGet ''CephFileSystem'' ''openshift-storage'')
     = Inr (Some [''ocs-storagecluster-cephfilesystem''])"
  "answer_num (env_health msg) h c = Inr double_4_6" "answer_cluster (env_health msg) h c = Inr template0"
  "answer_sub (env_health msg) h c = Inr \<lparr>sub_installPlanApproval = None, sub_channel = None,
                                 sub_source = None\<rparr>"
  by (simp_all add: env_health_def env_ok_def)

lemma env_pvc_late_answers:
  "answer_unit env_pvc_late h c =
     (if c = ValidatePvcCreatedAndBoundOnMonitoringPods
         \<and> Call ValidatePvcCreatedAndBoundOnMonitoringPods \<notin> set h
      then Some (AssertionError ''No PVC created in openshift-monitoring namespace'') else None)"
  "answer_bool env_pvc_late h c = Inr True"
  "answer_str env_pvc_late h c = Inr ''ocs-operator.v4.6.0''"
  "answer_strs env_pvc_late h c = Inr [''prometheus-k8s-0'', ''alertmanager-main-0'']"
  "answer_items env_pvc_late h (OcpGet ''CephCluster'' ''openshift-storage'') = Inr (Some [])"
  "answer_items env_pvc_late h (OcpGet ''CephFileSystem'' ''openshift-storage'')
     = Inr (Some [''ocs-storagecluster-cephfilesystem''])"
  "answer_num env_pvc_late h c = Inr double_4_6" "answer_cluster env_pvc_late h c = Inr template0"
  "answer_sub env_pvc_late h c = Inr \<lparr>sub_installPlanApproval = None, sub_channel = None,
                                 sub_source = None\<rparr>"
  by (simp_all add: env_pvc_late_def env_ok_def)

lemmas rest_defs = deploy_ocs_monitoring_def retry_3 deploy_ocs_health_check_def
  patch_default_sc_to_non_default_def get_DEFAULT_STORAGECLASS_def run_cmd_def CEPHBLOCKPOOL_def
  VSPHERE_PLATFORM_def
  Let_def prog_defs run0 state0_fields

text \<open>
  Claim C1 says that a failure of the final health check whose message has no clock skew
  in it leaves \<open>deploy_ocs\<close> as an exception.  The code catches \<open>CephHealthException\<close>
  and raises again in no branch: when the health check raises it with the message
  \<open>HEALTH_WARN 1 osds down\<close>, \<open>deploy_ocs\<close> logs a warning, makes no second check and
  returns normally.
\<close>

theorem deploy_ocs_unhealthy_returns:
  "fst (deploy_ocs (env_health ''HEALTH_WARN 1 osds down'') config0 constants0 state0) = Inr ()
   \<and> Log WARNING ''Ceph health check failed with HEALTH_WARN 1 osds down''
        \<in> set (trace (snd (deploy_ocs (env_health ''HEALTH_WARN 1 osds down'') config0 constants0 state0)))
   \<and> Call (CephHealthCheck ''openshift-storage'' 60 10)
        \<notin> set (trace (snd (deploy_ocs (env_health ''HEALTH_WARN 1 osds down'') config0 constants0 state0)))"
  by (simp add: deploy_ocs_until_monitoring env_health_answers rest_defs)

text \<open>
  Claim C2 says that exactly one remediation is applied.  On AWS the health check fails
  with a clock skew, the re-check with 60 tries passes and \<open>deploy_ocs\<close> succeeds, and
  \<open>update_ntp_compute_nodes\<close> was never called.
\<close>

theorem deploy_ocs_clock_skew_counterexample:
  "fst (deploy_ocs (env_health ''HEALTH_WARN clock skew detected on mon.b'') config0 constants0 state0)
     = Inr ()
   \<and> Call (CephHealthCheck ''openshift-storage'' 60 10)
        \<in> set (trace (snd (deploy_ocs (env_health ''HEALTH_WARN clock skew detected on mon.b'')
                               config0 constants0 state0)))
   \<and> Call UpdateNtpComputeNodes
        \<notin> set (trace (snd (deploy_ocs (env_health ''HEALTH_WARN clock skew detected on mon.b'')
                               config0 constants0 state0)))"
  by (simp add: deploy_ocs_until_monitoring env_health_answers rest_defs)

text \<open>
  Claim C9, the same in a whole run of \<open>deploy_ocs\<close>: the validation of the PVCs is
  called once, it is the last thing \<open>deploy_ocs\<close> does, and its \<open>AssertionError\<close> is the
  result.
\<close>

theorem deploy_ocs_pvc_validation_counterexample:
  "fst (deploy_ocs env_pvc_late config0 constants0 state0)
     = Inl (AssertionError ''No PVC created in openshift-monitoring namespace'')
   \<and> filter (\<lambda>ev. ev = Call ValidatePvcCreatedAndBoundOnMonitoringPods)
        (trace (snd (deploy_ocs env_pvc_late config0 constants0 state0)))
      = [Call ValidatePvcCreatedAndBoundOnMonitoringPods]
   \<and> last (trace (snd (deploy_ocs env_pvc_late config0 constants0 state0)))
      = Call ValidatePvcCreatedAndBoundOnMonitoringPods"
  by (simp add: deploy_ocs_until_monitoring env_pvc_late_answers rest_defs)

section \<open>What a run appends to the trace\<close>

lemma only_new_events: "only P m \<Longrightarrow> list_all P (new_events s (snd (m s)))"
proof -
  assume "only P m"
  then obtain new where "trace (snd (m s)) = trace s @ new" and "list_all P new"
    unfolding only_def by blast
  then show ?thesis by (simp add: new_events_def)
qed

lemma emits_new_events: "emits m R \<Longrightarrow> R (fst (m s)) (new_events s (snd (m s)))"
proof -
  assume "emits m R"
  then obtain new where "trace (snd (m s)) = trace s @ new" and "R (fst (m s)) new"
    unfolding emits_def by blast
  then show ?thesis by (simp add: new_events_def)
qed

lemma only_ret: "only P (ret x)"
  by (simp add: only_def ret_def)

lemma only_raise: "only P (raise e)"
  by (simp add: only_def raise_def)

lemma only_logger: "P (Log lvl msg) \<Longrightarrow> only P (logger lvl msg)"
  by (simp add: only_def logger_def)

lemma only_sleep: "P (Sleep n) \<Longrightarrow> only P (sleep n)"
  by (simp add: only_def sleep_def)

lemma only_set_DEFAULT_STORAGECLASS: "only P (set_DEFAULT_STORAGECLASS n)"
  by (simp add: only_def set_DEFAULT_STORAGECLASS_def)

lemma only_get_DEFAULT_STORAGECLASS: "only P get_DEFAULT_STORAGECLASS"
  by (simp add: only_def get_DEFAULT_STORAGECLASS_def)

lemma only_call_unit: "P (Call c) \<Longrightarrow> only P (call_unit E c)"
  by (simp add: only_def call_unit_def split: option.splits)

lemma only_call_bool: "P (Call c) \<Longrightarrow> only P (call_bool E c)"
  by (simp add: only_def call_bool_def)

lemma only_call_str: "P (Call c) \<Longrightarrow> only P (call_str E c)"
  by (simp add: only_def call_str_def)

lemma only_call_strs: "P (Call c) \<Longrightarrow> only P (call_strs E c)"
  by (simp add: only_def call_strs_def)

lemma only_call_num: "P (Call c) \<Longrightarrow> only P (call_num E c)"
  by (simp add: only_def call_num_def)

lemma only_call_cluster: "P (Call c) \<Longrightarrow> only P (call_cluster E c)"
  by (simp add: only_def call_cluster_def)

lemma only_call_sub: "P (Call c) \<Longrightarrow> only P (call_sub E c)"
  by (simp add: only_def call_sub_def)

lemma only_oc_create: "P (Call (OcCreate file timeout)) \<Longrightarrow> only P (oc_create E file timeout)"
  by (simp add: oc_create_def only_call_unit)

lemma only_bnd:
  assumes "only P m" and "\<And>x. only P (f x)"
  shows "only P (bnd m f)"
  unfolding only_def
proof
  fix s
  obtain r s1 where ms: "m s = (r, s1)" by (cases "m s")
  from assms(1) obtain n1 where n1: "trace (snd (m s)) = trace s @ n1" "list_all P n1"
    unfolding only_def by blast
  show "\<exists>new. trace (snd (bnd m f s)) = trace s @ new \<and> list_all P new"
  proof (cases r)
    case (Inl e)
    then show ?thesis using ms n1 by (simp add: bnd_def)
  next
    case (Inr x)
    from assms(2) [of x] obtain n2
      where "trace (snd (f x s1)) = trace s1 @ n2" "list_all P n2"
      unfolding only_def by blast
    then show ?thesis using ms n1 Inr by (simp add: bnd_def)
  qed
qed

lemma only_seq: "only P m \<Longrightarrow> only P n \<Longrightarrow> only P (seq m n)"
  by (simp add: seq_def only_bnd)

lemma only_bnd_fails:
  assumes "only P m" and "fails m"
  shows "only P (bnd m f)"
  unfolding only_def
proof
  fix s
  from assms(2) obtain e where "fst (m s) = Inl e" unfolding fails_def by blast
  then have "snd (bnd m f s) = snd (m s)" by (cases "m s") (simp add: bnd_def)
  then show "\<exists>new. trace (snd (bnd m f s)) = trace s @ new \<and> list_all P new"
    using assms(1) unfolding only_def by simp
qed

lemma only_if: "(c \<Longrightarrow> only P a) \<Longrightarrow> (\<not> c \<Longrightarrow> only P b) \<Longrightarrow> only P (if c then a else b)"
  by simp

lemmas only_intros = only_ret only_raise only_logger only_sleep only_set_DEFAULT_STORAGECLASS
  only_get_DEFAULT_STORAGECLASS
  only_call_unit only_call_bool only_call_str only_call_strs only_call_num only_call_cluster
  only_call_sub only_oc_create only_bnd only_seq

lemma plain_log: "plain P \<Longrightarrow> P (Log lvl msg)"
  by (simp add: plain_def)

lemma plain_sleep: "plain P \<Longrightarrow> P (Sleep n)"
  by (simp add: plain_def)

lemma plain_call: "plain P \<Longrightarrow> \<not> special c \<Longrightarrow> P (Call c)"
  by (simp add: plain_def)

lemma fails_raise: "fails (raise e)"
  by (simp add: fails_def raise_def)

lemma fails_bnd1: "fails m \<Longrightarrow> fails (bnd m f)"
  unfolding fails_def
proof
  fix s
  assume "\<forall>s. \<exists>e. fst (m s) = Inl e"
  then obtain e where "fst (m s) = Inl e" by blast
  then show "\<exists>e. fst (bnd m f s) = Inl e" by (cases "m s") (simp add: bnd_def)
qed

lemma fails_bnd_returns:
  assumes "returns Q m" and "\<And>x. Q x \<Longrightarrow> fails (f x)"
  shows "fails (bnd m f)"
  unfolding fails_def
proof
  fix s
  obtain r s1 where ms: "m s = (r, s1)" by (cases "m s")
  show "\<exists>e. fst (bnd m f s) = Inl e"
  proof (cases r)
    case (Inl e)
    then show ?thesis using ms by (simp add: bnd_def)
  next
    case (Inr x)
    then have "Q x" using assms(1) ms unfolding returns_def by (metis fst_conv)
    then show ?thesis using assms(2) [of x] ms Inr by (simp add: bnd_def fails_def)
  qed
qed

lemma fails_bnd2: "(\<And>x. fails (f x)) \<Longrightarrow> fails (bnd m f)"
  by (rule fails_bnd_returns [where Q = "\<lambda>_. True"]) (simp_all add: returns_def)

lemma fails_seq2: "fails n \<Longrightarrow> fails (seq m n)"
  by (simp add: seq_def fails_bnd2)

section \<open>The blocks of deploy\_ocs\_via\_operator\<close>

lemma only_create_ocs_operator_source: "plain P \<Longrightarrow> only P (create_ocs_operator_source E C)"
  by (auto simp: create_ocs_operator_source_def intro!: only_intros intro: plain_call)

lemma only_deployment_with_ui: "plain P \<Longrightarrow> only P (deployment_with_ui E C)"
  by (auto simp: deployment_with_ui_def intro!: only_intros intro: plain_call plain_log)

lemma only_first_pv_size: "plain P \<Longrightarrow> only P (first_pv_size E sc)"
  by (auto simp: first_pv_size_def intro!: only_intros intro: plain_call split: list.splits)

lemma only_ibm_deviceset: "plain P \<Longrightarrow> only P (ibm_deviceset E C K cd i)"
  by (auto simp: ibm_deviceset_def Let_def intro!: only_intros only_first_pv_size)

lemma only_ibm_devicesets: "plain P \<Longrightarrow> only P (ibm_devicesets E C K is cd ds)"
proof (induction "is" arbitrary: cd ds)
  case Nil
  have "ibm_devicesets E C K [] cd ds = ret (cd, ds)" by (rule ext) simp
  then show ?case by (simp add: only_ret)
next
  case (Cons i rest)
  have "ibm_devicesets E C K (i # rest) cd ds =
          bnd (ibm_deviceset E C K cd i) (\<lambda>(cd', d). ibm_devicesets E C K rest cd' (ds @ [d]))"
    by (rule ext) simp
  then show ?case
    using Cons by (auto intro!: only_bnd only_ibm_deviceset split: prod.splits)
qed

lemma only_default_deviceset: "plain P \<Longrightarrow> only P (default_deviceset E C K cd)"
  by (auto simp: default_deviceset_def Let_def
      intro!: only_intros only_first_pv_size intro: plain_call
      split: list.splits prod.splits)

lemma only_storage_cluster_data: "plain P \<Longrightarrow> only P (storage_cluster_data E C K)"
  by (auto simp: storage_cluster_data_def Let_def
      intro!: only_intros only_ibm_devicesets only_default_deviceset
      intro: plain_call plain_log
      split: prod.splits option.splits)

lemma only_subscribe_ocs:
  "plain P \<Longrightarrow> (\<And>ns. P (Call (WaitForInstallPlanAndApprove ns))) \<Longrightarrow> only P (subscribe_ocs E C K)"
  by (auto simp: subscribe_ocs_def Let_def intro!: only_intros intro: plain_call plain_log)

lemma only_wait_for_csv:
  "plain P \<Longrightarrow> (\<And>n ns ph t. P (Call (CsvWaitForPhase n ns ph t))) \<Longrightarrow> only P (wait_for_csv E C K)"
  by (auto simp: wait_for_csv_def intro!: only_intros intro: plain_call)

section \<open>Events of the operator installation\<close>

lemma only_create_storage_cluster:
  "plain P \<Longrightarrow> (\<And>cd p. P (Call (DumpDataToTempYaml (ClusterYaml cd) p)))
     \<Longrightarrow> (\<And>t. P (Call (OcCreate (TempFile ''cluster_storage'') t)))
     \<Longrightarrow> only P (create_storage_cluster E C K)"
  by (auto simp: create_storage_cluster_def
      intro!: only_intros only_storage_cluster_data intro: plain_call)

lemma only_deploy_ocs_via_operator:
  assumes "plain P"
      and "\<And>ns. P (Call (WaitForInstallPlanAndApprove ns))"
      and "\<And>n ns ph t. P (Call (CsvWaitForPhase n ns ph t))"
      and "only P (create_storage_cluster E C K)"
  shows "only P (deploy_ocs_via_operator E C K)"
proof -
  have [simp]: "\<And>c. \<not> special c \<Longrightarrow> P (Call c)" and [simp]: "\<And>lvl msg. P (Log lvl msg)"
    using assms(1) by (auto simp: plain_def)
  show ?thesis
    using assms(2-4)
    by (auto simp: deploy_ocs_via_operator_def
        intro!: only_intros only_create_ocs_operator_source [OF assms(1)]
          only_deployment_with_ui [OF assms(1)] only_subscribe_ocs [OF assms(1)]
          only_wait_for_csv [OF assms(1)]
        split: option.splits)
qed

section \<open>Encryption at rest\<close>

lemma returns_default_deviceset:
  "returns (\<lambda>(cd', ds, ov). ov = Some (ocs_version (ENV_DATA C))) (default_deviceset E C K cd)"
  by (auto simp: returns_def default_deviceset_def first_pv_size_def get_DEFAULT_STORAGECLASS_def
        prog_defs Let_def
      split: list.splits sum.splits prod.splits if_splits)

lemma fails_storage_cluster_data:
  assumes "encryption_at_rest (ENV_DATA C)" and "ocs_version (ENV_DATA C) < double_4_6"
      and "platform (ENV_DATA C) \<noteq> IBM_POWER_PLATFORM K"
  shows "fails (storage_cluster_data E C K)"
  unfolding storage_cluster_data_def using assms
  apply simp
  apply (rule fails_bnd2)
  apply (rule fails_bnd_returns [where Q = "\<lambda>(cd', ds, ov). ov = Some (ocs_version (ENV_DATA C))"])
   apply (rule returns_default_deviceset)
  apply (auto simp: seq_def intro!: fails_bnd2 fails_raise)
  done

lemma fails_create_storage_cluster:
  assumes "encryption_at_rest (ENV_DATA C)" and "ocs_version (ENV_DATA C) < double_4_6"
      and "platform (ENV_DATA C) \<noteq> IBM_POWER_PLATFORM K"
  shows "fails (create_storage_cluster E C K)"
  unfolding create_storage_cluster_def
  by (rule fails_bnd1) (rule fails_storage_cluster_data [OF assms])

lemma only_create_storage_cluster_fails:
  assumes "encryption_at_rest (ENV_DATA C)" and "ocs_version (ENV_DATA C) < double_4_6"
      and "platform (ENV_DATA C) \<noteq> IBM_POWER_PLATFORM K"
      and "plain P"
  shows "only P (create_storage_cluster E C K)"
  unfolding create_storage_cluster_def
  by (rule only_bnd_fails)
     (rule only_storage_cluster_data [OF assms(4)], rule fails_storage_cluster_data [OF assms(1-3)])

lemma fails_deploy_ocs_via_operator:
  assumes "encryption_at_rest (ENV_DATA C)" and "ocs_version (ENV_DATA C) < double_4_6"
      and "platform (ENV_DATA C) \<noteq> IBM_POWER_PLATFORM K"
      and "\<not> ui_deployment (DEPLOYMENT C)"
  shows "fails (deploy_ocs_via_operator E C K)"
  unfolding deploy_ocs_via_operator_def using assms(4)
  apply (simp only: if_False)
  apply (rule fails_seq2)+
  apply (rule fails_bnd2)
  apply (rule fails_seq2)+
  apply (rule fails_create_storage_cluster [OF assms(1-3)])
  done

lemma config_encrypt_fields:
  "ENV_DATA config_encrypt = env_data0\<lparr>encryption_at_rest := True, ocs_version := 4.5\<rparr>"
  "DEPLOYMENT config_encrypt = deployment0"
  "DEFAULT_STORAGECLASS_LSO config_encrypt = ''localblock''"
  "CUSTOM_STORAGE_CLASS_PATH config_encrypt = None"
  by (simp_all add: config_encrypt_def config0_def)

lemmas via_operator_defs = deploy_ocs_via_operator_def subscribe_ocs_def wait_for_csv_def
  create_ocs_operator_source_def create_storage_cluster_def storage_cluster_data_def
  default_deviceset_def lso_tweaks_def resource_tweaks_def get_device_size_def oc_create_def
  set_DEFAULT_STORAGECLASS_def get_DEFAULT_STORAGECLASS_def prog_defs Let_def
  OLM_YAML_def SUBSCRIPTION_YAML_def STORAGE_CLUSTER_YAML_def TEMPLATE_DEPLOYMENT_DIR_def

text \<open>
  Claim C3 says that the error is raised before any create call is issued.  With
  encryption at rest requested on OCS 4.5, \<open>deploy_ocs_via_operator\<close> does raise
  \<open>UnsupportedFeatureError\<close>, but the namespace and operator group and the subscription
  were created by then.
\<close>

theorem deploy_ocs_via_operator_encryption_counterexample:
  "fst (deploy_ocs_via_operator env_ok config_encrypt constants0 state0)
     = Inl (UnsupportedFeatureError ''Encryption at REST can be enabled only on OCS >= 4.6!'')
   \<and> Call (OcCreate (Path OLM_YAML) None)
        \<in> set (trace (snd (deploy_ocs_via_operator env_ok config_encrypt constants0 state0)))
   \<and> Call (OcCreate (TempFile ''subscription_manifest'') None)
        \<in> set (trace (snd (deploy_ocs_via_operator env_ok config_encrypt constants0 state0)))"
  by (simp add: via_operator_defs env_ok_answers config_encrypt_fields env_data0_fields
        deployment0_fields constants0_fields namespace_def lower_aws state0_fields template0_def
        double_4_6_def)

section \<open>The approval of the install plan\<close>

lemma emits_bnd:
  assumes "emits m R1" and "\<And>x. emits (f x) (R2 x)"
  shows "emits (bnd m f)
           (\<lambda>r new. (\<exists>e. r = Inl e \<and> R1 (Inl e) new)
                    \<or> (\<exists>x n1 n2. new = n1 @ n2 \<and> R1 (Inr x) n1 \<and> R2 x r n2))"
  unfolding emits_def
proof
  fix s
  obtain r s1 where ms: "m s = (r, s1)" by (cases "m s")
  from assms(1) obtain n1 where n1: "trace (snd (m s)) = trace s @ n1" "R1 (fst (m s)) n1"
    unfolding emits_def by blast
  show "\<exists>new. trace (snd (bnd m f s)) = trace s @ new \<and>
          ((\<exists>e. fst (bnd m f s) = Inl e \<and> R1 (Inl e) new)
           \<or> (\<exists>x n1 n2. new = n1 @ n2 \<and> R1 (Inr x) n1 \<and> R2 x (fst (bnd m f s)) n2))"
  proof (cases r)
    case (Inl e)
    then show ?thesis using ms n1 by (auto simp: bnd_def)
  next
    case (Inr x)
    from assms(2) [of x] obtain n2
      where n2: "trace (snd (f x s1)) = trace s1 @ n2" "R2 x (fst (f x s1)) n2"
      unfolding emits_def by blast
    have "trace (snd (bnd m f s)) = trace s @ (n1 @ n2)"
      using ms n1 n2 Inr by (simp add: bnd_def)
    moreover have "R1 (Inr x) n1 \<and> R2 x (fst (bnd m f s)) n2"
      using ms n1 n2 Inr by (simp add: bnd_def)
    ultimately show ?thesis by blast
  qed
qed

lemma emits_weaken: "emits m R \<Longrightarrow> (\<And>r new. R r new \<Longrightarrow> R' r new) \<Longrightarrow> emits m R'"
  unfolding emits_def by blast

lemma only_emits: "only P m \<Longrightarrow> emits m (\<lambda>r new. list_all P new)"
  by (simp add: only_def emits_def)

lemma emits_bnd_prefix:
  assumes "only Q m" and "\<And>x. emits (f x) R"
      and "\<And>e n. list_all Q n \<Longrightarrow> R (Inl e) n"
      and "\<And>r n1 n2. list_all Q n1 \<Longrightarrow> R r n2 \<Longrightarrow> R r (n1 @ n2)"
  shows "emits (bnd m f) R"
  by (rule emits_weaken [OF emits_bnd [OF only_emits [OF assms(1)] assms(2)]])
     (auto intro: assms(3,4))

lemma install_plan_events_quiet: "list_all quiet n \<Longrightarrow> install_plan_events n = []"
  by (simp add: install_plan_events_def quiet_def list_all_iff filter_empty_conv)

lemma install_plan_events_append:
  "install_plan_events (n1 @ n2) = install_plan_events n1 @ install_plan_events n2"
  by (simp add: install_plan_events_def)

lemma plain_quiet: "plain quiet"
proof -
  have "\<not> special c \<Longrightarrow> quiet (Call c)" for c
    by (cases c) (simp_all add: quiet_def)
  then show ?thesis by (simp add: plain_def quiet_def)
qed

lemma quiet_simps [simp]:
  "quiet (Log lvl msg)" "quiet (Sleep n)" "\<not> special c \<Longrightarrow> quiet (Call c)"
  "quiet (Call (OcCreate f t))" "quiet (Call (DumpDataToTempYaml y f))"
  "\<not> quiet (Call (WaitForInstallPlanAndApprove ns))"
  "\<not> quiet (Call (CsvWaitForPhase n' ns ph t'))"
  using plain_quiet by (simp_all add: plain_def quiet_def)

text \<open>Steps before the subscription is created.\<close>

lemma subscribed_bnd:
  assumes "only quiet m" and "\<And>x. emits (f x) (subscribed C)"
  shows "emits (bnd m f) (subscribed C)"
proof (rule emits_bnd_prefix [OF assms])
  fix e n
  assume "list_all quiet n"
  then show "subscribed C (Inl e) n"
    unfolding subscribed_def by (intro exI [of _ n] exI [of _ "[]"]) simp
next
  fix r n1 n2
  assume q: "list_all quiet n1" and "subscribed C r n2"
  then obtain before tail where bt: "n2 = before @ tail" "list_all quiet before"
    "(tail = [] \<and> isl r)
       \<or> (tail = [subscription_create] \<and> (r = Inr () \<longrightarrow> \<not> manual_approval C))
       \<or> (manual_approval C \<and> tail = [subscription_create, approval_call C])"
    unfolding subscribed_def by blast
  show "subscribed C r (n1 @ n2)"
    unfolding subscribed_def
    using q bt by (intro exI [of _ "n1 @ before"] exI [of _ tail]) simp
qed

lemma subscribed_seq:
  "only quiet m \<Longrightarrow> emits n (subscribed C) \<Longrightarrow> emits (seq m n) (subscribed C)"
  by (simp add: seq_def subscribed_bnd)

lemma subscribed_tail:
  "emits (seq (oc_create E (TempFile ''subscription_manifest'') None)
            (if subscription_plan_approval (DEPLOYMENT C) = Some ''Manual''
             then call_unit E (WaitForInstallPlanAndApprove (namespace C)) else ret ()))
     (subscribed C)"
  unfolding emits_def subscribed_def
proof
  fix s
  let ?m = "seq (oc_create E (TempFile ''subscription_manifest'') None)
            (if subscription_plan_approval (DEPLOYMENT C) = Some ''Manual''
             then call_unit E (WaitForInstallPlanAndApprove (namespace C)) else ret ())"
  have "(trace (snd (?m s)) = trace s @ [subscription_create]
           \<and> (fst (?m s) = Inr () \<longrightarrow> \<not> manual_approval C))
        \<or> (manual_approval C \<and> trace (snd (?m s)) = trace s @ [subscription_create, approval_call C])"
    by (auto simp: prog_defs oc_create_def subscription_create_def approval_call_def
          manual_approval_def split: option.splits)
  then show "\<exists>new. trace (snd (?m s)) = trace s @ new \<and>
          (\<exists>before tail. new = before @ tail \<and> list_all quiet before \<and>
             ((tail = [] \<and> isl (fst (?m s)))
              \<or> (tail = [subscription_create] \<and> (fst (?m s) = Inr () \<longrightarrow> \<not> manual_approval C))
              \<or> (manual_approval C \<and> tail = [subscription_create, approval_call C])))"
  proof
    assume a: "trace (snd (?m s)) = trace s @ [subscription_create]
           \<and> (fst (?m s) = Inr () \<longrightarrow> \<not> manual_approval C)"
    show ?thesis
      by (rule exI [of _ "[subscription_create]"], rule conjI, simp add: a,
          rule exI [of _ "[]"], rule exI [of _ "[subscription_create]"]) (simp add: a)
  next
    assume a: "manual_approval C \<and> trace (snd (?m s)) = trace s @ [subscription_create, approval_call C]"
    show ?thesis
      by (rule exI [of _ "[subscription_create, approval_call C]"], rule conjI, simp add: a,
          rule exI [of _ "[]"], rule exI [of _ "[subscription_create, approval_call C]"])
         (simp add: a)
  qed
qed

lemma emits_subscribe_ocs: "emits (subscribe_ocs E C K) (subscribed C)"
  unfolding subscribe_ocs_def Let_def
  apply (rule subscribed_bnd, simp add: only_call_str)
  apply (rule subscribed_seq, simp add: only_call_unit)
  apply (rule subscribed_bnd, simp add: only_call_str)
  apply (rule subscribed_bnd, simp add: only_call_sub)
  apply (rule subscribed_bnd)
   apply (auto intro!: only_intros)[1]
  apply (rule subscribed_seq, simp add: only_call_unit)
  apply (rule subscribed_seq, simp add: only_call_unit)
  apply (rule subscribed_tail)
  done


text \<open>What \<open>wait_for_csv\<close> appends: nothing of the two kinds, or one polling of the CSV;
  a normal return always has the polling.\<close>

lemma emits_wait_for_csv:
  "emits (wait_for_csv E C K)
     (\<lambda>r new. case r of
        Inr n \<Rightarrow> install_plan_events new = [csv_wait C n]
      | Inl e \<Rightarrow> install_plan_events new = [] \<or> (\<exists>n. install_plan_events new = [csv_wait C n]))"
  unfolding emits_def
proof
  fix s
  let ?r = "wait_for_csv E C K s"
  have "\<exists>new. trace (snd ?r) = trace s @ new
          \<and> (case fst ?r of
                Inr n \<Rightarrow> install_plan_events new = [csv_wait C n]
              | Inl e \<Rightarrow> install_plan_events new = [] \<or> (\<exists>n. install_plan_events new = [csv_wait C n]))"
    by (auto simp: wait_for_csv_def prog_defs install_plan_events_def csv_wait_def
        split: sum.splits option.splits)
  then show "\<exists>new. trace (snd ?r) = trace s @ new
          \<and> (case fst ?r of
                Inr n \<Rightarrow> install_plan_events new = [csv_wait C n]
              | Inl e \<Rightarrow> install_plan_events new = [] \<or> (\<exists>n. install_plan_events new = [csv_wait C n]))" .
qed

lemma emits_wait_for_csv_then:
  assumes "\<And>x. only quiet (f x)"
  shows "emits (bnd (wait_for_csv E C K) f)
           (\<lambda>r new. install_plan_events new = [] \<or> (\<exists>n. install_plan_events new = [csv_wait C n]))"
  by (rule emits_weaken [OF emits_bnd [OF emits_wait_for_csv only_emits [OF assms]]])
     (auto simp: install_plan_events_append install_plan_events_quiet)

lemma subscribed_install_plan_events:
  "subscribed C r new \<Longrightarrow>
     (install_plan_events new = [] \<or> (manual_approval C \<and> install_plan_events new = [approval_call C]))
     \<and> (r = Inr () \<longrightarrow> install_plan_events new = (if manual_approval C then [approval_call C] else []))"
  unfolding subscribed_def
  by (auto simp: install_plan_events_append install_plan_events_quiet)
     (auto simp: install_plan_events_def subscription_create_def approval_call_def)

lemma emits_subscribe_then_wait:
  assumes "\<And>x. only quiet (f x)"
  shows "emits (seq (subscribe_ocs E C K) (bnd (wait_for_csv E C K) f))
           (\<lambda>r new. \<exists>n. install_plan_events new \<in>
              (if manual_approval C
               then {[], [approval_call C], [approval_call C, csv_wait C n]}
               else {[], [csv_wait C n]}))"
  unfolding seq_def
proof (rule emits_weaken [OF emits_bnd [OF emits_subscribe_ocs emits_wait_for_csv_then [OF assms]]])
  fix r :: "exn + 'a" and new
  assume "(\<exists>e. r = Inl e \<and> subscribed C (Inl e) new)
        \<or> (\<exists>x n1 n2. new = n1 @ n2 \<and> subscribed C (Inr x) n1
              \<and> (install_plan_events n2 = [] \<or> (\<exists>n. install_plan_events n2 = [csv_wait C n])))"
  then show "\<exists>n. install_plan_events new \<in>
              (if manual_approval C
               then {[], [approval_call C], [approval_call C, csv_wait C n]}
               else {[], [csv_wait C n]})"
  proof
    assume "\<exists>e. r = Inl e \<and> subscribed C (Inl e) new"
    then obtain e where "subscribed C (Inl e) new" by blast
    from subscribed_install_plan_events [OF this] show ?thesis by auto
  next
    assume "\<exists>x n1 n2. new = n1 @ n2 \<and> subscribed C (Inr x) n1
              \<and> (install_plan_events n2 = [] \<or> (\<exists>n. install_plan_events n2 = [csv_wait C n]))"
    then obtain x n1 n2 where new: "new = n1 @ n2" and s: "subscribed C (Inr x) n1"
      and w: "install_plan_events n2 = [] \<or> (\<exists>n. install_plan_events n2 = [csv_wait C n])"
      by blast
    from subscribed_install_plan_events [OF s]
    have "install_plan_events n1 = (if manual_approval C then [approval_call C] else [])" by simp
    then show ?thesis using new w by (auto simp: install_plan_events_append)
  qed
qed

lemma emits_quiet_seq:
  assumes "only quiet m" and "emits n (\<lambda>r new. S (install_plan_events new))" and "S []"
  shows "emits (seq m n) (\<lambda>r new. S (install_plan_events new))"
  unfolding seq_def
  by (rule emits_bnd_prefix [OF assms(1)])
     (auto simp: assms install_plan_events_append install_plan_events_quiet)

lemma only_quiet_emits:
  "only quiet m \<Longrightarrow> S [] \<Longrightarrow> emits m (\<lambda>r new. S (install_plan_events new))"
  by (rule emits_weaken [OF only_emits]) (auto simp: install_plan_events_quiet)

lemma emits_deploy_ocs_via_operator:
  "emits (deploy_ocs_via_operator E C K)
     (\<lambda>r new. \<exists>n. install_plan_events new \<in>
        (if manual_approval C
         then {[], [approval_call C], [approval_call C, csv_wait C n]}
         else {[], [csv_wait C n]}))"
proof -
  let ?S = "\<lambda>l. \<exists>n. l \<in> (if manual_approval C
         then {[], [approval_call C], [approval_call C, csv_wait C n]}
         else {[], [csv_wait C n]})"
  have S0: "?S []" by simp
  have q: "only quiet (create_storage_cluster E C K)"
    by (rule only_create_storage_cluster [OF plain_quiet]) simp_all
  show ?thesis
    unfolding deploy_ocs_via_operator_def
    apply (rule emits_quiet_seq [where S = ?S, OF _ _ S0])
     apply (auto intro!: only_intros)[1]
    apply (cases "ui_deployment (DEPLOYMENT C)")
     apply (simp only: if_True)
     apply (rule only_quiet_emits [where S = ?S, OF _ S0])
     apply (auto intro!: only_intros only_create_ocs_operator_source only_deployment_with_ui
              plain_quiet)[1]
    apply (simp only: if_False)
    apply (rule emits_quiet_seq [where S = ?S, OF _ _ S0], simp add: only_logger)
    apply (rule emits_quiet_seq [where S = ?S, OF _ _ S0], simp add: only_call_unit)
    apply (rule emits_quiet_seq [where S = ?S, OF _ _ S0], simp add: only_logger)
    apply (rule emits_quiet_seq [where S = ?S, OF _ _ S0], simp add: only_oc_create)
    apply (rule emits_quiet_seq [where S = ?S, OF _ _ S0])
     apply (auto intro!: only_intros only_create_ocs_operator_source plain_quiet)[1]
    apply (rule emits_subscribe_then_wait)
    apply (auto intro!: only_intros q split: option.splits)
    done
qed

lemma subscribed_approval:
  assumes "subscribed C r new"
  shows "(r = Inr () \<longrightarrow> (approval_call C \<in> set new \<longleftrightarrow> manual_approval C))
       \<and> (approval_call C \<in> set new \<longrightarrow>
            manual_approval C \<and> (\<exists>before. new = before @ [subscription_create, approval_call C]))"
proof -
  from assms obtain before tail where bt: "new = before @ tail" "list_all quiet before"
    and t: "(tail = [] \<and> isl r)
       \<or> (tail = [subscription_create] \<and> (r = Inr () \<longrightarrow> \<not> manual_approval C))
       \<or> (manual_approval C \<and> tail = [subscription_create, approval_call C])"
    unfolding subscribed_def by blast
  have nb: "approval_call C \<notin> set before"
    using bt(2) by (auto simp: list_all_iff approval_call_def)
  have ne: "approval_call C \<noteq> subscription_create"
    by (simp add: approval_call_def subscription_create_def)
  from t show ?thesis
  proof (elim disjE conjE)
    assume "tail = []" "isl r"
    then show ?thesis using bt nb by auto
  next
    assume "tail = [subscription_create]" "r = Inr () \<longrightarrow> \<not> manual_approval C"
    then show ?thesis using bt nb ne by auto
  next
    assume "manual_approval C" "tail = [subscription_create, approval_call C]"
    then show ?thesis using bt by auto
  qed
qed

lemma config_manual_fields:
  "ENV_DATA config_manual = env_data0"
  "DEPLOYMENT config_manual = deployment0\<lparr>subscription_plan_approval := Some ''Manual''\<rparr>"
  "DEFAULT_STORAGECLASS_LSO config_manual = ''localblock''"
  "CUSTOM_STORAGE_CLASS_PATH config_manual = None"
  by (simp_all add: config_manual_def config0_def)

text \<open>
  Claim C5.  Of the approval of the install plan and the polling of the CSV phase,
  \<open>deploy_ocs_via_operator\<close> makes, in this order: in \<open>Manual\<close> mode the approval and then
  the polling (or only the approval, or neither, when a step in between or before raised);
  in any other mode (\<open>Automatic\<close>, or no mode configured) the polling alone, or nothing:
  the approval is never called.  In \<open>subscribe_ocs\<close> the approval is called if and only
  if the mode is \<open>Manual\<close>, provided \<open>subscribe_ocs\<close> returns; whenever it is called, the
  mode is \<open>Manual\<close> and the call comes right after the creation of the subscription, last
  of all; the polling of the CSV comes after \<open>subscribe_ocs\<close>.
\<close>

theorem install_plan_approval:
  "(\<exists>csv_name.
      install_plan_events (new_events s (snd (deploy_ocs_via_operator E C K s))) \<in>
        (if subscription_plan_approval (DEPLOYMENT C) = Some ''Manual''
         then {[], [Call (WaitForInstallPlanAndApprove (namespace C))],
               [Call (WaitForInstallPlanAndApprove (namespace C)),
                Call (CsvWaitForPhase csv_name (namespace C) ''Succeeded'' 720)]}
         else {[], [Call (CsvWaitForPhase csv_name (namespace C) ''Succeeded'' 720)]}))
   \<and> (fst (subscribe_ocs E C K s) = Inr () \<longrightarrow>
        (Call (WaitForInstallPlanAndApprove (namespace C))
           \<in> set (new_events s (snd (subscribe_ocs E C K s)))
         \<longleftrightarrow> subscription_plan_approval (DEPLOYMENT C) = Some ''Manual''))
   \<and> (Call (WaitForInstallPlanAndApprove (namespace C))
         \<in> set (new_events s (snd (subscribe_ocs E C K s))) \<longrightarrow>
        subscription_plan_approval (DEPLOYMENT C) = Some ''Manual''
        \<and> (\<exists>before. new_events s (snd (subscribe_ocs E C K s)) =
              before @ [Call (OcCreate (TempFile ''subscription_manifest'') None),
                        Call (WaitForInstallPlanAndApprove (namespace C))]))"
proof -
  have a: "\<exists>n. install_plan_events (new_events s (snd (deploy_ocs_via_operator E C K s))) \<in>
        (if manual_approval C
         then {[], [approval_call C], [approval_call C, csv_wait C n]}
         else {[], [csv_wait C n]})"
    by (rule emits_new_events [OF emits_deploy_ocs_via_operator])
  have "subscribed C (fst (subscribe_ocs E C K s)) (new_events s (snd (subscribe_ocs E C K s)))"
    by (rule emits_new_events [OF emits_subscribe_ocs])
  from subscribed_approval [OF this] a show ?thesis
    unfolding manual_approval_def approval_call_def csv_wait_def subscription_create_def
    by simp
qed

theorem install_plan_approval_witness:
  "fst (subscribe_ocs env_ok config_manual constants0 state0) = Inr ()
   \<and> Call (WaitForInstallPlanAndApprove ''openshift-storage'')
        \<in> set (new_events state0 (snd (subscribe_ocs env_ok config_manual constants0 state0)))
   \<and> (\<exists>before. new_events state0 (snd (subscribe_ocs env_ok config_manual constants0 state0)) =
          before @ [Call (OcCreate (TempFile ''subscription_manifest'') None),
                    Call (WaitForInstallPlanAndApprove ''openshift-storage'')])
   \<and> install_plan_events
        (new_events state0 (snd (deploy_ocs_via_operator env_ok config_manual constants0 state0)))
      = [Call (WaitForInstallPlanAndApprove ''openshift-storage''),
         Call (CsvWaitForPhase ''ocs-operator.v4.6.0'' ''openshift-storage'' ''Succeeded'' 720)]
   \<and> fst (subscribe_ocs env_ok config0 constants0 state0) = Inr ()
   \<and> Call (WaitForInstallPlanAndApprove ''openshift-storage'')
        \<notin> set (new_events state0 (snd (subscribe_ocs env_ok config0 constants0 state0)))
   \<and> install_plan_events
        (new_events state0 (snd (deploy_ocs_via_operator env_ok config0 constants0 state0)))
      = [Call (CsvWaitForPhase ''ocs-operator.v4.6.0'' ''openshift-storage'' ''Succeeded'' 720)]"
proof -
  have r: "fst (subscribe_ocs env_ok config_manual constants0 state0) = Inr ()"
    by (simp add: subscribe_ocs_def oc_create_def prog_defs Let_def env_ok_answers
          config_manual_fields env_data0_fields deployment0_fields constants0_fields namespace_def
          state0_fields)
  have r0: "fst (subscribe_ocs env_ok config0 constants0 state0) = Inr ()"
    by (simp add: subscribe_ocs_def oc_create_def prog_defs Let_def env_ok_answers
          config0_fields env_data0_fields deployment0_fields constants0_fields namespace_def
          state0_fields)
  have runs: "install_plan_events
        (new_events state0 (snd (deploy_ocs_via_operator env_ok config_manual constants0 state0)))
      = [Call (WaitForInstallPlanAndApprove ''openshift-storage''),
         Call (CsvWaitForPhase ''ocs-operator.v4.6.0'' ''openshift-storage'' ''Succeeded'' 720)]"
    "install_plan_events
        (new_events state0 (snd (deploy_ocs_via_operator env_ok config0 constants0 state0)))
      = [Call (CsvWaitForPhase ''ocs-operator.v4.6.0'' ''openshift-storage'' ''Succeeded'' 720)]"
    by (simp_all add: via_operator_defs env_ok_answers config_manual_fields config0_fields
          env_data0_fields deployment0_fields constants0_fields namespace_def lower_aws
          state0_fields template0_def install_plan_events_def new_events_def)
  from install_plan_approval [where E = env_ok and C = config_manual and K = constants0
         and s = state0] r
  have 1: "Call (WaitForInstallPlanAndApprove ''openshift-storage'')
        \<in> set (new_events state0 (snd (subscribe_ocs env_ok config_manual constants0 state0)))
   \<and> (\<exists>before. new_events state0 (snd (subscribe_ocs env_ok config_manual constants0 state0)) =
          before @ [Call (OcCreate (TempFile ''subscription_manifest'') None),
                    Call (WaitForInstallPlanAndApprove ''openshift-storage'')])"
    by (simp add: config_manual_fields env_data0_fields deployment0_fields namespace_def)
  from install_plan_approval [where E = env_ok and C = config0 and K = constants0
         and s = state0] r0
  have 2: "Call (WaitForInstallPlanAndApprove ''openshift-storage'')
        \<notin> set (new_events state0 (snd (subscribe_ocs env_ok config0 constants0 state0)))"
    by (simp add: config0_fields env_data0_fields deployment0_fields namespace_def)
  from r r0 runs 1 2 show ?thesis by simp
qed


section \<open>Every step only appends to the trace\<close>

lemma only_call_items: "P (Call c) \<Longrightarrow> only P (call_items E c)"
  by (simp add: only_def call_items_def)

lemma only_assert: "only P (assert b)"
  by (simp add: assert_def only_ret only_raise)

lemma only_set_CEPHFILESYSTEM_NAME: "only P (set_CEPHFILESYSTEM_NAME n)"
  by (simp add: only_def set_CEPHFILESYSTEM_NAME_def)

lemma only_try_except:
  assumes "only P m" and "\<And>e. only P (h e)"
  shows "only P (try_except m h)"
  unfolding only_def
proof
  fix s
  obtain r s1 where ms: "m s = (r, s1)" by (cases "m s")
  from assms(1) obtain n1 where n1: "trace (snd (m s)) = trace s @ n1" "list_all P n1"
    unfolding only_def by blast
  show "\<exists>new. trace (snd (try_except m h s)) = trace s @ new \<and> list_all P new"
  proof (cases r)
    case (Inr x)
    then show ?thesis using ms n1 by (simp add: try_except_def)
  next
    case (Inl e)
    from assms(2) [of e] obtain n2
      where "trace (snd (h e s1)) = trace s1 @ n2" "list_all P n2"
      unfolding only_def by blast
    then show ?thesis using ms n1 Inl by (simp add: try_except_def)
  qed
qed

lemma only_any_create_storage_cluster: "only (\<lambda>_. True) (create_storage_cluster E C K)"
  by (rule only_create_storage_cluster) (simp_all add: plain_def)

lemma only_any_deploy_ocs_via_operator: "only (\<lambda>_. True) (deploy_ocs_via_operator E C K)"
  by (rule only_deploy_ocs_via_operator [OF _ _ _ only_any_create_storage_cluster])
     (simp_all add: plain_def)

lemma only_any_deploy_ocs_validate: "only (\<lambda>_. True) (deploy_ocs_validate E C)"
  by (auto simp: deploy_ocs_validate_def assert_pod_wait_for_resource_def
      intro!: only_intros only_call_items only_assert only_set_CEPHFILESYSTEM_NAME
      split: option.splits list.splits)

lemma only_any_deploy_ocs_monitoring: "only (\<lambda>_. True) (deploy_ocs_monitoring E C K)"
  by (auto simp: deploy_ocs_monitoring_def retry_3 intro!: only_intros only_try_except)

lemma only_any_deploy_ocs_health_check: "only (\<lambda>_. True) (deploy_ocs_health_check E C K)"
  by (auto simp: deploy_ocs_health_check_def Let_def
      intro!: only_intros only_try_except only_assert split: exn.splits)

lemma only_any_patch_default_sc_to_non_default:
  "only (\<lambda>_. True) (patch_default_sc_to_non_default E C)"
  by (auto simp: patch_default_sc_to_non_default_def Let_def run_cmd_def intro!: only_intros)

lemma only_any_deploy_with_external_mode: "only (\<lambda>_. True) (deploy_with_external_mode E C K)"
  by (auto simp: deploy_with_external_mode_def external_post_deploy_validation_def Let_def
        plain_def
      intro!: only_intros only_subscribe_ocs only_wait_for_csv only_create_ocs_operator_source)


section \<open>The first events of a run\<close>

lemma emits_seq_logger:
  assumes "emits n R"
  shows "emits (seq (logger lvl msg) n) (\<lambda>r new. \<exists>rest. new = Log lvl msg # rest \<and> R r rest)"
  unfolding emits_def
proof
  fix s
  from assms obtain rest
    where "trace (snd (n (emit (Log lvl msg) s))) = trace (emit (Log lvl msg) s) @ rest"
      and "R (fst (n (emit (Log lvl msg) s))) rest"
    unfolding emits_def by blast
  then show "\<exists>new. trace (snd (seq (logger lvl msg) n s)) = trace s @ new
               \<and> (\<exists>rest. new = Log lvl msg # rest \<and> R (fst (seq (logger lvl msg) n s)) rest)"
    by simp
qed

lemma emits_call_unit: "emits (call_unit E c) (\<lambda>r new. new = [Call c])"
  by (simp add: emits_def call_unit_def split: option.splits)

lemma emits_seq_call_unit:
  assumes "only P n"
  shows "emits (seq (call_unit E c) n) (\<lambda>r new. \<exists>rest. new = Call c # rest)"
  unfolding seq_def
  by (rule emits_weaken [OF emits_bnd [OF emits_call_unit only_emits [OF assms]]]) auto

lemma emits_seq_first:
  assumes "emits m (\<lambda>r new. \<exists>rest. new = evs @ rest)" and "only P n"
  shows "emits (seq m n) (\<lambda>r new. \<exists>rest. new = evs @ rest)"
  unfolding seq_def
  by (rule emits_weaken [OF emits_bnd [OF assms(1) only_emits [OF assms(2)]]]) auto

lemma only_any_after_local_storage:
  "only (\<lambda>_. True)
     (if ui_deployment (DEPLOYMENT C) then
        seq (if \<not> live_deployment (DEPLOYMENT C) then create_ocs_operator_source E C else ret ())
            (deployment_with_ui E C)
      else
        seq (logger INFO ''Deployment of OCS via OCS operator'')
       (seq (call_unit E LabelAndTaintNodes)
       (seq (logger INFO ''Creating namespace and operator group.'')
       (seq (oc_create E (Path OLM_YAML) None)
       (seq (if \<not> live_deployment (DEPLOYMENT C) then create_ocs_operator_source E C else ret ())
       (seq (subscribe_ocs E C K)
       (bnd (wait_for_csv E C K) (\<lambda>csv_name.
        seq (case (csv_change_from (DEPLOYMENT C), csv_change_to (DEPLOYMENT C)) of
               (Some replace_from, Some replace_to) \<Rightarrow>
                 call_unit E (ModifyCsv csv_name replace_from replace_to)
             | _ \<Rightarrow> ret ())
       (seq (case CUSTOM_STORAGE_CLASS_PATH C of
               Some custom_path \<Rightarrow>
                 bnd (call_str E (OpenCustomStorageClass custom_path)) (\<lambda>custom_sc_name.
                 seq (set_DEFAULT_STORAGECLASS custom_sc_name)
                     (oc_create E (Path custom_path) None))
             | None \<Rightarrow> ret ())
            (create_storage_cluster E C K))))))))))"
  by (auto simp: plain_def
      intro!: only_intros only_create_ocs_operator_source only_deployment_with_ui
        only_subscribe_ocs only_wait_for_csv only_any_create_storage_cluster
      split: option.splits)

text \<open>The first events of \<open>deploy_ocs_via_operator\<close>.\<close>

lemma starts_deploy_ocs_via_operator:
  "emits (deploy_ocs_via_operator E C K)
     (\<lambda>r new. \<exists>rest. new =
        (if local_storage (DEPLOYMENT C)
         then [Call (SetupLocalStorage (DEFAULT_STORAGECLASS_LSO C))]
         else if ui_deployment (DEPLOYMENT C)
         then (if live_deployment (DEPLOYMENT C)
               then [Log INFO ''Deployment of OCS will be done by openshift-console'']
               else [Call (if stage (DEPLOYMENT C) then CreateStageOperatorSource
                           else CreateCatalogSource)])
         else [Log INFO ''Deployment of OCS via OCS operator'', Call LabelAndTaintNodes]) @ rest)"
proof (cases "local_storage (DEPLOYMENT C)")
  case True
  have e: "emits (deploy_ocs_via_operator E C K)
          (\<lambda>r new. \<exists>rest. new = Call (SetupLocalStorage (DEFAULT_STORAGECLASS_LSO C)) # rest)"
    unfolding deploy_ocs_via_operator_def using True
    apply (simp only: if_True)
    apply (rule emits_seq_call_unit [where P = "\<lambda>_. True"])
    apply (rule only_any_after_local_storage)
    done
  show ?thesis by (rule emits_weaken [OF e]) (use True in auto)
next
  case False
  note nl = False
  show ?thesis
  proof (cases "ui_deployment (DEPLOYMENT C)")
    case True
    note ui = True
    show ?thesis
    proof (cases "live_deployment (DEPLOYMENT C)")
      case True
      let ?c = "OpenshiftConsoleRun
                  (case deployment_browser (DEPLOYMENT C) of Some b \<Rightarrow> b | None \<Rightarrow> CHROME_BROWSER)
                  ''1''"
      let ?l = "Log INFO ''Deployment of OCS will be done by openshift-console''"
      have eq: "deploy_ocs_via_operator E C K =
              seq (logger INFO ''Deployment of OCS will be done by openshift-console'')
                  (call_unit E ?c)"
        using nl ui True by (simp add: deploy_ocs_via_operator_def deployment_with_ui_def)
      have e: "emits (deploy_ocs_via_operator E C K)
                 (\<lambda>r new. \<exists>rest. new = ?l # rest \<and> rest = [Call ?c])"
        unfolding eq by (rule emits_seq_logger [OF emits_call_unit])
      show ?thesis by (rule emits_weaken [OF e]) (use nl ui True in auto)
    next
      case False
      let ?c = "if stage (DEPLOYMENT C) then CreateStageOperatorSource else CreateCatalogSource"
      have eq: "deploy_ocs_via_operator E C K = seq (call_unit E ?c) (deployment_with_ui E C)"
        using nl ui False
        by (simp add: deploy_ocs_via_operator_def create_ocs_operator_source_def)
      have e: "emits (deploy_ocs_via_operator E C K) (\<lambda>r new. \<exists>rest. new = Call ?c # rest)"
        unfolding eq
        by (rule emits_seq_call_unit [where P = "\<lambda>_. True"])
           (simp add: only_deployment_with_ui plain_def)
      show ?thesis by (rule emits_weaken [OF e]) (use nl ui False in auto)
    qed
  next
    case False
    have e: "emits (deploy_ocs_via_operator E C K)
            (\<lambda>r new. \<exists>rest. new = Log INFO ''Deployment of OCS via OCS operator'' # rest
                        \<and> (\<exists>rest'. rest = Call LabelAndTaintNodes # rest'))"
      unfolding deploy_ocs_via_operator_def using nl False
      apply (simp only: if_False seq_ret)
      apply (rule emits_seq_logger)
      apply (rule emits_seq_call_unit [where P = "\<lambda>_. True"])
      apply (auto simp: plain_def
          intro!: only_intros only_create_ocs_operator_source
            only_subscribe_ocs only_wait_for_csv only_any_create_storage_cluster
          split: option.splits)
      done
    show ?thesis by (rule emits_weaken [OF e]) (use nl False in auto)
  qed
qed

text \<open>The first events of the installation.\<close>

lemma starts_deploy_ocs_install:
  "emits (deploy_ocs_install E C K)
     (\<lambda>r new. \<exists>rest. new =
        (if external_mode (DEPLOYMENT C)
         then [Log INFO ''Deploying OCS on external mode RHCS'',
               Log INFO ''Deploying OCS with external mode RHCS'',
               Log INFO ''Creating namespace and operator group'',
               Call (OcCreate (Path OLM_YAML) None)]
         else if local_storage (DEPLOYMENT C)
         then [Call (SetupLocalStorage (DEFAULT_STORAGECLASS_LSO C))]
         else if ui_deployment (DEPLOYMENT C)
         then (if live_deployment (DEPLOYMENT C)
               then [Log INFO ''Deployment of OCS will be done by openshift-console'']
               else [Call (if stage (DEPLOYMENT C) then CreateStageOperatorSource
                           else CreateCatalogSource)])
         else [Log INFO ''Deployment of OCS via OCS operator'', Call LabelAndTaintNodes]) @ rest)"
proof (cases "external_mode (DEPLOYMENT C)")
  case True
  have e: "emits (deploy_ocs_install E C K)
            (\<lambda>r new. \<exists>rest. new = Log INFO ''Deploying OCS on external mode RHCS'' # rest
               \<and> (\<exists>rest1. rest = Log INFO ''Deploying OCS with external mode RHCS'' # rest1
               \<and> (\<exists>rest2. rest1 = Log INFO ''Creating namespace and operator group'' # rest2
               \<and> (\<exists>rest3. rest2 = Call (OcCreate (Path OLM_YAML) None) # rest3))))"
    unfolding deploy_ocs_install_def deploy_with_external_mode_def oc_create_def using True
    apply (simp only: if_True)
    apply (rule emits_seq_logger)
    apply (rule emits_seq_logger)
    apply (rule emits_seq_logger)
    apply (rule emits_seq_call_unit [where P = "\<lambda>_. True"])
    apply (auto simp: external_post_deploy_validation_def Let_def plain_def
        intro!: only_intros only_subscribe_ocs only_wait_for_csv only_create_ocs_operator_source)
    done
  show ?thesis by (rule emits_weaken [OF e]) (use True in auto)
next
  case False
  have r: "only (\<lambda>_. True)
             (seq (deploy_ocs_validate E C)
             (seq (deploy_ocs_monitoring E C K)
             (seq (call_unit E ChangeRegistryBackendToOcs)
             (seq (deploy_ocs_health_check E C K)
                  (patch_default_sc_to_non_default E C)))))"
    by (intro only_seq only_any_deploy_ocs_validate only_any_deploy_ocs_monitoring
          only_any_deploy_ocs_health_check only_any_patch_default_sc_to_non_default
          only_call_unit) simp
  have e: "emits (deploy_ocs_install E C K)
     (\<lambda>r new. \<exists>rest. new =
        (if local_storage (DEPLOYMENT C)
         then [Call (SetupLocalStorage (DEFAULT_STORAGECLASS_LSO C))]
         else if ui_deployment (DEPLOYMENT C)
         then (if live_deployment (DEPLOYMENT C)
               then [Log INFO ''Deployment of OCS will be done by openshift-console'']
               else [Call (if stage (DEPLOYMENT C) then CreateStageOperatorSource
                           else CreateCatalogSource)])
         else [Log INFO ''Deployment of OCS via OCS operator'', Call LabelAndTaintNodes]) @ rest)"
    unfolding deploy_ocs_install_def using False
    apply (simp only: if_False)
    apply (rule emits_seq_first [OF starts_deploy_ocs_via_operator r])
    done
  show ?thesis by (rule emits_weaken [OF e]) (use False in auto)
qed


section \<open>deploy\_ocs: no CephCluster found\<close>

lemma ceph_cluster_exists_no_items:
  "answer_items E (trace s) (OcpGet ''CephCluster'' (namespace C)) = Inr None \<Longrightarrow>
   ceph_cluster_exists E C s =
     (Inl (TypeError (quoted ''NoneType'' @ '' object is not subscriptable'')),
      emit (Call (OcpGet ''CephCluster'' (namespace C))) s)"
  by (simp add: ceph_cluster_exists_def try_except_def bnd_def call_items_def raise_def)

lemma env_no_items_answers:
  "answer_items env_no_items h c = Inr None"
  by (simp add: env_no_items_def)

text \<open>
  Claim C10: an empty collection (\<open>IndexError\<close> at \<open>[0]\<close>), an \<open>IndexError\<close> and a
  \<open>CommandFailed\<close> raised by the query are treated alike: one log line, and the
  installation runs from there; the run goes on with the first events of the
  installation (of the external mode, of the local storage, of the UI deployment or of
  the operator deployment, as configured).  Any other exception of the query leaves
  \<open>deploy_ocs\<close> unchanged, and so does the \<open>TypeError\<close> of \<open>[0]\<close> when the answer has no
  \<open>items\<close>; nothing more is done then.
\<close>

theorem deploy_ocs_probe:
  "(answer_items E (trace s) (OcpGet ''CephCluster'' (namespace C)) = a
      \<and> (a = Inr (Some []) \<or> a = Inl IndexError \<or> a = Inl (CommandFailed m)) \<longrightarrow>
        deploy_ocs E C K s =
          deploy_ocs_install E C K
            (emit (Log INFO ''Running OCS basic installation'')
               (emit (Call (OcpGet ''CephCluster'' (namespace C))) s))
        \<and> (\<exists>rest. trace (snd (deploy_ocs E C K s)) =
              trace s
              @ [Call (OcpGet ''CephCluster'' (namespace C)),
                 Log INFO ''Running OCS basic installation'']
              @ (if external_mode (DEPLOYMENT C)
                 then [Log INFO ''Deploying OCS on external mode RHCS'',
                       Log INFO ''Deploying OCS with external mode RHCS'',
                       Log INFO ''Creating namespace and operator group'',
                       Call (OcCreate (Path OLM_YAML) None)]
                 else if local_storage (DEPLOYMENT C)
                 then [Call (SetupLocalStorage (DEFAULT_STORAGECLASS_LSO C))]
                 else if ui_deployment (DEPLOYMENT C)
                 then (if live_deployment (DEPLOYMENT C)
                       then [Log INFO ''Deployment of OCS will be done by openshift-console'']
                       else [Call (if stage (DEPLOYMENT C) then CreateStageOperatorSource
                                   else CreateCatalogSource)])
                 else [Log INFO ''Deployment of OCS via OCS operator'', Call LabelAndTaintNodes])
              @ rest))
   \<and> (answer_items E (trace s) (OcpGet ''CephCluster'' (namespace C)) = Inl e
        \<and> e \<noteq> IndexError \<and> (\<forall>m. e \<noteq> CommandFailed m) \<longrightarrow>
        deploy_ocs E C K s = (Inl e, emit (Call (OcpGet ''CephCluster'' (namespace C))) s))
   \<and> (answer_items E (trace s) (OcpGet ''CephCluster'' (namespace C)) = Inr None \<longrightarrow>
        deploy_ocs E C K s =
          (Inl (TypeError (quoted ''NoneType'' @ '' object is not subscriptable'')),
           emit (Call (OcpGet ''CephCluster'' (namespace C))) s))"
proof (intro conjI impI)
  let ?s1 = "emit (Log INFO ''Running OCS basic installation'')
               (emit (Call (OcpGet ''CephCluster'' (namespace C))) s)"
  assume h: "answer_items E (trace s) (OcpGet ''CephCluster'' (namespace C)) = a
      \<and> (a = Inr (Some []) \<or> a = Inl IndexError \<or> a = Inl (CommandFailed m))"
  then show eq: "deploy_ocs E C K s = deploy_ocs_install E C K ?s1"
    using ceph_cluster_exists_absent [of E s C a m]
    by (simp add: deploy_ocs_def bnd_def)
  from starts_deploy_ocs_install [of E C K]
  obtain new where "trace (snd (deploy_ocs_install E C K ?s1)) = trace ?s1 @ new"
    and "\<exists>rest. new =
        (if external_mode (DEPLOYMENT C)
         then [Log INFO ''Deploying OCS on external mode RHCS'',
               Log INFO ''Deploying OCS with external mode RHCS'',
               Log INFO ''Creating namespace and operator group'',
               Call (OcCreate (Path OLM_YAML) None)]
         else if local_storage (DEPLOYMENT C)
         then [Call (SetupLocalStorage (DEFAULT_STORAGECLASS_LSO C))]
         else if ui_deployment (DEPLOYMENT C)
         then (if live_deployment (DEPLOYMENT C)
               then [Log INFO ''Deployment of OCS will be done by openshift-console'']
               else [Call (if stage (DEPLOYMENT C) then CreateStageOperatorSource
                           else CreateCatalogSource)])
         else [Log INFO ''Deployment of OCS via OCS operator'', Call LabelAndTaintNodes]) @ rest"
    unfolding emits_def by blast
  then show "\<exists>rest. trace (snd (deploy_ocs E C K s)) =
              trace s
              @ [Call (OcpGet ''CephCluster'' (namespace C)),
                 Log INFO ''Running OCS basic installation'']
              @ (if external_mode (DEPLOYMENT C)
                 then [Log INFO ''Deploying OCS on external mode RHCS'',
                       Log INFO ''Deploying OCS with external mode RHCS'',
                       Log INFO ''Creating namespace and operator group'',
                       Call (OcCreate (Path OLM_YAML) None)]
                 else if local_storage (DEPLOYMENT C)
                 then [Call (SetupLocalStorage (DEFAULT_STORAGECLASS_LSO C))]
                 else if ui_deployment (DEPLOYMENT C)
                 then (if live_deployment (DEPLOYMENT C)
                       then [Log INFO ''Deployment of OCS will be done by openshift-console'']
                       else [Call (if stage (DEPLOYMENT C) then CreateStageOperatorSource
                                   else CreateCatalogSource)])
                 else [Log INFO ''Deployment of OCS via OCS operator'', Call LabelAndTaintNodes])
              @ rest"
    unfolding eq by auto
next
  assume "answer_items E (trace s) (OcpGet ''CephCluster'' (namespace C)) = Inl e
        \<and> e \<noteq> IndexError \<and> (\<forall>m. e \<noteq> CommandFailed m)"
  then show "deploy_ocs E C K s = (Inl e, emit (Call (OcpGet ''CephCluster'' (namespace C))) s)"
    using ceph_cluster_exists_raises [of E s C e]
    by (simp add: deploy_ocs_def bnd_def)
next
  assume "answer_items E (trace s) (OcpGet ''CephCluster'' (namespace C)) = Inr None"
  then show "deploy_ocs E C K s =
          (Inl (TypeError (quoted ''NoneType'' @ '' object is not subscriptable'')),
           emit (Call (OcpGet ''CephCluster'' (namespace C))) s)"
    using ceph_cluster_exists_no_items [of E s C]
    by (simp add: deploy_ocs_def bnd_def)
qed

theorem deploy_ocs_probe_witness:
  "(\<exists>rest. trace (snd (deploy_ocs env_ok config0 constants0 state0)) =
      [Call (OcpGet ''CephCluster'' ''openshift-storage''),
       Log INFO ''Running OCS basic installation'',
       Log INFO ''Deployment of OCS via OCS operator'', Call LabelAndTaintNodes] @ rest)
   \<and> fst (deploy_ocs env_ok config0 constants0 state0) = Inr ()
   \<and> Call (OcCreate (TempFile ''cluster_storage'') (Some 2400))
        \<in> set (trace (snd (deploy_ocs env_ok config0 constants0 state0)))
   \<and> (\<exists>rest. trace (snd (deploy_ocs (env_probe (CommandFailed ''no matches for kind CephCluster''))
                             config0 constants0 state0)) =
      [Call (OcpGet ''CephCluster'' ''openshift-storage''),
       Log INFO ''Running OCS basic installation'',
       Log INFO ''Deployment of OCS via OCS operator'', Call LabelAndTaintNodes] @ rest)
   \<and> deploy_ocs (env_probe (OtherError ''connection refused'')) config0 constants0 state0 =
       (Inl (OtherError ''connection refused''),
        state0\<lparr>trace := [Call (OcpGet ''CephCluster'' ''openshift-storage'')]\<rparr>)
   \<and> deploy_ocs env_no_items config0 constants0 state0 =
       (Inl (TypeError (CHR 0x27 # ''NoneType'' @ CHR 0x27 # '' object is not subscriptable'')),
        state0\<lparr>trace := [Call (OcpGet ''CephCluster'' ''openshift-storage'')]\<rparr>)"
proof -
  have run: "fst (deploy_ocs env_ok config0 constants0 state0) = Inr ()
     \<and> Call (OcCreate (TempFile ''cluster_storage'') (Some 2400))
        \<in> set (trace (snd (deploy_ocs env_ok config0 constants0 state0)))"
    by (simp add: deploy_ocs_until_monitoring env_ok_answers rest_defs)
  from deploy_ocs_probe [where E = env_ok and C = config0 and K = constants0 and s = state0
          and a = "Inr (Some [])" and m = "[]" and e = IndexError]
        deploy_ocs_probe [where E = "env_probe (CommandFailed ''no matches for kind CephCluster'')"
          and C = config0 and K = constants0 and s = state0
          and a = "Inl (CommandFailed ''no matches for kind CephCluster'')"
          and m = "''no matches for kind CephCluster''" and e = IndexError]
        deploy_ocs_probe [where E = "env_probe (OtherError ''connection refused'')"
          and C = config0 and K = constants0 and s = state0
          and a = "Inl (OtherError ''connection refused'')"
          and m = "[]" and e = "OtherError ''connection refused''"]
        deploy_ocs_probe [where E = env_no_items
          and C = config0 and K = constants0 and s = state0
          and a = "Inr None" and m = "[]" and e = IndexError]
        run
  show ?thesis
    by (auto simp add: env_probe_def env_no_items_def env_ok_answers run0 state0_fields
          emit_trace_update quoted_def)
qed


section \<open>Encryption at rest: the error of the version check\<close>

lemma storage_cluster_data_unsupported:
  assumes "encryption_at_rest (ENV_DATA C)" and "ocs_version (ENV_DATA C) < double_4_6"
      and "platform (ENV_DATA C) \<noteq> IBM_POWER_PLATFORM K"
      and "answer_cluster E (trace s) (LoadYaml STORAGE_CLUSTER_YAML) = Inr cd0"
      and "cd_storageDeviceSets cd0 \<noteq> []"
      and "lower (platform (ENV_DATA C)) = BAREMETAL_PLATFORM K \<longrightarrow>
             answer_strs E (trace s @ [Call (LoadYaml STORAGE_CLUSTER_YAML)])
               (GetPvSize (DEFAULT_STORAGECLASS_LSO C)) = Inr sizes \<and> sizes \<noteq> []"
      and "answer_num E
             (trace s @ Call (LoadYaml STORAGE_CLUSTER_YAML)
                # (if lower (platform (ENV_DATA C)) = BAREMETAL_PLATFORM K
                   then [Call (GetPvSize (DEFAULT_STORAGECLASS_LSO C))] else []))
             GetOcpVersion = Inr v"
  shows "storage_cluster_data E C K s =
           (Inl (UnsupportedFeatureError ''Encryption at REST can be enabled only on OCS >= 4.6!''),
            s\<lparr>trace := trace s @ Call (LoadYaml STORAGE_CLUSTER_YAML)
                 # (if lower (platform (ENV_DATA C)) = BAREMETAL_PLATFORM K
                    then [Call (GetPvSize (DEFAULT_STORAGECLASS_LSO C))] else [])
                 @ [Call GetOcpVersion,
                    Log ERROR ''Encryption at REST can be enabled only on OCS >= 4.6!'']\<rparr>)"
proof (cases "lower (platform (ENV_DATA C)) = BAREMETAL_PLATFORM K")
  case False
  then show ?thesis
    using assms
    by (cases "cd_storageDeviceSets cd0")
       (simp_all add: storage_cluster_data_def default_deviceset_def get_DEFAULT_STORAGECLASS_def
          prog_defs Let_def split: prod.splits)
next
  case True
  with assms(6) have "sizes \<noteq> []" by simp
  then have "sort sizes \<noteq> []" by (metis length_sort length_0_conv)
  then obtain sz others where sz: "sort sizes = sz # others" by (cases "sort sizes") auto
  show ?thesis
    using assms True sz
    by (cases "cd_storageDeviceSets cd0")
       (simp_all add: storage_cluster_data_def default_deviceset_def first_pv_size_def
          get_DEFAULT_STORAGECLASS_def prog_defs call_strs_def call_cluster_def call_num_def
          Let_def split: prod.splits)
qed


section \<open>The version check comes after the creation of the subscription\<close>

text \<open>Calls, pauses and lines of level \<open>INFO\<close> are not the error line of the version
  check.\<close>

lemma unlogged_simps [simp]:
  "Call c \<noteq> Log ERROR ''Encryption at REST can be enabled only on OCS >= 4.6!''"
  "Sleep n \<noteq> Log ERROR ''Encryption at REST can be enabled only on OCS >= 4.6!''"
  "Log INFO msg \<noteq> Log ERROR ''Encryption at REST can be enabled only on OCS >= 4.6!''"
  by simp_all

lemma subscribe_ocs_creates:
  "emits (subscribe_ocs E C K)
     (\<lambda>r new. list_all (\<lambda>ev. ev \<noteq> Log ERROR ''Encryption at REST can be enabled only on OCS >= 4.6!'') new
        \<and> (\<forall>x. r = Inr x \<longrightarrow> Call (OcCreate (TempFile ''subscription_manifest'') None) \<in> set new))"
proof -
  let ?Q = "\<lambda>ev. ev \<noteq> Log ERROR ''Encryption at REST can be enabled only on OCS >= 4.6!''"
  let ?T = "\<lambda>r new. list_all ?Q new
        \<and> (\<forall>x. r = Inr x \<longrightarrow> Call (OcCreate (TempFile ''subscription_manifest'') None) \<in> set new)"
  have b: "emits (bnd m f) ?T" if "only ?Q m" and "\<And>x. emits (f x) ?T"
    for m :: "'a prog" and f :: "'a \<Rightarrow> unit prog"
    by (rule emits_bnd_prefix [OF that]) auto
  have s: "emits (seq m n) ?T" if "only ?Q m" and "emits n ?T"
    for m :: "'a prog" and n :: "unit prog"
    unfolding seq_def by (rule b [OF that(1)]) (rule that(2))
  have t: "emits (seq (oc_create E (TempFile ''subscription_manifest'') None)
            (if subscription_plan_approval (DEPLOYMENT C) = Some ''Manual''
             then call_unit E (WaitForInstallPlanAndApprove (namespace C)) else ret ())) ?T"
    by (auto simp: emits_def prog_defs oc_create_def call_unit_def split: option.splits)
  show ?thesis
    unfolding subscribe_ocs_def Let_def
    apply (rule b, simp add: only_call_str)
    apply (rule s, simp add: only_call_unit)
    apply (rule b, simp add: only_call_str)
    apply (rule b, simp add: only_call_sub)
    apply (rule b)
     apply (auto intro!: only_intros)[1]
    apply (rule s, simp add: only_call_unit)
    apply (rule s, simp add: only_call_unit)
    apply (rule t)
    done
qed

lemma version_check_after_creates:
  "emits (deploy_ocs_via_operator E C K)
     (\<lambda>r new. Log ERROR ''Encryption at REST can be enabled only on OCS >= 4.6!'' \<in> set new \<longrightarrow>
        (\<exists>a b c. new = a @ Call (OcCreate (Path OLM_YAML) None)
                       # b @ Call (OcCreate (TempFile ''subscription_manifest'') None) # c
           \<and> Log ERROR ''Encryption at REST can be enabled only on OCS >= 4.6!'' \<notin> set a
           \<and> Log ERROR ''Encryption at REST can be enabled only on OCS >= 4.6!'' \<notin> set b))"
proof -
  let ?M = "Log ERROR ''Encryption at REST can be enabled only on OCS >= 4.6!''"
  let ?O = "Call (OcCreate (Path OLM_YAML) None)"
  let ?S = "Call (OcCreate (TempFile ''subscription_manifest'') None)"
  let ?Q = "\<lambda>ev. ev \<noteq> ?M"
  let ?R = "\<lambda>(r :: exn + unit) new. list_all ?Q new
              \<or> (\<exists>a b c. new = a @ ?O # b @ ?S # c \<and> list_all ?Q a \<and> list_all ?Q b)"
  let ?R' = "\<lambda>(r :: exn + unit) new. list_all ?Q new
              \<or> (\<exists>b c. new = b @ ?S # c \<and> list_all ?Q b)"
  have pre: "emits (seq m n) ?R" if "only ?Q m" and "emits n ?R"
    for m :: "unit prog" and n :: "unit prog"
    unfolding seq_def
  proof (rule emits_bnd_prefix [OF that(1)])
    show "emits n ?R" by (rule that(2))
  next
    fix e :: exn and n :: "event list"
    assume "list_all ?Q n" then show "?R (Inl e) n" by simp
  next
    fix r :: "exn + unit" and n1 n2 :: "event list"
    assume q: "list_all ?Q n1" and "?R r n2"
    then show "?R r (n1 @ n2)"
    proof (elim disjE exE conjE)
      assume "list_all ?Q n2" then show ?thesis using q by simp
    next
      fix a b c
      assume "n2 = a @ ?O # b @ ?S # c" "list_all ?Q a" "list_all ?Q b"
      then have "n1 @ n2 = (n1 @ a) @ ?O # b @ ?S # c \<and> list_all ?Q (n1 @ a) \<and> list_all ?Q b"
        using q by simp
      then show ?thesis by blast
    qed
  qed
  have pre': "emits (seq m n) ?R'" if "only ?Q m" and "emits n ?R'"
    for m :: "unit prog" and n :: "unit prog"
    unfolding seq_def
  proof (rule emits_bnd_prefix [OF that(1)])
    show "emits n ?R'" by (rule that(2))
  next
    fix e :: exn and n :: "event list"
    assume "list_all ?Q n" then show "?R' (Inl e) n" by simp
  next
    fix r :: "exn + unit" and n1 n2 :: "event list"
    assume q: "list_all ?Q n1" and "?R' r n2"
    then show "?R' r (n1 @ n2)"
    proof (elim disjE exE conjE)
      assume "list_all ?Q n2" then show ?thesis using q by simp
    next
      fix b c
      assume "n2 = b @ ?S # c" "list_all ?Q b"
      then have "n1 @ n2 = (n1 @ b) @ ?S # c \<and> list_all ?Q (n1 @ b)"
        using q by simp
      then show ?thesis by blast
    qed
  qed
  have rest: "only (\<lambda>_. True)
     (bnd (wait_for_csv E C K) (\<lambda>csv_name.
        seq (case (csv_change_from (DEPLOYMENT C), csv_change_to (DEPLOYMENT C)) of
               (Some replace_from, Some replace_to) \<Rightarrow>
                 call_unit E (ModifyCsv csv_name replace_from replace_to)
             | _ \<Rightarrow> ret ())
       (seq (case CUSTOM_STORAGE_CLASS_PATH C of
               Some custom_path \<Rightarrow>
                 bnd (call_str E (OpenCustomStorageClass custom_path)) (\<lambda>custom_sc_name.
                 seq (set_DEFAULT_STORAGECLASS custom_sc_name)
                     (oc_create E (Path custom_path) None))
             | None \<Rightarrow> ret ())
            (create_storage_cluster E C K))))"
    (is "only _ ?rest")
    by (auto simp: plain_def
        intro!: only_intros only_wait_for_csv only_any_create_storage_cluster
        split: option.splits)
  have sub: "emits (seq (subscribe_ocs E C K) n) ?R'" if "only (\<lambda>_. True) n"
    for n :: "unit prog"
    unfolding seq_def
  proof (rule emits_weaken [OF emits_bnd [OF subscribe_ocs_creates only_emits [OF that]]])
    fix r :: "exn + unit" and new :: "event list"
    assume "(\<exists>e. r = Inl e \<and> (list_all ?Q new
               \<and> (\<forall>x. (Inl e :: exn + unit) = Inr x \<longrightarrow> ?S \<in> set new)))
          \<or> (\<exists>x n1 n2. new = n1 @ n2
               \<and> (list_all ?Q n1 \<and> (\<forall>y. (Inr x :: exn + unit) = Inr y \<longrightarrow> ?S \<in> set n1))
               \<and> list_all (\<lambda>_. True) n2)"
    then show "?R' r new"
    proof (elim disjE exE conjE)
      fix e assume "list_all ?Q new" then show ?thesis by simp
    next
      fix x :: unit and n1 n2 :: "event list"
      assume new: "new = n1 @ n2" and q: "list_all ?Q n1"
        and "\<forall>y. (Inr x :: exn + unit) = Inr y \<longrightarrow> ?S \<in> set n1"
      then have "?S \<in> set n1" by simp
      then obtain b c where bc: "n1 = b @ ?S # c" by (meson split_list)
      then have "new = b @ ?S # (c @ n2) \<and> list_all ?Q b" using new q by simp
      then show ?thesis by blast
    qed
  qed
  have olm: "emits (seq (oc_create E (Path OLM_YAML) None) n) ?R" if "emits n ?R'"
    for n :: "unit prog"
    unfolding seq_def oc_create_def
  proof (rule emits_weaken [OF emits_bnd [OF emits_call_unit that]])
    fix r :: "exn + unit" and new :: "event list"
    assume "(\<exists>e. r = Inl e \<and> new = [?O])
          \<or> (\<exists>x n1 n2. new = n1 @ n2 \<and> n1 = [?O] \<and> ?R' r n2)"
    then show "?R r new"
    proof (elim disjE exE conjE)
      fix e assume "new = [?O]" then show ?thesis by simp
    next
      fix n1 n2 :: "event list"
      assume "new = n1 @ n2" "n1 = [?O]" "list_all ?Q n2"
      then show ?thesis by simp
    next
      fix n1 n2 b c :: "event list"
      assume "new = n1 @ n2" "n1 = [?O]" "n2 = b @ ?S # c" "list_all ?Q b"
      then have "new = [] @ ?O # b @ ?S # c \<and> list_all ?Q [] \<and> list_all ?Q b" by simp
      then show ?thesis by blast
    qed
  qed
  have src: "only ?Q (if \<not> live_deployment (DEPLOYMENT C)
                       then create_ocs_operator_source E C else ret ())"
    by (auto simp: create_ocs_operator_source_def intro!: only_intros)
  have all: "emits (deploy_ocs_via_operator E C K) ?R"
  proof (cases "ui_deployment (DEPLOYMENT C)")
    case True
    have "only ?Q (deploy_ocs_via_operator E C K)"
      using True
      by (auto simp: deploy_ocs_via_operator_def create_ocs_operator_source_def
            deployment_with_ui_def intro!: only_intros)
    then show ?thesis by (rule emits_weaken [OF only_emits]) simp
  next
    case False
    show ?thesis
      unfolding deploy_ocs_via_operator_def using False
      apply (simp only: if_False)
      apply (rule pre)
       apply (auto intro!: only_intros)[1]
      apply (rule pre, simp add: only_logger)
      apply (rule pre, simp add: only_call_unit)
      apply (rule pre, simp add: only_logger)
      apply (rule olm)
      apply (rule pre' [OF src])
      apply (rule sub [OF rest])
      done
  qed
  show ?thesis
    by (rule emits_weaken [OF all]) (auto simp: list_all_iff)
qed


section \<open>The error line of the version check and the result\<close>

lemma raises_bnd:
  assumes "only (\<lambda>ev. ev \<noteq> M) m"
      and "\<And>x. emits (f x) (\<lambda>r new. M \<in> set new \<longrightarrow> r = Inl X)"
  shows "emits (bnd m f) (\<lambda>r new. M \<in> set new \<longrightarrow> r = Inl X)"
  by (rule emits_bnd_prefix [OF assms]) (auto simp: list_all_iff)

lemma raises_seq:
  "only (\<lambda>ev. ev \<noteq> M) m \<Longrightarrow> emits n (\<lambda>r new. M \<in> set new \<longrightarrow> r = Inl X)
     \<Longrightarrow> emits (seq m n) (\<lambda>r new. M \<in> set new \<longrightarrow> r = Inl X)"
  by (simp add: seq_def raises_bnd)

lemma raises_only:
  "only (\<lambda>ev. ev \<noteq> M) m \<Longrightarrow> emits m (\<lambda>r new. M \<in> set new \<longrightarrow> r = Inl X)"
  by (rule emits_weaken [OF only_emits]) (auto simp: list_all_iff)

lemma raises_then_only:
  assumes "emits m (\<lambda>r new. M \<in> set new \<longrightarrow> r = Inl X)"
      and "\<And>x. only (\<lambda>ev. ev \<noteq> M) (f x)"
  shows "emits (bnd m f) (\<lambda>r new. M \<in> set new \<longrightarrow> r = Inl X)"
  by (rule emits_weaken [OF emits_bnd [OF assms(1) only_emits [OF assms(2)]]])
     (auto simp: list_all_iff)

lemma only_calls_ibm_devicesets:
  "(\<And>c. P (Call c)) \<Longrightarrow> only P (ibm_devicesets E C K is cd ds)"
proof (induction "is" arbitrary: cd ds)
  case Nil
  have "ibm_devicesets E C K [] cd ds = ret (cd, ds)" by (rule ext) simp
  then show ?case by (simp add: only_ret)
next
  case (Cons i rest)
  have "ibm_devicesets E C K (i # rest) cd ds =
          bnd (ibm_deviceset E C K cd i) (\<lambda>(cd', d). ibm_devicesets E C K rest cd' (ds @ [d]))"
    by (rule ext) simp
  moreover have "only P (ibm_deviceset E C K cd i)"
    using Cons.prems
    by (auto simp: ibm_deviceset_def first_pv_size_def Let_def intro!: only_intros
        split: list.splits)
  ultimately show ?case
    using Cons by (auto intro!: only_bnd split: prod.splits)
qed

lemma only_calls_default_deviceset:
  "(\<And>c. P (Call c)) \<Longrightarrow> only P (default_deviceset E C K cd)"
  by (auto simp: default_deviceset_def first_pv_size_def Let_def intro!: only_intros
      split: list.splits prod.splits)

lemma version_check_raises_storage_cluster_data:
  "emits (storage_cluster_data E C K)
     (\<lambda>r new. Log ERROR ''Encryption at REST can be enabled only on OCS >= 4.6!'' \<in> set new \<longrightarrow>
        r = Inl (UnsupportedFeatureError ''Encryption at REST can be enabled only on OCS >= 4.6!''))"
  unfolding storage_cluster_data_def Let_def
  apply (rule raises_bnd)
   apply (auto intro!: only_intros)[1]
  apply (rule raises_bnd)
   apply (auto intro!: only_intros only_calls_ibm_devicesets only_calls_default_deviceset
      split: prod.splits)[1]
  apply (auto simp: emits_def prog_defs split: option.splits prod.splits)
  done

lemma version_check_raises_create_storage_cluster:
  "emits (create_storage_cluster E C K)
     (\<lambda>r new. Log ERROR ''Encryption at REST can be enabled only on OCS >= 4.6!'' \<in> set new \<longrightarrow>
        r = Inl (UnsupportedFeatureError ''Encryption at REST can be enabled only on OCS >= 4.6!''))"
  unfolding create_storage_cluster_def
  by (rule raises_then_only [OF version_check_raises_storage_cluster_data])
     (auto intro!: only_intros)

lemma version_check_raises:
  "emits (deploy_ocs_via_operator E C K)
     (\<lambda>r new. Log ERROR ''Encryption at REST can be enabled only on OCS >= 4.6!'' \<in> set new \<longrightarrow>
        r = Inl (UnsupportedFeatureError ''Encryption at REST can be enabled only on OCS >= 4.6!''))"
proof (cases "ui_deployment (DEPLOYMENT C)")
  case True
  have "only (\<lambda>ev. ev \<noteq> Log ERROR ''Encryption at REST can be enabled only on OCS >= 4.6!'')
          (deploy_ocs_via_operator E C K)"
    using True
    by (auto simp: deploy_ocs_via_operator_def create_ocs_operator_source_def
          deployment_with_ui_def intro!: only_intros)
  then show ?thesis by (rule raises_only)
next
  case False
  show ?thesis
    unfolding deploy_ocs_via_operator_def using False
    apply (simp only: if_False)
    apply (rule raises_seq)
     apply (auto intro!: only_intros)[1]
    apply (rule raises_seq, simp add: only_logger)
    apply (rule raises_seq, simp add: only_call_unit)
    apply (rule raises_seq, simp add: only_logger)
    apply (rule raises_seq, simp add: only_oc_create)
    apply (rule raises_seq)
     apply (auto simp: create_ocs_operator_source_def intro!: only_intros)[1]
    apply (rule raises_seq)
     apply (auto simp: subscribe_ocs_def Let_def intro!: only_intros)[1]
    apply (rule raises_bnd)
     apply (auto simp: wait_for_csv_def intro!: only_intros)[1]
    apply (rule raises_seq)
     apply (auto intro!: only_intros split: option.splits)[1]
    apply (rule raises_seq)
     apply (auto intro!: only_intros split: option.splits)[1]
    apply (rule version_check_raises_create_storage_cluster)
    done
qed

lemma lower_baremetal: "lower ''baremetal'' = ''baremetal''"
  by code_simp

lemma config_encrypt_baremetal_fields:
  "ENV_DATA config_encrypt_baremetal =
     env_data0\<lparr>platform := ''baremetal'', encryption_at_rest := True, ocs_version := 4.5\<rparr>"
  "DEPLOYMENT config_encrypt_baremetal = deployment0"
  "DEFAULT_STORAGECLASS_LSO config_encrypt_baremetal = ''localblock''"
  "CUSTOM_STORAGE_CLASS_PATH config_encrypt_baremetal = None"
  by (simp_all add: config_encrypt_baremetal_def config0_def)

lemma env_local_volumes_answers:
  "answer_strs env_local_volumes h c = Inr [''100Gi'']"
  "answer_num env_local_volumes h c = Inr double_4_6"
  "answer_cluster env_local_volumes h c = Inr template0"
  by (simp_all add: env_local_volumes_def env_ok_def)

text \<open>
  Claim C3, amended.  When encryption at rest is requested, the OCS version is below 4.6
  (as the code compares it: the double of the configured version is less than the double
  of \<open>4.6\<close>) and the platform is not IBM Power, \<open>deploy_ocs_via_operator\<close> never issues
  the create call of the StorageCluster (\<open>oc create -f\<close> on the \<open>cluster_storage\<close> file,
  timeout 2400), whatever the collaborators answer; outside a UI deployment it always
  ends with an exception; and once the template is read with a device set in it, the size
  of the local volumes is known (bare metal only) and the OCP version is known, the
  assembly of the StorageCluster document (lines 420-577) raises
  \<open>UnsupportedFeatureError\<close> right after the error is logged, before
  the document is written to a file.  The error is not raised before any create call:
  whenever its line is logged, \<open>deploy_ocs_via_operator\<close> ends with
  \<open>UnsupportedFeatureError\<close>, and the creation of the namespace and operator group and the
  creation of the subscription were called before the line, in this order.
\<close>

theorem deploy_ocs_via_operator_encryption_unsupported:
  assumes "encryption_at_rest (ENV_DATA C)" and "ocs_version (ENV_DATA C) < double_4_6"
      and "platform (ENV_DATA C) \<noteq> IBM_POWER_PLATFORM K"
  shows "Call (OcCreate (TempFile ''cluster_storage'') (Some 2400))
           \<notin> set (new_events s (snd (deploy_ocs_via_operator E C K s)))
       \<and> (\<not> ui_deployment (DEPLOYMENT C) \<longrightarrow> (\<exists>e. fst (deploy_ocs_via_operator E C K s) = Inl e))
       \<and> (answer_cluster E (trace s) (LoadYaml STORAGE_CLUSTER_YAML) = Inr cd0
            \<and> cd_storageDeviceSets cd0 \<noteq> []
            \<and> (lower (platform (ENV_DATA C)) = BAREMETAL_PLATFORM K \<longrightarrow>
                 answer_strs E (trace s @ [Call (LoadYaml STORAGE_CLUSTER_YAML)])
                   (GetPvSize (DEFAULT_STORAGECLASS_LSO C)) = Inr sizes \<and> sizes \<noteq> [])
            \<and> answer_num E
                 (trace s @ Call (LoadYaml STORAGE_CLUSTER_YAML)
                    # (if lower (platform (ENV_DATA C)) = BAREMETAL_PLATFORM K
                       then [Call (GetPvSize (DEFAULT_STORAGECLASS_LSO C))] else []))
                 GetOcpVersion = Inr v
          \<longrightarrow> create_storage_cluster E C K s =
                (Inl (UnsupportedFeatureError ''Encryption at REST can be enabled only on OCS >= 4.6!''),
                 s\<lparr>trace := trace s @ Call (LoadYaml STORAGE_CLUSTER_YAML)
                      # (if lower (platform (ENV_DATA C)) = BAREMETAL_PLATFORM K
                         then [Call (GetPvSize (DEFAULT_STORAGECLASS_LSO C))] else [])
                      @ [Call GetOcpVersion,
                         Log ERROR ''Encryption at REST can be enabled only on OCS >= 4.6!'']\<rparr>))
       \<and> (Log ERROR ''Encryption at REST can be enabled only on OCS >= 4.6!''
            \<in> set (new_events s (snd (deploy_ocs_via_operator E C K s))) \<longrightarrow>
          fst (deploy_ocs_via_operator E C K s) =
            Inl (UnsupportedFeatureError ''Encryption at REST can be enabled only on OCS >= 4.6!'')
          \<and> (\<exists>a b c. new_events s (snd (deploy_ocs_via_operator E C K s)) =
                      a @ Call (OcCreate (Path OLM_YAML) None)
                        # b @ Call (OcCreate (TempFile ''subscription_manifest'') None) # c
             \<and> Log ERROR ''Encryption at REST can be enabled only on OCS >= 4.6!'' \<notin> set a
             \<and> Log ERROR ''Encryption at REST can be enabled only on OCS >= 4.6!'' \<notin> set b))"
proof (intro conjI)
  let ?P = "\<lambda>ev. ev \<noteq> Call (OcCreate (TempFile ''cluster_storage'') (Some 2400))"
  have p: "plain ?P" by (auto simp: plain_def)
  have "only ?P (deploy_ocs_via_operator E C K)"
    by (rule only_deploy_ocs_via_operator [OF p _ _ only_create_storage_cluster_fails [OF assms p]])
       simp_all
  then have "list_all ?P (new_events s (snd (deploy_ocs_via_operator E C K s)))"
    by (rule only_new_events)
  then show "Call (OcCreate (TempFile ''cluster_storage'') (Some 2400))
           \<notin> set (new_events s (snd (deploy_ocs_via_operator E C K s)))"
    by (auto simp: list_all_iff)
next
  show "\<not> ui_deployment (DEPLOYMENT C) \<longrightarrow> (\<exists>e. fst (deploy_ocs_via_operator E C K s) = Inl e)"
    using fails_deploy_ocs_via_operator [OF assms] by (simp add: fails_def)
next
  show "answer_cluster E (trace s) (LoadYaml STORAGE_CLUSTER_YAML) = Inr cd0
            \<and> cd_storageDeviceSets cd0 \<noteq> []
            \<and> (lower (platform (ENV_DATA C)) = BAREMETAL_PLATFORM K \<longrightarrow>
                 answer_strs E (trace s @ [Call (LoadYaml STORAGE_CLUSTER_YAML)])
                   (GetPvSize (DEFAULT_STORAGECLASS_LSO C)) = Inr sizes \<and> sizes \<noteq> [])
            \<and> answer_num E
                 (trace s @ Call (LoadYaml STORAGE_CLUSTER_YAML)
                    # (if lower (platform (ENV_DATA C)) = BAREMETAL_PLATFORM K
                       then [Call (GetPvSize (DEFAULT_STORAGECLASS_LSO C))] else []))
                 GetOcpVersion = Inr v
          \<longrightarrow> create_storage_cluster E C K s =
                (Inl (UnsupportedFeatureError ''Encryption at REST can be enabled only on OCS >= 4.6!''),
                 s\<lparr>trace := trace s @ Call (LoadYaml STORAGE_CLUSTER_YAML)
                      # (if lower (platform (ENV_DATA C)) = BAREMETAL_PLATFORM K
                         then [Call (GetPvSize (DEFAULT_STORAGECLASS_LSO C))] else [])
                      @ [Call GetOcpVersion,
                         Log ERROR ''Encryption at REST can be enabled only on OCS >= 4.6!'']\<rparr>)"
  proof
    assume h: "answer_cluster E (trace s) (LoadYaml STORAGE_CLUSTER_YAML) = Inr cd0
            \<and> cd_storageDeviceSets cd0 \<noteq> []
            \<and> (lower (platform (ENV_DATA C)) = BAREMETAL_PLATFORM K \<longrightarrow>
                 answer_strs E (trace s @ [Call (LoadYaml STORAGE_CLUSTER_YAML)])
                   (GetPvSize (DEFAULT_STORAGECLASS_LSO C)) = Inr sizes \<and> sizes \<noteq> [])
            \<and> answer_num E
                 (trace s @ Call (LoadYaml STORAGE_CLUSTER_YAML)
                    # (if lower (platform (ENV_DATA C)) = BAREMETAL_PLATFORM K
                       then [Call (GetPvSize (DEFAULT_STORAGECLASS_LSO C))] else []))
                 GetOcpVersion = Inr v"
    have "storage_cluster_data E C K s =
           (Inl (UnsupportedFeatureError ''Encryption at REST can be enabled only on OCS >= 4.6!''),
            s\<lparr>trace := trace s @ Call (LoadYaml STORAGE_CLUSTER_YAML)
                 # (if lower (platform (ENV_DATA C)) = BAREMETAL_PLATFORM K
                    then [Call (GetPvSize (DEFAULT_STORAGECLASS_LSO C))] else [])
                 @ [Call GetOcpVersion,
                    Log ERROR ''Encryption at REST can be enabled only on OCS >= 4.6!'']\<rparr>)"
      by (rule storage_cluster_data_unsupported [OF assms, of E s cd0 sizes v]) (use h in simp_all)
    then show "create_storage_cluster E C K s =
                (Inl (UnsupportedFeatureError ''Encryption at REST can be enabled only on OCS >= 4.6!''),
                 s\<lparr>trace := trace s @ Call (LoadYaml STORAGE_CLUSTER_YAML)
                      # (if lower (platform (ENV_DATA C)) = BAREMETAL_PLATFORM K
                         then [Call (GetPvSize (DEFAULT_STORAGECLASS_LSO C))] else [])
                      @ [Call GetOcpVersion,
                         Log ERROR ''Encryption at REST can be enabled only on OCS >= 4.6!'']\<rparr>)"
      by (simp add: create_storage_cluster_def bnd_def)
  qed
next
  show "Log ERROR ''Encryption at REST can be enabled only on OCS >= 4.6!''
            \<in> set (new_events s (snd (deploy_ocs_via_operator E C K s))) \<longrightarrow>
          fst (deploy_ocs_via_operator E C K s) =
            Inl (UnsupportedFeatureError ''Encryption at REST can be enabled only on OCS >= 4.6!'')
          \<and> (\<exists>a b c. new_events s (snd (deploy_ocs_via_operator E C K s)) =
                      a @ Call (OcCreate (Path OLM_YAML) None)
                        # b @ Call (OcCreate (TempFile ''subscription_manifest'') None) # c
             \<and> Log ERROR ''Encryption at REST can be enabled only on OCS >= 4.6!'' \<notin> set a
             \<and> Log ERROR ''Encryption at REST can be enabled only on OCS >= 4.6!'' \<notin> set b)"
    using emits_new_events [OF version_check_after_creates [of E C K], of s]
          emits_new_events [OF version_check_raises [of E C K], of s]
    by blast
qed

theorem deploy_ocs_via_operator_encryption_unsupported_witness:
  "Call (OcCreate (TempFile ''cluster_storage'') (Some 2400))
     \<notin> set (new_events state0 (snd (deploy_ocs_via_operator env_ok config_encrypt constants0 state0)))
   \<and> (\<exists>e. fst (deploy_ocs_via_operator env_ok config_encrypt constants0 state0) = Inl e)
   \<and> create_storage_cluster env_ok config_encrypt constants0 state0 =
       (Inl (UnsupportedFeatureError ''Encryption at REST can be enabled only on OCS >= 4.6!''),
        state0\<lparr>trace :=
           [Call (LoadYaml ''ocs_ci/templates/ocs-deployment/storage-cluster.yaml''),
            Call GetOcpVersion,
            Log ERROR ''Encryption at REST can be enabled only on OCS >= 4.6!'']\<rparr>)
   \<and> create_storage_cluster env_local_volumes config_encrypt_baremetal constants0 state0 =
       (Inl (UnsupportedFeatureError ''Encryption at REST can be enabled only on OCS >= 4.6!''),
        state0\<lparr>trace :=
           [Call (LoadYaml ''ocs_ci/templates/ocs-deployment/storage-cluster.yaml''),
            Call (GetPvSize ''localblock''),
            Call GetOcpVersion,
            Log ERROR ''Encryption at REST can be enabled only on OCS >= 4.6!'']\<rparr>)
   \<and> fst (deploy_ocs_via_operator env_ok config_encrypt constants0 state0) =
       Inl (UnsupportedFeatureError ''Encryption at REST can be enabled only on OCS >= 4.6!'')
   \<and> (\<exists>a b c. new_events state0 (snd (deploy_ocs_via_operator env_ok config_encrypt constants0 state0)) =
          a @ Call (OcCreate (Path ''ocs_ci/templates/ocs-deployment/deploy-with-olm.yaml'') None)
            # b @ Call (OcCreate (TempFile ''subscription_manifest'') None) # c
        \<and> Log ERROR ''Encryption at REST can be enabled only on OCS >= 4.6!'' \<notin> set a
        \<and> Log ERROR ''Encryption at REST can be enabled only on OCS >= 4.6!'' \<notin> set b)"
proof -
  have a: "encryption_at_rest (ENV_DATA config_encrypt)"
    and b: "ocs_version (ENV_DATA config_encrypt) < double_4_6"
    and c: "platform (ENV_DATA config_encrypt) \<noteq> IBM_POWER_PLATFORM constants0"
    by (simp_all add: config_encrypt_fields env_data0_fields constants0_fields double_4_6_def)
  have a': "encryption_at_rest (ENV_DATA config_encrypt_baremetal)"
    and b': "ocs_version (ENV_DATA config_encrypt_baremetal) < double_4_6"
    and c': "platform (ENV_DATA config_encrypt_baremetal) \<noteq> IBM_POWER_PLATFORM constants0"
    by (simp_all add: config_encrypt_baremetal_fields env_data0_fields constants0_fields
          double_4_6_def)
  have logged: "Log ERROR ''Encryption at REST can be enabled only on OCS >= 4.6!''
      \<in> set (new_events state0 (snd (deploy_ocs_via_operator env_ok config_encrypt constants0 state0)))"
    by (simp add: via_operator_defs env_ok_answers config_encrypt_fields env_data0_fields
          deployment0_fields constants0_fields namespace_def lower_aws state0_fields template0_def
          double_4_6_def new_events_def)
  from deploy_ocs_via_operator_encryption_unsupported [OF a b c, where E = env_ok and s = state0
         and ?cd0.0 = template0 and v = double_4_6 and sizes = "[]"]
  have 1: "Call (OcCreate (TempFile ''cluster_storage'') (Some 2400))
     \<notin> set (new_events state0 (snd (deploy_ocs_via_operator env_ok config_encrypt constants0 state0)))
   \<and> (\<exists>e. fst (deploy_ocs_via_operator env_ok config_encrypt constants0 state0) = Inl e)
   \<and> create_storage_cluster env_ok config_encrypt constants0 state0 =
       (Inl (UnsupportedFeatureError ''Encryption at REST can be enabled only on OCS >= 4.6!''),
        state0\<lparr>trace :=
           [Call (LoadYaml ''ocs_ci/templates/ocs-deployment/storage-cluster.yaml''),
            Call GetOcpVersion,
            Log ERROR ''Encryption at REST can be enabled only on OCS >= 4.6!'']\<rparr>)
   \<and> fst (deploy_ocs_via_operator env_ok config_encrypt constants0 state0) =
       Inl (UnsupportedFeatureError ''Encryption at REST can be enabled only on OCS >= 4.6!'')
   \<and> (\<exists>a b c. new_events state0 (snd (deploy_ocs_via_operator env_ok config_encrypt constants0 state0)) =
          a @ Call (OcCreate (Path ''ocs_ci/templates/ocs-deployment/deploy-with-olm.yaml'') None)
            # b @ Call (OcCreate (TempFile ''subscription_manifest'') None) # c
        \<and> Log ERROR ''Encryption at REST can be enabled only on OCS >= 4.6!'' \<notin> set a
        \<and> Log ERROR ''Encryption at REST can be enabled only on OCS >= 4.6!'' \<notin> set b)"
    using logged
    by (simp add: config_encrypt_fields env_data0_fields deployment0_fields constants0_fields
          env_ok_answers lower_aws state0_fields template0_def
          STORAGE_CLUSTER_YAML_def OLM_YAML_def TEMPLATE_DEPLOYMENT_DIR_def)
  from deploy_ocs_via_operator_encryption_unsupported [OF a' b' c', where E = env_local_volumes
         and s = state0 and ?cd0.0 = template0 and v = double_4_6 and sizes = "[''100Gi'']"]
  have 2: "create_storage_cluster env_local_volumes config_encrypt_baremetal constants0 state0 =
       (Inl (UnsupportedFeatureError ''Encryption at REST can be enabled only on OCS >= 4.6!''),
        state0\<lparr>trace :=
           [Call (LoadYaml ''ocs_ci/templates/ocs-deployment/storage-cluster.yaml''),
            Call (GetPvSize ''localblock''),
            Call GetOcpVersion,
            Log ERROR ''Encryption at REST can be enabled only on OCS >= 4.6!'']\<rparr>)"
    by (simp add: config_encrypt_baremetal_fields env_data0_fields deployment0_fields
          constants0_fields env_local_volumes_answers lower_baremetal state0_fields template0_def
          STORAGE_CLUSTER_YAML_def TEMPLATE_DEPLOYMENT_DIR_def)
  from 1 2 show ?thesis by simp
qed

end
